theory Spec2Isabelle
  imports
    Main
    "HOL-Library.Sublist"
    "HOL-Library.AList"
    "HOL-Library.Char_ord"
    "HOL-Library.List_Lexorder"
begin

section \<open>Python values, exceptions and string helpers\<close>

text \<open>
  The three modules \<^verbatim>\<open>backend.py\<close>, \<^verbatim>\<open>cidl/loaders.py\<close> and \<^verbatim>\<open>truth_matcher.py\<close> are
  embedded as functions over an explicit state (the module globals and the logs of what was
  sent to the outside) and a fixed environment (what the outside answers: the process
  environment, the object store, the local file system, the parsers of pandas and json, the
  random generator of numpy).  A raised exception is the \<open>Inl\<close> branch of the result.
\<close>

type_synonym bytes = string

text \<open>
  Exceptions of the program.  \<open>ClientError code text\<close> is botocore's client error:
  \<open>code\<close> is \<^verbatim>\<open>e.response['Error']['Code']\<close> when that entry exists and \<open>text\<close> is \<^verbatim>\<open>str(e)\<close>.
  \<open>OtherError cls text\<close> is any other subclass of \<^verbatim>\<open>Exception\<close>.  \<open>KeyboardInterrupt\<close> stands
  for the exceptions that are not subclasses of \<^verbatim>\<open>Exception\<close> and that
  \<^verbatim>\<open>except Exception\<close> therefore lets through.
\<close>

datatype error =
    RuntimeError string
  | ValueError string
  | TypeError string
  | PermissionError string
  | FileNotFoundError string
  | KeyError string
  | AttributeError string
  | OverflowError string
  | EOFError string
  | ClientError "string option" string
  | OtherError string string
  | KeyboardInterrupt

fun is_Exception :: "error \<Rightarrow> bool" where
  "is_Exception KeyboardInterrupt = False"
| "is_Exception _ = True"

text \<open>\<^verbatim>\<open>str(e)\<close> of an exception (for a \<^verbatim>\<open>KeyError\<close> the repr of the key).\<close>

fun exc_str :: "error \<Rightarrow> string" where
  "exc_str (RuntimeError m) = m"
| "exc_str (ValueError m) = m"
| "exc_str (TypeError m) = m"
| "exc_str (PermissionError m) = m"
| "exc_str (FileNotFoundError m) = m"
| "exc_str (KeyError k) = [CHR 0x27] @ k @ [CHR 0x27]"
| "exc_str (AttributeError m) = m"
| "exc_str (OverflowError m) = m"
| "exc_str (EOFError m) = m"
| "exc_str (ClientError c t) = t"
| "exc_str (OtherError c t) = t"
| "exc_str KeyboardInterrupt = []"

text \<open>A parsed JSON document (numbers with a fraction are outside the model).\<close>

datatype json =
    JNull
  | JBool bool
  | JInt int
  | JStr string
  | JList "json list"
  | JDict "(string \<times> json) list"

text \<open>A parsed table as pandas returns it: column names and rows of cells.\<close>

datatype frame = Frame "string list" "string list list"

subsection \<open>Strings\<close>

text \<open>
  A string is a list of code points below 256.  \<^verbatim>\<open>c.isspace()\<close> holds for the code points
  9 to 13, 28 to 32, 133 (U+0085) and 160 (U+00A0) of that range; these are the characters
  \<^verbatim>\<open>str.strip()\<close> removes.
\<close>

definition py_isspace :: "char \<Rightarrow> bool" where
  "py_isspace c = ((of_char c :: nat) \<in> {9, 10, 11, 12, 13, 28, 29, 30, 31, 32, 133, 160})"

text \<open>\<^verbatim>\<open>s.strip()\<close> and \<^verbatim>\<open>s.strip("/")\<close>.\<close>

definition strip_chars :: "(char \<Rightarrow> bool) \<Rightarrow> string \<Rightarrow> string" where
  "strip_chars p s = rev (dropWhile p (rev (dropWhile p s)))"

definition strip :: "string \<Rightarrow> string" where
  "strip s = strip_chars py_isspace s"

definition lower_char :: "char \<Rightarrow> char" where
  "lower_char c =
     (let n = (of_char c :: nat) in if 65 \<le> n \<and> n \<le> 90 then char_of (n + 32) else c)"

definition lower :: "string \<Rightarrow> string" where
  "lower s = map lower_char s"

definition digit_char :: "nat \<Rightarrow> char" where
  "digit_char d = char_of (48 + d)"

fun str_nat :: "nat \<Rightarrow> string" where
  "str_nat n = (if n < 10 then [digit_char n] else str_nat (n div 10) @ [digit_char (n mod 10)])"

declare str_nat.simps [simp del]

text \<open>\<^verbatim>\<open>str(i)\<close> and the format \<^verbatim>\<open>{i:04d}\<close> (the sign counts in the width).\<close>

definition str_int :: "int \<Rightarrow> string" where
  "str_int i = (if i < 0 then CHR ''-'' # str_nat (nat (- i)) else str_nat (nat i))"

definition zfill :: "nat \<Rightarrow> string \<Rightarrow> string" where
  "zfill w s = replicate (w - length s) CHR ''0'' @ s"

definition fmt_04d :: "int \<Rightarrow> string" where
  "fmt_04d i = (if i < 0 then CHR ''-'' # zfill 3 (str_nat (nat (- i))) else zfill 4 (str_nat (nat i)))"

fun join :: "string \<Rightarrow> string list \<Rightarrow> string" where
  "join sep [] = []"
| "join sep [x] = x"
| "join sep (x # y # ys) = x @ sep @ join sep (y # ys)"

text \<open>\<^verbatim>\<open>str(xs)\<close> of a list of ints, as the f-strings of the messages print it.\<close>

definition str_int_list :: "int list \<Rightarrow> string" where
  "str_int_list xs = ''['' @ join '', '' (map str_int xs) @ '']''"

section \<open>Difficulty labels (\<^verbatim>\<open>cidl/loaders.py\<close>)\<close>

definition VALID_DIFFICULTIES :: "string set" where
  "VALID_DIFFICULTIES = {''all'', ''very_easy'', ''easy'', ''medium'', ''hard'', ''very_hard''}"

text \<open>
  \<^verbatim>\<open>_difficulty_to_tiers(difficulty)\<close>: \<open>None\<close> is Python's \<^verbatim>\<open>None\<close>, both as the
  argument and as the result (no filtering).  The message lists the sorted labels.
\<close>

definition difficulty_to_tiers :: "string option \<Rightarrow> error + string set option" where
  "difficulty_to_tiers difficulty =
     (case difficulty of
        None \<Rightarrow> Inr None
      | Some dl \<Rightarrow>
          (let d = strip dl in
           if d \<notin> VALID_DIFFICULTIES then
             Inl (ValueError (''Invalid difficulty='' @ [CHR 0x27] @ dl @ [CHR 0x27]
                    @ ''. Allowed values: all, easy, hard, medium, very_easy, very_hard''))
           else if d = ''all'' then Inr None
           else Inr (Some {d})))"

section \<open>The outside world and the module state\<close>

text \<open>
  What the program sends to the object store, in the order it sends it: the liveness probe
  \<^verbatim>\<open>_BUCKET.load()\<close>, a download, an upload, a deletion, a listing under a prefix.  The first
  component is the bucket name.
\<close>

datatype remote_op =
    Probe string
  | Get string string
  | Put string string
  | Delete string string
  | Listing string string

text \<open>A \<^verbatim>\<open>pathlib.Path\<close> is the list of its parts; \<^verbatim>\<open>.name\<close> is the last one.\<close>

type_synonym path = "string list"

definition path_name :: "path \<Rightarrow> string" where
  "path_name p = (if p = [] then [] else last p)"

definition path_str :: "path \<Rightarrow> string" where
  "path_str p = join ''/'' p"

text \<open>
  The environment: everything the program asks of the outside, as the answers it gets.
  \<^item> the two credentials of the process environment;
  \<^item> \<open>resource_create\<close>: the exception of \<^verbatim>\<open>session.resource(...)\<close>, if it raises;
  \<^item> \<open>bucket_load\<close>: the exception of the probe \<^verbatim>\<open>_BUCKET.load()\<close> on a bucket, if it raises;
  \<^item> \<open>download_fileobj\<close>, \<open>object_upload\<close>, \<open>object_delete\<close>, \<open>objects_filter\<close>: the
    outcome of the store operation on a bucket and a key (or prefix);
  \<^item> \<open>path_stat\<close>, \<open>path_glob\<close>, \<open>local_json\<close>: the local file system (\<open>local_json p = None\<close>
    when \<^verbatim>\<open>Path(p).exists()\<close> is false, else the outcome of \<^verbatim>\<open>json.load\<close> on the file);
  \<^item> \<open>json_loads\<close>: decoding and \<^verbatim>\<open>json.loads\<close> of downloaded bytes;
  \<^item> the readers of pandas; \<open>rng_choice seed population n\<close>: numpy's
    \<^verbatim>\<open>default_rng(seed).choice(np.array(population, dtype=int), size=n, replace=False).tolist()\<close>,
    with whatever numpy raises; \<open>os_entropy\<close>: the seeds \<^verbatim>\<open>default_rng(None)\<close> draws from the
    operating system, one per call;
  \<^item> the standard input: whether it is a terminal, and the lines it delivers.
\<close>

record env =
  UHH_S3_ACCESS :: "string option"
  UHH_S3_SECRET :: "string option"
  resource_create :: "error option"
  bucket_load :: "string \<Rightarrow> error option"
  download_fileobj :: "string \<Rightarrow> string \<Rightarrow> error + bytes"
  object_upload :: "string \<Rightarrow> string \<Rightarrow> error option"
  object_delete :: "string \<Rightarrow> string \<Rightarrow> error option"
  objects_filter :: "string \<Rightarrow> string \<Rightarrow> error + string list"
  path_stat :: "path \<Rightarrow> error + nat"
  path_glob :: "path \<Rightarrow> string \<Rightarrow> path list"
  local_json :: "string \<Rightarrow> (error + json) option"
  json_loads :: "bytes \<Rightarrow> error + json"
  read_parquet :: "bytes \<Rightarrow> error + frame"
  read_csv :: "bytes \<Rightarrow> error + frame"
  read_json_lines :: "bytes \<Rightarrow> error + frame"
  read_json :: "bytes \<Rightarrow> error + frame"
  rng_choice :: "int \<Rightarrow> int list \<Rightarrow> nat \<Rightarrow> error + int list"
  os_entropy :: "nat \<Rightarrow> int"
  stdin_isatty :: bool
  stdin_line :: "nat \<Rightarrow> string option"

text \<open>
  The state: the globals of \<^verbatim>\<open>backend.py\<close> (\<^verbatim>\<open>_S3\<close>, \<^verbatim>\<open>_BUCKET\<close>, \<^verbatim>\<open>_ACTIVE_ENDPOINT\<close>,
  \<^verbatim>\<open>_READ_ONLY\<close>; a handle is the endpoint or the bucket name it was made from), the two
  caches of \<^verbatim>\<open>loaders.py\<close>, the operations sent to the store so far, the warnings emitted
  through \<^verbatim>\<open>warnings.warn\<close>, and how much of the entropy and of the standard input is used up.
\<close>

record state =
  S3 :: "string option"
  BUCKET :: "string option"
  ACTIVE_ENDPOINT :: "string option"
  READ_ONLY :: bool
  CACHE :: "string \<rightharpoonup> bytes"
  META_CACHE :: "string \<rightharpoonup> json"
  remote_log :: "remote_op list"
  emitted :: "string list"
  entropy_used :: nat
  stdin_used :: nat

text \<open>The state when the modules are imported.\<close>

definition initial_state :: state where
  "initial_state =
     \<lparr> S3 = None, BUCKET = None, ACTIVE_ENDPOINT = None, READ_ONLY = True,
       CACHE = Map.empty, META_CACHE = Map.empty, remote_log = [], emitted = [],
       entropy_used = 0, stdin_used = 0 \<rparr>"

text \<open>A call: from a state to a result (or the exception raised) and the state left behind.\<close>

type_synonym 'a prog = "state \<Rightarrow> (error + 'a) \<times> state"

definition ret :: "'a \<Rightarrow> 'a prog" where
  "ret a = (\<lambda>s. (Inr a, s))"

definition throw :: "error \<Rightarrow> 'a prog" where
  "throw e = (\<lambda>s. (Inl e, s))"

definition seq :: "'a prog \<Rightarrow> ('a \<Rightarrow> 'b prog) \<Rightarrow> 'b prog" where
  "seq m f = (\<lambda>s. case m s of (Inl e, s') \<Rightarrow> (Inl e, s') | (Inr a, s') \<Rightarrow> f a s')"

text \<open>\<^verbatim>\<open>try: m  except Exception as e: h(e)\<close>.\<close>

definition try_except :: "'a prog \<Rightarrow> (error \<Rightarrow> 'a prog) \<Rightarrow> 'a prog" where
  "try_except m h =
     (\<lambda>s. case m s of
             (Inl e, s') \<Rightarrow> if is_Exception e then h e s' else (Inl e, s')
           | (Inr a, s') \<Rightarrow> (Inr a, s'))"

definition send :: "remote_op \<Rightarrow> unit prog" where
  "send op = (\<lambda>s. (Inr (), s\<lparr>remote_log := remote_log s @ [op]\<rparr>))"

definition lift :: "error + 'a \<Rightarrow> 'a prog" where
  "lift r = (\<lambda>s. (r, s))"

text \<open>The bucket handle; using \<^verbatim>\<open>_BUCKET\<close> while it is \<^verbatim>\<open>None\<close> is an \<^verbatim>\<open>AttributeError\<close>.\<close>

definition the_bucket :: "string prog" where
  "the_bucket =
     (\<lambda>s. case BUCKET s of
             None \<Rightarrow> (Inl (AttributeError ''NoneType object has no attribute''), s)
           | Some b \<Rightarrow> (Inr b, s))"

section \<open>\<^verbatim>\<open>backend.py\<close>\<close>

definition check_write_permission :: "unit prog" where
  "check_write_permission =
     (\<lambda>s. if READ_ONLY s then
             (Inl (PermissionError (''Write operation blocked. Backend is in read-only mode. ''
                @ ''Call connect_s3(read_only=False) with valid credentials.'')), s)
           else (Inr (), s))"

definition ENDPOINTS :: "(string \<times> string) list" where
  "ENDPOINTS =
     [(''primary'', ''https://s3-uhh.lzs.uni-hamburg.de:443''),
      (''site-1'', ''https://s3-uhh-s1.lzs.uni-hamburg.de:443''),
      (''site-2'', ''https://s3-uhh-s2.lzs.uni-hamburg.de:443''),
      (''site-3'', ''https://s3-uhh-s3.lzs.uni-hamburg.de:443'')]"

text \<open>\<^verbatim>\<open>not v\<close> for a value of \<^verbatim>\<open>os.environ.get\<close>: unset or the empty string.\<close>

definition falsy :: "string option \<Rightarrow> bool" where
  "falsy v = (case v of None \<Rightarrow> True | Some x \<Rightarrow> x = [])"

text \<open>
  The expression \<^verbatim>\<open>boto3.exceptions.ClientError\<close> of the first \<^verbatim>\<open>except\<close> clause around the
  probe.  Python evaluates it when an exception of the probe is matched against the clause.
  The module \<^verbatim>\<open>boto3.exceptions\<close> defines no \<^verbatim>\<open>ClientError\<close> (the class is
  \<^verbatim>\<open>botocore.exceptions.ClientError\<close>, which \<^verbatim>\<open>truth_matcher.py\<close> imports), so the evaluation
  raises \<^verbatim>\<open>AttributeError\<close>; \<open>Inr ()\<close> would be the class.
\<close>

definition boto3_exceptions_ClientError :: "error + unit" where
  "boto3_exceptions_ClientError =
     Inl (AttributeError (''module '' @ [CHR 0x27] @ ''boto3.exceptions'' @ [CHR 0x27]
       @ '' has no attribute '' @ [CHR 0x27] @ ''ClientError'' @ [CHR 0x27]))"

text \<open>
  The bodies of the two \<^verbatim>\<open>except\<close> clauses around the probe of \<^verbatim>\<open>connect_s3\<close>: what they raise
  for the exception \<open>e\<close> of \<^verbatim>\<open>_BUCKET.load()\<close> once it is matched.  The first clause is written
  for the client errors of the store and reads the code of the response (a \<^verbatim>\<open>KeyError\<close> when
  the response has none).
\<close>

fun probe_handlers :: "string \<Rightarrow> error \<Rightarrow> error" where
  "probe_handlers bucket_name (ClientError None text) = KeyError ''Code''"
| "probe_handlers bucket_name (ClientError (Some code) text) =
     (if code = ''InvalidAccessKeyId'' then
        RuntimeError ''S3 connection failed: Access Key is invalid.''
      else if code = ''SignatureDoesNotMatch'' then
        RuntimeError ''S3 connection failed: Secret Key is invalid.''
      else if code = ''AccessDenied'' then
        RuntimeError (''S3 connection failed: Access denied to bucket. ''
          @ ''Check credentials and bucket permissions.'')
      else if code = ''NoSuchBucket'' then
        RuntimeError (''S3 connection failed: Bucket '' @ [CHR 0x27] @ bucket_name @ [CHR 0x27]
          @ '' does not exist.'')
      else RuntimeError (''S3 connection failed: '' @ text))"
| "probe_handlers bucket_name e =
     (if is_Exception e then
        RuntimeError (''S3 connection failed: Unknown error ('' @ exc_str e @ '')'')
      else e)"

text \<open>
  What leaves the \<^verbatim>\<open>try\<close> statement around the probe when \<^verbatim>\<open>_BUCKET.load()\<close> raises \<open>e\<close>: the
  clauses are matched in order, and an exception raised while the first one is matched
  leaves the statement; no handler of the statement runs for it.
\<close>

definition probe_failure :: "string \<Rightarrow> error \<Rightarrow> error" where
  "probe_failure bucket_name e =
     (case boto3_exceptions_ClientError of
        Inl raised \<Rightarrow> raised
      | Inr cls \<Rightarrow> probe_handlers bucket_name e)"

text \<open>
  \<^verbatim>\<open>connect_s3(bucket_name, endpoint_key, read_only)\<close>.  The assignments to the globals are
  made where the source makes them: \<^verbatim>\<open>_READ_ONLY\<close> first, \<^verbatim>\<open>_ACTIVE_ENDPOINT\<close> once the
  endpoint is known, \<^verbatim>\<open>_S3\<close> and \<^verbatim>\<open>_BUCKET\<close> before the probe.
\<close>

definition connect_s3 :: "env \<Rightarrow> string \<Rightarrow> string \<Rightarrow> bool \<Rightarrow> (string \<times> string \<times> string) prog" where
  "connect_s3 E bucket_name endpoint_key read_only =
     (\<lambda>s0.
        let s1 = s0\<lparr>READ_ONLY := read_only\<rparr> in
        if falsy (UHH_S3_ACCESS E) \<and> falsy (UHH_S3_SECRET E) then
          (Inl (RuntimeError (''S3 connection failed: ACCESS_KEY and SECRET_KEY are missing ''
             @ ''in environment variables.'')), s1)
        else if falsy (UHH_S3_ACCESS E) then
          (Inl (RuntimeError
             ''S3 connection failed: ACCESS_KEY is missing in environment variables.''), s1)
        else if falsy (UHH_S3_SECRET E) then
          (Inl (RuntimeError
             ''S3 connection failed: SECRET_KEY is missing in environment variables.''), s1)
        else
          (case map_of ENDPOINTS endpoint_key of
             None \<Rightarrow>
               (Inl (ValueError (''Invalid endpoint '' @ [CHR 0x27] @ endpoint_key @ [CHR 0x27]
                  @ ''. Choose from ['' @ [CHR 0x27] @ ''primary'' @ [CHR 0x27] @ '', ''
                  @ [CHR 0x27] @ ''site-1'' @ [CHR 0x27] @ '', '' @ [CHR 0x27] @ ''site-2''
                  @ [CHR 0x27] @ '', '' @ [CHR 0x27] @ ''site-3'' @ [CHR 0x27] @ ''].'')), s1)
           | Some url \<Rightarrow>
               (let s2 = s1\<lparr>ACTIVE_ENDPOINT := Some url\<rparr> in
                case resource_create E of
                  Some e \<Rightarrow>
                    (if is_Exception e then
                       (Inl (RuntimeError (''S3 resource creation failed: '' @ exc_str e)), s2)
                     else (Inl e, s2))
                | None \<Rightarrow>
                    (let s3 = s2\<lparr>S3 := Some url, BUCKET := Some bucket_name,
                                   remote_log := remote_log s2 @ [Probe bucket_name]\<rparr> in
                     case bucket_load E bucket_name of
                       Some e \<Rightarrow> (Inl (probe_failure bucket_name e), s3)
                     | None \<Rightarrow> (Inr (url, bucket_name, url), s3)))))"

text \<open>\<^verbatim>\<open>_ensure_connected()\<close>: connects with the default arguments when no session is there.\<close>

definition ensure_connected :: "env \<Rightarrow> unit prog" where
  "ensure_connected E =
     (\<lambda>s. if S3 s = None \<or> BUCKET s = None then
             seq (connect_s3 E ''cidl-test'' ''primary'' True) (\<lambda>_. ret ()) s
           else (Inr (), s))"

text \<open>
  The second component of the triple \<^verbatim>\<open>upload_file\<close> returns, and the value
  \<^verbatim>\<open>delete_object\<close> and \<^verbatim>\<open>delete_prefix\<close> return: \<^verbatim>\<open>True\<close>, or the exception that was caught.
\<close>

datatype outcome = PyTrue | Caught error

definition upload_file :: "env \<Rightarrow> path \<Rightarrow> string \<Rightarrow> (string \<times> outcome \<times> string option) prog" where
  "upload_file E file_path key_prefix =
     seq (ensure_connected E) (\<lambda>_.
     seq check_write_permission (\<lambda>_.
     try_except
       (let key = key_prefix @ ''/'' @ path_name file_path in
        seq (lift (path_stat E file_path)) (\<lambda>file_size.
        seq the_bucket (\<lambda>b.
        seq (send (Put b key)) (\<lambda>_.
        seq (lift (case object_upload E b key of Some e \<Rightarrow> Inl e | None \<Rightarrow> Inr ())) (\<lambda>_.
        ret (path_name file_path, PyTrue, Some (''s3://'' @ b @ ''/'' @ key)))))))
       (\<lambda>e. ret (path_name file_path, Caught e, None))))"

text \<open>
  The uploads of \<^verbatim>\<open>upload_directory\<close>.  The source hands them to a pool of worker threads
  and reads the results in the order of the input (\<^verbatim>\<open>ex.map\<close>); here they run one after
  the other in that order, which is one of the schedules of the pool.
  \<^verbatim>\<open>ThreadPoolExecutor(max_workers)\<close> raises \<^verbatim>\<open>ValueError\<close> for a number that is not positive;
  \<open>None\<close> is Python's \<^verbatim>\<open>None\<close>, for which the pool chooses its size.
\<close>

fun upload_each ::
  "env \<Rightarrow> string \<Rightarrow> path list \<Rightarrow> (string \<times> outcome \<times> string option) list prog" where
  "upload_each E key_prefix [] = ret []"
| "upload_each E key_prefix (f # fs) =
     seq (upload_file E f key_prefix) (\<lambda>r.
     seq (upload_each E key_prefix fs) (\<lambda>rs. ret (r # rs)))"

definition upload_directory ::
  "env \<Rightarrow> path \<Rightarrow> string \<Rightarrow> int option \<Rightarrow> string list option
     \<Rightarrow> (string \<times> outcome) list prog" where
  "upload_directory E path key_prefix max_workers extensions =
     seq (ensure_connected E) (\<lambda>_.
     seq check_write_permission (\<lambda>_.
       (let exts = (case extensions of None \<Rightarrow> [''*.parquet'', ''*.csv'', ''*.json''] | Some x \<Rightarrow> x);
            files = sort (concat (map (path_glob E path) exts)) in
        seq the_bucket (\<lambda>b.
        seq (send (Listing b key_prefix)) (\<lambda>_.
        seq (lift (objects_filter E b key_prefix)) (\<lambda>existing.
          (let to_upload = filter (\<lambda>f. key_prefix @ ''/'' @ path_name f \<notin> set existing) files in
           if (case max_workers of None \<Rightarrow> False | Some w \<Rightarrow> w \<le> 0) then
             throw (ValueError ''max_workers must be greater than 0'')
           else
             seq (upload_each E key_prefix to_upload) (\<lambda>results.
             ret (map (\<lambda>(fname, result, s3_path). (fname, result))
                    (filter (\<lambda>(fname, result, s3_path). result \<noteq> PyTrue) results))))))))))"

definition delete_object :: "env \<Rightarrow> string \<Rightarrow> outcome prog" where
  "delete_object E key =
     seq (ensure_connected E) (\<lambda>_.
     seq check_write_permission (\<lambda>_.
     try_except
       (seq the_bucket (\<lambda>b.
        seq (send (Delete b key)) (\<lambda>_.
        seq (lift (case object_delete E b key of Some e \<Rightarrow> Inl e | None \<Rightarrow> Inr ())) (\<lambda>_.
        ret PyTrue))))
       (\<lambda>e. ret (Caught e))))"

text \<open>The loop \<^verbatim>\<open>for obj in objects: obj.delete()\<close> of \<^verbatim>\<open>delete_prefix\<close>.\<close>

fun delete_each :: "env \<Rightarrow> string \<Rightarrow> string list \<Rightarrow> unit prog" where
  "delete_each E b [] = ret ()"
| "delete_each E b (k # ks) =
     seq (send (Delete b k)) (\<lambda>_.
     seq (lift (case object_delete E b k of Some e \<Rightarrow> Inl e | None \<Rightarrow> Inr ())) (\<lambda>_.
     delete_each E b ks))"

definition delete_prefix :: "env \<Rightarrow> string \<Rightarrow> outcome prog" where
  "delete_prefix E key_prefix =
     seq (ensure_connected E) (\<lambda>_.
     seq check_write_permission (\<lambda>_.
     try_except
       (seq the_bucket (\<lambda>b.
        seq (send (Listing b key_prefix)) (\<lambda>_.
        seq (lift (objects_filter E b key_prefix)) (\<lambda>objects.
          if objects = [] then ret PyTrue
          else seq (delete_each E b objects) (\<lambda>_. ret PyTrue)))))
       (\<lambda>e. ret (Caught e))))"

section \<open>Python's built-ins on JSON values\<close>

text \<open>
  The metadata documents are whatever \<^verbatim>\<open>json.load\<close> returns, and the code applies \<^verbatim>\<open>in\<close>,
  indexing, \<^verbatim>\<open>.get\<close>, \<^verbatim>\<open>int()\<close> and string formatting to their parts without checking types
  first.  These are the outcomes of those operations on each kind of value.
\<close>

definition is_digit :: "char \<Rightarrow> bool" where
  "is_digit c = (48 \<le> (of_char c :: nat) \<and> (of_char c :: nat) \<le> 57)"

definition digit_val :: "char \<Rightarrow> nat" where
  "digit_val c = of_char c - 48"

text \<open>Decimal digits, single underscores allowed between digits, as \<^verbatim>\<open>int()\<close> reads them.\<close>

fun parse_digits :: "nat \<Rightarrow> string \<Rightarrow> nat option" where
  "parse_digits acc [] = Some acc"
| "parse_digits acc [c] = (if is_digit c then Some (acc * 10 + digit_val c) else None)"
| "parse_digits acc (c # d # cs) =
     (if is_digit c then parse_digits (acc * 10 + digit_val c) (d # cs)
      else if c = CHR ''_'' \<and> is_digit d then parse_digits acc (d # cs)
      else None)"

definition parse_unsigned :: "string \<Rightarrow> nat option" where
  "parse_unsigned t = (case t of [] \<Rightarrow> None | c # cs \<Rightarrow> if is_digit c then parse_digits 0 t else None)"

text \<open>
  The whitespace \<^verbatim>\<open>int()\<close> skips around a literal: the code points 9 to 13 and 32, and the
  whitespace above 127, which it reads as a blank.  The separators 28 to 31, which
  \<^verbatim>\<open>str.strip()\<close> removes, are not among them.
\<close>

definition int_isspace :: "char \<Rightarrow> bool" where
  "int_isspace c = ((of_char c :: nat) \<in> {9, 10, 11, 12, 13, 32, 133, 160})"

text \<open>\<^verbatim>\<open>sys.int_info.default_max_str_digits\<close>: a literal with more digits is refused.\<close>

definition int_max_str_digits :: nat where
  "int_max_str_digits = 4300"

text \<open>
  \<^verbatim>\<open>int(t)\<close> for a string: surrounding whitespace, an optional sign, decimal digits.
  \<open>None\<close> is the \<^verbatim>\<open>ValueError\<close>.
\<close>

definition int_of_string :: "string \<Rightarrow> int option" where
  "int_of_string t =
     (case strip_chars int_isspace t of
        [] \<Rightarrow> None
      | c # cs \<Rightarrow>
          if length (filter is_digit (c # cs)) > int_max_str_digits then None
          else if c = CHR ''-'' then map_option (\<lambda>n. - int n) (parse_unsigned cs)
          else if c = CHR ''+'' then map_option int (parse_unsigned cs)
          else map_option int (parse_unsigned (c # cs)))"

fun py_int :: "json \<Rightarrow> error + int" where
  "py_int (JInt i) = Inr i"
| "py_int (JBool b) = Inr (if b then 1 else 0)"
| "py_int (JStr t) =
     (case int_of_string t of
        None \<Rightarrow> Inl (ValueError ''invalid literal for int() with base 10'')
      | Some i \<Rightarrow> Inr i)"
| "py_int v = Inl (TypeError ''int() argument must be a string, a bytes-like object or a real number'')"

text \<open>\<^verbatim>\<open>k in v\<close> for a string \<open>k\<close>: a key of a dict, a substring of a string, an element of a list.\<close>

fun py_contains :: "string \<Rightarrow> json \<Rightarrow> error + bool" where
  "py_contains k (JDict kvs) = Inr (k \<in> fst ` set kvs)"
| "py_contains k (JStr t) = Inr (sublist k t)"
| "py_contains k (JList xs) = Inr (JStr k \<in> set xs)"
| "py_contains k v = Inl (TypeError ''argument is not iterable'')"

text \<open>\<^verbatim>\<open>v[k]\<close> for a string \<open>k\<close>.\<close>

fun py_getitem :: "json \<Rightarrow> string \<Rightarrow> error + json" where
  "py_getitem (JDict kvs) k = (case map_of kvs k of None \<Rightarrow> Inl (KeyError k) | Some x \<Rightarrow> Inr x)"
| "py_getitem (JStr t) k = Inl (TypeError ''string indices must be integers'')"
| "py_getitem (JList xs) k = Inl (TypeError ''list indices must be integers or slices'')"
| "py_getitem v k = Inl (TypeError ''object is not subscriptable'')"

text \<open>\<^verbatim>\<open>v.get(k, default)\<close>.\<close>

fun py_get :: "json \<Rightarrow> string \<Rightarrow> json \<Rightarrow> error + json" where
  "py_get (JDict kvs) k dflt = Inr (case map_of kvs k of None \<Rightarrow> dflt | Some x \<Rightarrow> x)"
| "py_get v k dflt = Inl (AttributeError ''object has no attribute get'')"

text \<open>
  \<^verbatim>\<open>repr(v)\<close> and \<^verbatim>\<open>str(v)\<close>, as f-strings print a value (the escapes inside a quoted string
  are not modelled).
\<close>

fun py_repr :: "json \<Rightarrow> string" where
  "py_repr JNull = ''None''"
| "py_repr (JBool b) = (if b then ''True'' else ''False'')"
| "py_repr (JInt i) = str_int i"
| "py_repr (JStr t) = [CHR 0x27] @ t @ [CHR 0x27]"
| "py_repr (JList xs) = ''['' @ join '', '' (map py_repr xs) @ '']''"
| "py_repr (JDict kvs) =
     ''{'' @ join '', '' (map (\<lambda>kv. [CHR 0x27] @ fst kv @ [CHR 0x27] @ '': '' @ py_repr (snd kv)) kvs)
       @ ''}''"

definition py_str :: "json \<Rightarrow> string" where
  "py_str v = (case v of JStr t \<Rightarrow> t | _ \<Rightarrow> py_repr v)"

text \<open>The name of \<^verbatim>\<open>type(v)\<close>.\<close>

fun py_type :: "json \<Rightarrow> string" where
  "py_type JNull = ''NoneType''"
| "py_type (JBool b) = ''bool''"
| "py_type (JInt i) = ''int''"
| "py_type (JStr t) = ''str''"
| "py_type (JList xs) = ''list''"
| "py_type (JDict kvs) = ''dict''"

section \<open>\<^verbatim>\<open>cidl/loaders.py\<close>\<close>

text \<open>
  \<^verbatim>\<open>_download_file(key, use_cache)\<close>; the result is the content of the \<^verbatim>\<open>BytesIO\<close> returned
  (positioned at its start).
\<close>

definition download_file :: "env \<Rightarrow> string \<Rightarrow> bool \<Rightarrow> bytes prog" where
  "download_file E key use_cache =
     (\<lambda>s. case (if use_cache then CACHE s key else None) of
             Some cached \<Rightarrow> (Inr cached, s)
           | None \<Rightarrow>
               seq (ensure_connected E) (\<lambda>_.
               seq the_bucket (\<lambda>b.
               seq (send (Get b key)) (\<lambda>_.
               seq (lift (download_fileobj E b key)) (\<lambda>buf.
                 (\<lambda>s'. (Inr buf,
                         if use_cache then s'\<lparr>CACHE := (CACHE s')(key \<mapsto> buf)\<rparr> else s')))))) s)"

text \<open>\<^verbatim>\<open>_read_file_bytes(data, filename)\<close>.\<close>

definition read_file_bytes :: "env \<Rightarrow> bytes \<Rightarrow> string \<Rightarrow> error + frame" where
  "read_file_bytes E data filename =
     (let name = lower filename in
      if suffix ''.parquet'' name then read_parquet E data
      else if suffix ''.csv'' name then read_csv E data
      else if suffix ''.json'' name then
        (case read_json_lines E data of
           Inr fr \<Rightarrow> Inr fr
         | Inl e \<Rightarrow> if is_Exception e then read_json E data else Inl e)
      else Inl (ValueError (''Unsupported file type: '' @ filename)))"

text \<open>\<^verbatim>\<open>_read_json_source(source, use_cache)\<close>.\<close>

definition read_json_source :: "env \<Rightarrow> string \<Rightarrow> bool \<Rightarrow> json prog" where
  "read_json_source E source use_cache =
     (\<lambda>s. case (if use_cache then META_CACHE s source else None) of
             Some cached \<Rightarrow> (Inr cached, s)
           | None \<Rightarrow>
               seq (case local_json E source of
                      Some r \<Rightarrow> lift r
                    | None \<Rightarrow>
                        seq (download_file E source use_cache) (\<lambda>raw. lift (json_loads E raw)))
                 (\<lambda>obj.
                    (\<lambda>s'. (Inr obj,
                            if use_cache then s'\<lparr>META_CACHE := (META_CACHE s')(source \<mapsto> obj)\<rparr>
                            else s'))) s)"

text \<open>
  The loop of both metadata loaders: \<^verbatim>\<open>for rec in recs: if k not in rec: raise ValueError(msg);
  by_key[int(rec[k])] = rec\<close>.  A Python dict is the list of its items in insertion order;
  assigning to a key that is there replaces its value in place.
\<close>

fun index_records ::
  "string \<Rightarrow> string \<Rightarrow> json list \<Rightarrow> (int \<times> json) list \<Rightarrow> error + (int \<times> json) list" where
  "index_records k msg [] by_key = Inr by_key"
| "index_records k msg (rec # recs) by_key =
     (case py_contains k rec of
        Inl e \<Rightarrow> Inl e
      | Inr False \<Rightarrow> Inl (ValueError msg)
      | Inr True \<Rightarrow>
          (case py_getitem rec k of
             Inl e \<Rightarrow> Inl e
           | Inr v \<Rightarrow>
               (case py_int v of
                  Inl e \<Rightarrow> Inl e
                | Inr idx \<Rightarrow> index_records k msg recs (AList.update idx rec by_key))))"

text \<open>\<^verbatim>\<open>_load_acic22_metadata(source, use_cache)\<close>.\<close>

definition load_acic22_metadata :: "env \<Rightarrow> string \<Rightarrow> bool \<Rightarrow> (int \<times> json) list prog" where
  "load_acic22_metadata E source use_cache =
     seq (read_json_source E source use_cache) (\<lambda>obj.
       case obj of
         JList recs \<Rightarrow>
           lift (index_records ''index''
             (''ACIC22 metadata record missing '' @ [CHR 0x27] @ ''index'' @ [CHR 0x27] @ ''.'')
             recs [])
       | _ \<Rightarrow>
           throw (ValueError (''ACIC22 metadata JSON must be a list. Got: <class ''
             @ [CHR 0x27] @ py_type obj @ [CHR 0x27] @ ''>'')))"

text \<open>\<^verbatim>\<open>_load_dgp_info(source, use_cache)\<close>.\<close>

definition load_dgp_info :: "env \<Rightarrow> string \<Rightarrow> bool \<Rightarrow> (int \<times> json) list prog" where
  "load_dgp_info E source use_cache =
     seq (read_json_source E source use_cache) (\<lambda>obj.
       case obj of
         JDict kvs \<Rightarrow>
           (case map_of kvs ''dgps'' of
              None \<Rightarrow>
                throw (ValueError (''DGP info JSON must be a dict containing key ''
                  @ [CHR 0x27] @ ''dgps'' @ [CHR 0x27] @ ''.''))
            | Some (JList dgp_list) \<Rightarrow>
                lift (index_records ''dgp''
                  (''DGP record missing '' @ [CHR 0x27] @ ''dgp'' @ [CHR 0x27] @ ''.'')
                  dgp_list [])
            | Some _ \<Rightarrow>
                throw (ValueError (''DGP info JSON field '' @ [CHR 0x27] @ ''dgps'' @ [CHR 0x27]
                  @ '' must be a list.'')))
       | _ \<Rightarrow>
           throw (ValueError (''DGP info JSON must be a dict containing key ''
             @ [CHR 0x27] @ ''dgps'' @ [CHR 0x27] @ ''.'')))"

text \<open>
  \<^verbatim>\<open>x in tiers\<close> for a set of strings: a string is looked up, a list or a dict cannot be
  hashed, anything else is not in the set.
\<close>

fun in_tiers :: "json \<Rightarrow> string set \<Rightarrow> error + bool" where
  "in_tiers (JStr t) tiers = Inr (t \<in> tiers)"
| "in_tiers (JList xs) tiers = Inl (TypeError ''unhashable type: list'')"
| "in_tiers (JDict kvs) tiers = Inl (TypeError ''unhashable type: dict'')"
| "in_tiers v tiers = Inr False"

text \<open>
  \<^verbatim>\<open>{dgp_id for dgp_id, rec in dgp_info.items() if rec.get("difficulty_tier") in tiers}\<close>.
\<close>

fun allowed_dgps :: "(int \<times> json) list \<Rightarrow> string set \<Rightarrow> error + int set" where
  "allowed_dgps [] tiers = Inr {}"
| "allowed_dgps ((dgp_id, rec) # items) tiers =
     (case py_get rec ''difficulty_tier'' JNull of
        Inl e \<Rightarrow> Inl e
      | Inr t \<Rightarrow>
          (case in_tiers t tiers of
             Inl e \<Rightarrow> Inl e
           | Inr hit \<Rightarrow>
               (case allowed_dgps items tiers of
                  Inl e \<Rightarrow> Inl e
                | Inr S \<Rightarrow> Inr (if hit then insert dgp_id S else S))))"

text \<open>
  \<^verbatim>\<open>idx for idx, rec in meta.items() if "dgp" in rec and int(rec["dgp"]) in allowed_dgps\<close>.
\<close>

fun select_indices :: "(int \<times> json) list \<Rightarrow> int set \<Rightarrow> error + int list" where
  "select_indices [] allowed = Inr []"
| "select_indices ((idx, rec) # items) allowed =
     (case py_contains ''dgp'' rec of
        Inl e \<Rightarrow> Inl e
      | Inr False \<Rightarrow> select_indices items allowed
      | Inr True \<Rightarrow>
          (case py_getitem rec ''dgp'' of
             Inl e \<Rightarrow> Inl e
           | Inr v \<Rightarrow>
               (case py_int v of
                  Inl e \<Rightarrow> Inl e
                | Inr g \<Rightarrow>
                    (case select_indices items allowed of
                       Inl e \<Rightarrow> Inl e
                     | Inr xs \<Rightarrow> Inr (if g \<in> allowed then idx # xs else xs)))))"

text \<open>\<^verbatim>\<open>_indices_for_difficulty(difficulty, metadata_source, dgp_info_source, use_cache)\<close>.\<close>

definition indices_for_difficulty ::
  "env \<Rightarrow> string option \<Rightarrow> string \<Rightarrow> string \<Rightarrow> bool \<Rightarrow> int list prog" where
  "indices_for_difficulty E difficulty metadata_source dgp_info_source use_cache =
     seq (load_acic22_metadata E metadata_source use_cache) (\<lambda>meta.
     seq (load_dgp_info E dgp_info_source use_cache) (\<lambda>dgp_info.
     seq (lift (difficulty_to_tiers difficulty)) (\<lambda>tiers.
       case tiers of
         None \<Rightarrow> ret (sort (map fst meta))
       | Some ts \<Rightarrow>
           seq (lift (allowed_dgps dgp_info ts)) (\<lambda>allowed.
           seq (lift (select_indices meta allowed)) (\<lambda>xs.
           ret (sort xs))))))"

text \<open>\<^verbatim>\<open>load_file(key, use_cache)\<close>.\<close>

definition load_file :: "env \<Rightarrow> string \<Rightarrow> bool \<Rightarrow> frame prog" where
  "load_file E key use_cache =
     seq (download_file E key use_cache) (\<lambda>data. lift (read_file_bytes E data key))"

text \<open>
  The loop of \<^verbatim>\<open>load_simulations\<close>.  The file name is the record's \<^verbatim>\<open>"filename"\<close> when the
  metadata has the index, else \<^verbatim>\<open>sim_{idx:04d}.parquet\<close>; a name that is not a string is
  formatted into the key and then fails in \<^verbatim>\<open>_read_file_bytes\<close>, which calls \<^verbatim>\<open>.lower()\<close> on it.
\<close>

fun load_each ::
  "env \<Rightarrow> (int \<times> json) list \<Rightarrow> string \<Rightarrow> bool \<Rightarrow> int list \<Rightarrow> (int \<times> frame) list
     \<Rightarrow> (int \<times> frame) list prog" where
  "load_each E meta pre use_cache [] out = ret out"
| "load_each E meta pre use_cache (idx # rest) out =
     seq (lift (py_get (case map_of meta idx of None \<Rightarrow> JDict [] | Some rec \<Rightarrow> rec) ''filename''
                  (JStr (''sim_'' @ fmt_04d idx @ ''.parquet'')))) (\<lambda>filename.
     seq (download_file E (pre @ ''/'' @ py_str filename) use_cache) (\<lambda>data.
     seq (lift (case filename of
                  JStr name \<Rightarrow> read_file_bytes E data name
                | _ \<Rightarrow> Inl (AttributeError ''object has no attribute lower''))) (\<lambda>fr.
     load_each E meta pre use_cache rest (AList.update idx fr out))))"

text \<open>\<^verbatim>\<open>load_simulations(indices, prefix, use_cache, metadata_source)\<close>.\<close>

definition load_simulations ::
  "env \<Rightarrow> int list \<Rightarrow> string \<Rightarrow> bool \<Rightarrow> string \<Rightarrow> (int \<times> frame) list prog" where
  "load_simulations E indices pre use_cache metadata_source =
     seq (ensure_connected E) (\<lambda>_.
     seq (load_acic22_metadata E metadata_source use_cache) (\<lambda>meta.
     load_each E meta pre use_cache indices []))"

text \<open>\<^verbatim>\<open>load_by_difficulty(difficulty, prefix, use_cache, metadata_source, dgp_info_source)\<close>.\<close>

definition load_by_difficulty ::
  "env \<Rightarrow> string \<Rightarrow> string \<Rightarrow> bool \<Rightarrow> string \<Rightarrow> string \<Rightarrow> (int \<times> frame) list prog" where
  "load_by_difficulty E difficulty pre use_cache metadata_source dgp_info_source =
     seq (indices_for_difficulty E (Some difficulty) metadata_source dgp_info_source use_cache)
       (\<lambda>indices. load_simulations E indices pre use_cache metadata_source)"

text \<open>
  The argument \<open>n\<close> of \<^verbatim>\<open>load_random_simulations\<close>: an \<^verbatim>\<open>int\<close> (Python's \<^verbatim>\<open>True\<close> and \<^verbatim>\<open>False\<close> are
  the ints 1 and 0), or a value that is no instance of \<^verbatim>\<open>int\<close>.
\<close>

datatype count_arg = IntArg int | NotAnInt

text \<open>\<^verbatim>\<open>np.random.default_rng(seed)\<close>: the seed given, or fresh entropy.\<close>

definition default_rng :: "env \<Rightarrow> int option \<Rightarrow> int prog" where
  "default_rng E seed =
     (\<lambda>s. case seed of
             Some sd \<Rightarrow> (Inr sd, s)
           | None \<Rightarrow> (Inr (os_entropy E (entropy_used s)), s\<lparr>entropy_used := Suc (entropy_used s)\<rparr>))"

text \<open>
  The first part of \<^verbatim>\<open>load_random_simulations\<close>, up to \<^verbatim>\<open>sampled.sort()\<close>: the indices that
  will be loaded.
\<close>

definition sample_indices ::
  "env \<Rightarrow> count_arg \<Rightarrow> string option \<Rightarrow> int option \<Rightarrow> bool \<Rightarrow> string \<Rightarrow> string \<Rightarrow> int list prog" where
  "sample_indices E n difficulty seed use_cache metadata_source dgp_info_source =
     (case n of
        NotAnInt \<Rightarrow> throw (ValueError ''n must be a positive integer.'')
      | IntArg k \<Rightarrow>
          if k \<le> 0 then throw (ValueError ''n must be a positive integer.'')
          else
            seq (indices_for_difficulty E difficulty metadata_source dgp_info_source use_cache)
              (\<lambda>eligible.
                 if k > int (length eligible) then
                   throw (ValueError (''Requested n='' @ str_int k @ '', but only ''
                     @ str_int (int (length eligible)) @ '' simulations available for difficulty=''
                     @ [CHR 0x27] @ (case difficulty of None \<Rightarrow> ''None'' | Some d \<Rightarrow> d)
                     @ [CHR 0x27] @ ''.''))
                 else
                   seq (default_rng E seed) (\<lambda>sd.
                   seq (lift (rng_choice E sd eligible (nat k))) (\<lambda>sampled.
                   ret (sort sampled)))))"

text \<open>
  \<^verbatim>\<open>load_random_simulations(n, difficulty, prefix, seed, use_cache, metadata_source,
  dgp_info_source)\<close>.
\<close>

definition load_random_simulations ::
  "env \<Rightarrow> count_arg \<Rightarrow> string option \<Rightarrow> string \<Rightarrow> int option \<Rightarrow> bool \<Rightarrow> string \<Rightarrow> string
     \<Rightarrow> (int \<times> frame) list prog" where
  "load_random_simulations E n difficulty pre seed use_cache metadata_source dgp_info_source =
     seq (sample_indices E n difficulty seed use_cache metadata_source dgp_info_source)
       (\<lambda>sampled. load_simulations E sampled pre use_cache metadata_source)"

section \<open>\<^verbatim>\<open>truth_matcher.py\<close>\<close>

definition DEFAULT_TRUTH_PREFIX :: string where
  "DEFAULT_TRUTH_PREFIX = ''acic22/truth''"

definition VALID_ON_MISMATCH :: "string set" where
  "VALID_ON_MISMATCH = {''warn'', ''error'', ''ignore''}"

definition VALID_ON_MISSING :: "string set" where
  "VALID_ON_MISSING = {''warn'', ''error'', ''ignore''}"

text \<open>
  The dataclass \<^verbatim>\<open>TruthBundle\<close>; \<open>truth\<close> is a dict, the list of its items in insertion
  order.
\<close>

record TruthBundle =
  simulation_indices :: "int list"
  truth_indices_requested :: "int list"
  truth :: "(int \<times> frame) list"
  missing_truth_files :: "int list"
  missing_for_simulations :: "int list"
  extra_truth :: "int list"
  warnings :: "string list"

definition is_full_match :: "TruthBundle \<Rightarrow> bool" where
  "is_full_match b = (length (missing_for_simulations b) = 0 \<and> length (extra_truth b) = 0)"

definition truth_indices_loaded :: "TruthBundle \<Rightarrow> int list" where
  "truth_indices_loaded b = sort (map fst (truth b))"

text \<open>
  What a caller may pass where indices are expected: \<^verbatim>\<open>None\<close>, a mapping (its keys in
  order), a list, tuple or set, a single int, any other iterable (its elements), or a value
  that cannot be iterated.  The elements are arbitrary values.
\<close>

datatype index_arg =
    PyNone
  | PyMapping "json list"
  | PySequence "json list"
  | PyIntScalar int
  | PyIterable "json list"
  | PyNotIterable

text \<open>The loop of \<^verbatim>\<open>_normalize_indices\<close>: \<^verbatim>\<open>out.add(int(x))\<close>, any failure a \<^verbatim>\<open>TypeError\<close>.\<close>

fun convert_indices :: "json list \<Rightarrow> error + int set" where
  "convert_indices [] = Inr {}"
| "convert_indices (x # xs) =
     (case py_int x of
        Inl e \<Rightarrow>
          if is_Exception e then
            Inl (TypeError (''Index value '' @ [CHR 0x27] @ py_str x @ [CHR 0x27]
                   @ '' cannot be converted to int.''))
          else Inl e
      | Inr i \<Rightarrow>
          (case convert_indices xs of
             Inl e \<Rightarrow> Inl e
           | Inr out \<Rightarrow> Inr (insert i out)))"

text \<open>\<^verbatim>\<open>_normalize_indices(indices)\<close>.\<close>

definition normalize_indices :: "index_arg \<Rightarrow> error + int list" where
  "normalize_indices indices =
     (case indices of
        PyNone \<Rightarrow> Inr []
      | PyNotIterable \<Rightarrow> Inl (TypeError ''object is not iterable'')
      | _ \<Rightarrow>
          (case convert_indices
                  (case indices of
                     PyMapping ks \<Rightarrow> ks
                   | PySequence xs \<Rightarrow> xs
                   | PyIntScalar i \<Rightarrow> [JInt i]
                   | PyIterable xs \<Rightarrow> xs
                   | _ \<Rightarrow> []) of
             Inl e \<Rightarrow> Inl e
           | Inr out \<Rightarrow> Inr (sorted_list_of_set out)))"

text \<open>\<^verbatim>\<open>_truth_key(index, prefix)\<close>.\<close>

definition truth_key :: "int \<Rightarrow> string \<Rightarrow> string" where
  "truth_key index pre =
     strip_chars (\<lambda>c. c = CHR ''/'') pre @ ''/'' @ (''truth_'' @ fmt_04d index @ ''.parquet'')"

text \<open>
  \<^verbatim>\<open>_is_missing_s3_object_error(e)\<close>, for a client error with the code of its response (the
  empty string when the response has none) and its text \<^verbatim>\<open>str(e)\<close>.
\<close>

definition is_missing_s3_object_error :: "string option \<Rightarrow> string \<Rightarrow> bool" where
  "is_missing_s3_object_error code text =
     (strip (case code of None \<Rightarrow> [] | Some c \<Rightarrow> c) \<in> {''404'', ''NoSuchKey'', ''NotFound''}
      \<or> sublist ''Not Found'' text)"

text \<open>\<^verbatim>\<open>warnings.warn(msg, UserWarning)\<close>: the warning goes out.\<close>

definition warn :: "string \<Rightarrow> unit prog" where
  "warn msg = (\<lambda>s. (Inr (), s\<lparr>emitted := emitted s @ [msg]\<rparr>))"

text \<open>\<^verbatim>\<open>sys.stdin is not None and sys.stdin.isatty()\<close>, and \<^verbatim>\<open>input(...)\<close>.\<close>

definition can_prompt :: "env \<Rightarrow> bool" where
  "can_prompt E = stdin_isatty E"

definition input_line :: "env \<Rightarrow> string prog" where
  "input_line E =
     (\<lambda>s. case stdin_line E (stdin_used s) of
             None \<Rightarrow> (Inl (EOFError ''EOF when reading a line''), s)
           | Some l \<Rightarrow> (Inr l, s\<lparr>stdin_used := Suc (stdin_used s)\<rparr>))"

text \<open>\<^verbatim>\<open>_format_mismatch_message(...)\<close>.\<close>

definition format_mismatch_message ::
  "int list \<Rightarrow> int list \<Rightarrow> int list \<Rightarrow> int list \<Rightarrow> int list \<Rightarrow> string" where
  "format_mismatch_message sim_indices truth_loaded missing_for_sims extra missing_files =
     join [CHR 0x0A]
       ([''Truth/Simulation mismatch detected.'',
         ''- Simulation indices: '' @ str_int_list sim_indices,
         ''- Truth indices loaded: '' @ str_int_list truth_loaded]
        @ (if missing_for_sims \<noteq> [] then
             [''- Missing truth for simulation indices: '' @ str_int_list missing_for_sims]
           else [])
        @ (if extra \<noteq> [] then
             [''- Extra truth indices (not in simulations): '' @ str_int_list extra]
           else [])
        @ (if missing_files \<noteq> [] then
             [''- Truth files not found in storage: '' @ str_int_list missing_files]
           else [])
        @ [''Hint: Use automatic index matching (bundle_for_simulations(simulations)) ''
           @ ''to load exactly the truth datasets corresponding to your simulations.''])"

text \<open>
  \<^verbatim>\<open>_handle_mismatch(msg, on_mismatch, prompt, warnings_out)\<close>; the result is the list
  \<^verbatim>\<open>warnings_out\<close> after the call.
\<close>

definition handle_mismatch :: "env \<Rightarrow> string \<Rightarrow> string \<Rightarrow> bool \<Rightarrow> string list \<Rightarrow> string list prog" where
  "handle_mismatch E msg on_mismatch prompt warnings_out =
     (if on_mismatch \<notin> VALID_ON_MISMATCH then
        throw (ValueError (''on_mismatch must be one of ['' @ [CHR 0x27] @ ''error'' @ [CHR 0x27]
          @ '', '' @ [CHR 0x27] @ ''ignore'' @ [CHR 0x27] @ '', '' @ [CHR 0x27] @ ''warn''
          @ [CHR 0x27] @ '']''))
      else if on_mismatch = ''ignore'' then ret warnings_out
      else if on_mismatch = ''error'' then throw (ValueError msg)
      else
        seq (warn msg) (\<lambda>_.
          if prompt then
            (if can_prompt E then
               seq (input_line E) (\<lambda>answer.
                 if lower (strip answer) \<notin> {''y'', ''yes''} then
                   throw (RuntimeError ''Aborted by user due to truth/simulation mismatch.'')
                 else ret (warnings_out @ [msg]))
             else
               seq (warn (''Prompt requested, but environment is non-interactive; ''
                      @ ''proceeding with warning only.'')) (\<lambda>_.
               ret (warnings_out @ [msg, ''Prompt requested, but environment is non-interactive; ''
                      @ ''proceeding with warning only.''])))
          else ret (warnings_out @ [msg])))"

text \<open>
  \<^verbatim>\<open>_handle_missing_file(idx, key, on_missing, warnings_out)\<close>; the result is the list
  \<^verbatim>\<open>warnings_out\<close> after the call.
\<close>

definition handle_missing_file :: "int \<Rightarrow> string \<Rightarrow> string \<Rightarrow> string list \<Rightarrow> string list prog" where
  "handle_missing_file idx key on_missing warnings_out =
     (if on_missing \<notin> VALID_ON_MISSING then
        throw (ValueError (''on_missing must be one of ['' @ [CHR 0x27] @ ''error'' @ [CHR 0x27]
          @ '', '' @ [CHR 0x27] @ ''ignore'' @ [CHR 0x27] @ '', '' @ [CHR 0x27] @ ''warn''
          @ [CHR 0x27] @ '']''))
      else if on_missing = ''ignore'' then ret warnings_out
      else
        (let msg = ''Truth file not found for index '' @ str_int idx @ '' (key='' @ [CHR 0x27]
                     @ key @ [CHR 0x27] @ '').'' in
         if on_missing = ''error'' then throw (FileNotFoundError msg)
         else seq (warn msg) (\<lambda>_. ret (warnings_out @ [msg]))))"

text \<open>\<^verbatim>\<open>load_truth(index, prefix, use_cache)\<close>.\<close>

definition load_truth :: "env \<Rightarrow> int \<Rightarrow> string \<Rightarrow> bool \<Rightarrow> frame prog" where
  "load_truth E index pre use_cache = load_file E (truth_key index pre) use_cache"

text \<open>
  The loop of \<^verbatim>\<open>load_truths\<close> over the normalized indices, with the three locals it
  updates: the dict \<open>truth\<close>, the list \<open>missing_files\<close> and the list \<open>warnings_out\<close>.  A client
  error that \<^verbatim>\<open>_is_missing_s3_object_error\<close> accepts and a \<^verbatim>\<open>FileNotFoundError\<close> go to
  \<^verbatim>\<open>_handle_missing_file\<close>; every other exception of \<^verbatim>\<open>load_file\<close> leaves the function.
\<close>

fun load_truths_loop ::
  "env \<Rightarrow> string \<Rightarrow> bool \<Rightarrow> string \<Rightarrow> int list
     \<Rightarrow> (int \<times> frame) list \<times> int list \<times> string list
     \<Rightarrow> ((int \<times> frame) list \<times> int list \<times> string list) prog" where
  "load_truths_loop E pre use_cache on_missing [] acc = ret acc"
| "load_truths_loop E pre use_cache on_missing (idx # rest) (truth_dict, missing_files, warnings_out) =
     (\<lambda>s. case load_file E (truth_key idx pre) use_cache s of
             (Inr fr, s') \<Rightarrow>
               load_truths_loop E pre use_cache on_missing rest
                 (AList.update idx fr truth_dict, missing_files, warnings_out) s'
           | (Inl (ClientError code text), s') \<Rightarrow>
               if is_missing_s3_object_error code text then
                 seq (handle_missing_file idx (truth_key idx pre) on_missing warnings_out)
                   (\<lambda>warnings_out'.
                      load_truths_loop E pre use_cache on_missing rest
                        (truth_dict, missing_files @ [idx], warnings_out')) s'
               else (Inl (ClientError code text), s')
           | (Inl (FileNotFoundError m), s') \<Rightarrow>
               seq (handle_missing_file idx (truth_key idx pre) on_missing warnings_out)
                 (\<lambda>warnings_out'.
                    load_truths_loop E pre use_cache on_missing rest
                      (truth_dict, missing_files @ [idx], warnings_out')) s'
           | (Inl e, s') \<Rightarrow> (Inl e, s'))"

text \<open>\<^verbatim>\<open>load_truths(indices, prefix, use_cache, on_missing)\<close>.\<close>

definition load_truths :: "env \<Rightarrow> index_arg \<Rightarrow> string \<Rightarrow> bool \<Rightarrow> string \<Rightarrow> TruthBundle prog" where
  "load_truths E indices pre use_cache on_missing =
     (case indices of
        PyMapping ks \<Rightarrow>
          throw (TypeError (''load_truths() expects an iterable of indices (e.g., [1,2,3]). ''
            @ ''You passed a Mapping/dict. Use truth_for_simulations(simulations) instead.''))
      | _ \<Rightarrow>
          seq (lift (normalize_indices indices)) (\<lambda>idxs.
          seq (load_truths_loop E pre use_cache on_missing idxs ([], [], []))
            (\<lambda>(truth_dict, missing_files, warnings_out).
               (let loaded = sort (map fst truth_dict);
                    missing_for_requested = sorted_list_of_set (set idxs - set loaded) in
                ret \<lparr> simulation_indices = idxs,
                      truth_indices_requested = idxs,
                      truth = truth_dict,
                      missing_truth_files = sort missing_files,
                      missing_for_simulations = missing_for_requested,
                      extra_truth = [],
                      warnings = warnings_out \<rparr>))))"

text \<open>
  The first argument of \<^verbatim>\<open>truth_for_simulations\<close>: a mapping (its keys in order), or a value
  that is no mapping.
\<close>

datatype simulations_arg = Simulations "json list" | NotAMapping

text \<open>
  \<^verbatim>\<open>truth_for_simulations(simulations, truth_indices, prefix, use_cache, on_missing,
  on_mismatch, prompt)\<close>; \<open>truth_indices = None\<close> is the argument left out.
\<close>

definition truth_for_simulations ::
  "env \<Rightarrow> simulations_arg \<Rightarrow> index_arg option \<Rightarrow> string \<Rightarrow> bool \<Rightarrow> string \<Rightarrow> string \<Rightarrow> bool
     \<Rightarrow> TruthBundle prog" where
  "truth_for_simulations E simulations truth_indices pre use_cache on_missing on_mismatch prompt =
     (case simulations of
        NotAMapping \<Rightarrow>
          throw (TypeError (''truth_for_simulations() expects a Mapping/dict with simulation ''
            @ ''indices as keys. If you only have indices, use load_truths(indices).''))
      | Simulations keys \<Rightarrow>
          seq (lift (normalize_indices (PyIterable keys))) (\<lambda>sim_indices.
          seq (lift (case truth_indices of
                       None \<Rightarrow> Inr sim_indices
                     | Some ti \<Rightarrow> normalize_indices ti)) (\<lambda>truth_requested.
          seq (load_truths E (PySequence (map JInt truth_requested)) pre use_cache on_missing)
            (\<lambda>loaded_bundle.
               (let truth_loaded = truth_indices_loaded loaded_bundle;
                    missing_for_sims = sorted_list_of_set (set sim_indices - set truth_loaded);
                    extra = sorted_list_of_set (set truth_loaded - set sim_indices) in
                seq (if truth_indices \<noteq> None \<and> (missing_for_sims \<noteq> [] \<or> extra \<noteq> []) then
                       handle_mismatch E
                         (format_mismatch_message sim_indices truth_loaded missing_for_sims extra
                            (missing_truth_files loaded_bundle))
                         on_mismatch prompt (warnings loaded_bundle)
                     else ret (warnings loaded_bundle)) (\<lambda>warnings_out.
                ret \<lparr> simulation_indices = sim_indices,
                      truth_indices_requested = truth_requested,
                      truth = truth loaded_bundle,
                      missing_truth_files = missing_truth_files loaded_bundle,
                      missing_for_simulations = missing_for_sims,
                      extra_truth = extra,
                      warnings = warnings_out \<rparr>))))))"

section \<open>Sample environments and states\<close>

text \<open>
  A store that answers every request without an error and holds nothing, with both
  credentials set and no terminal; the examples below change single fields of it.
\<close>

definition example_env :: env where
  "example_env =
     \<lparr> UHH_S3_ACCESS = Some ''access'', UHH_S3_SECRET = Some ''secret'',
       resource_create = None,
       bucket_load = (\<lambda>b. None),
       download_fileobj = (\<lambda>b k. Inl (ClientError (Some ''404'')
          ''An error occurred (404) when calling the HeadObject operation: Not Found'')),
       object_upload = (\<lambda>b k. None),
       object_delete = (\<lambda>b k. None),
       objects_filter = (\<lambda>b p. Inr []),
       path_stat = (\<lambda>p. Inr 0),
       path_glob = (\<lambda>p pat. []),
       local_json = (\<lambda>p. None),
       json_loads = (\<lambda>b. Inl (ValueError ''Expecting value'')),
       read_parquet = (\<lambda>b. Inr (Frame [] [])),
       read_csv = (\<lambda>b. Inr (Frame [] [])),
       read_json_lines = (\<lambda>b. Inr (Frame [] [])),
       read_json = (\<lambda>b. Inr (Frame [] [])),
       rng_choice = (\<lambda>seed population n.
          if n \<le> length population then Inr (rev (take n population))
          else Inl (ValueError ''Cannot take a larger sample than population'')),
       os_entropy = (\<lambda>n. 0),
       stdin_isatty = False,
       stdin_line = (\<lambda>n. None) \<rparr>"

text \<open>The state after a successful \<^verbatim>\<open>connect_s3("cidl-test", "primary", read_only)\<close>.\<close>

definition connected_state :: "bool \<Rightarrow> state" where
  "connected_state read_only =
     initial_state\<lparr> S3 := Some ''https://s3-uhh.lzs.uni-hamburg.de:443'',
                     BUCKET := Some ''cidl-test'',
                     ACTIVE_ENDPOINT := Some ''https://s3-uhh.lzs.uni-hamburg.de:443'',
                     READ_ONLY := read_only,
                     remote_log := [Probe ''cidl-test''] \<rparr>"

section \<open>Notions used in the statements\<close>

text \<open>The operations that change the store.\<close>

definition is_write :: "remote_op \<Rightarrow> bool" where
  "is_write op = (case op of Put b k \<Rightarrow> True | Delete b k \<Rightarrow> True | _ \<Rightarrow> False)"

text \<open>A call only ever appends to the log of what was sent to the store.\<close>

definition appends :: "'a prog \<Rightarrow> bool" where
  "appends m = (\<forall>s. prefix (remote_log s) (remote_log (snd (m s))))"

text \<open>The downloads of one key among the operations sent to the store.\<close>

definition is_transfer :: "string \<Rightarrow> remote_op \<Rightarrow> bool" where
  "is_transfer key op = (case op of Get b k \<Rightarrow> k = key | _ \<Rightarrow> False)"

text \<open>
  The generator-id of a simulation record: \<^verbatim>\<open>int(rec["dgp"])\<close> where that is defined.
\<close>

definition generator_id :: "json \<Rightarrow> int option" where
  "generator_id rec =
     (case py_getitem rec ''dgp'' of
        Inl e \<Rightarrow> None
      | Inr v \<Rightarrow> (case py_int v of Inl e \<Rightarrow> None | Inr g \<Rightarrow> Some g))"

text \<open>The tier of a generator record: its \<^verbatim>\<open>"difficulty_tier"\<close> when that is a string.\<close>

definition difficulty_tier :: "json \<Rightarrow> string option" where
  "difficulty_tier rec =
     (case rec of
        JDict kvs \<Rightarrow> (case map_of kvs ''difficulty_tier'' of Some (JStr t) \<Rightarrow> Some t | _ \<Rightarrow> None)
      | _ \<Rightarrow> None)"

text \<open>
  The two-hop join of the claim, on the two indexed documents: the simulation indices whose
  generator-id has a record whose tier is among the requested ones.
\<close>

definition eligible :: "(int \<times> json) list \<Rightarrow> (int \<times> json) list \<Rightarrow> string set \<Rightarrow> int set" where
  "eligible meta dgp_info tiers =
     {i. \<exists>rec g grec t. map_of meta i = Some rec \<and> generator_id rec = Some g
           \<and> map_of dgp_info g = Some grec \<and> difficulty_tier grec = Some t \<and> t \<in> tiers}"

text \<open>The values Python can look up in a set.\<close>

definition hashable :: "json \<Rightarrow> bool" where
  "hashable v = (case v of JList xs \<Rightarrow> False | JDict kvs \<Rightarrow> False | _ \<Rightarrow> True)"

text \<open>
  Documents on which the join raises nothing: every generator-id present converts to an
  int, every tier present can be hashed.
\<close>

definition convertible :: "(int \<times> json) list \<Rightarrow> (int \<times> json) list \<Rightarrow> bool" where
  "convertible meta dgp_info =
     ((\<forall>(i, rec) \<in> set meta. \<forall>v. py_getitem rec ''dgp'' = Inr v \<longrightarrow> (\<exists>g. py_int v = Inr g))
      \<and> (\<forall>(g, rec) \<in> set dgp_info. \<forall>v. py_getitem rec ''difficulty_tier'' = Inr v \<longrightarrow> hashable v))"

text \<open>
  The scenario of the specification: two local metadata files, index 1 of generator 10
  (easy) and index 2 of generator 20 (hard).
\<close>

definition scenario_env :: env where
  "scenario_env =
     example_env\<lparr>local_json := (\<lambda>p.
        if p = ''metadata.json'' then
          Some (Inr (JList
            [JDict [(''index'', JInt 1), (''filename'', JStr ''sim_0001.parquet''), (''dgp'', JInt 10)],
             JDict [(''index'', JInt 2), (''filename'', JStr ''sim_0002.parquet''), (''dgp'', JInt 20)]]))
        else if p = ''dgp_info.json'' then
          Some (Inr (JDict [(''dgps'', JList
            [JDict [(''dgp'', JInt 10), (''difficulty_tier'', JStr ''easy'')],
             JDict [(''dgp'', JInt 20), (''difficulty_tier'', JStr ''hard'')]])]))
        else None)\<rparr>"

text \<open>
  The exceptions of \<^verbatim>\<open>load_file\<close> that \<^verbatim>\<open>load_truths\<close> hands to \<^verbatim>\<open>_handle_missing_file\<close>: a client
  error that \<^verbatim>\<open>_is_missing_s3_object_error\<close> accepts, and a \<^verbatim>\<open>FileNotFoundError\<close>.
\<close>

definition treated_as_missing :: "error \<Rightarrow> bool" where
  "treated_as_missing e =
     (case e of
        ClientError code text \<Rightarrow> is_missing_s3_object_error code text
      | FileNotFoundError m \<Rightarrow> True
      | _ \<Rightarrow> False)"

text \<open>The invariants of a bundle, as the specification states them.\<close>

definition bundle_invariant :: "TruthBundle \<Rightarrow> bool" where
  "bundle_invariant b =
     (set (missing_for_simulations b) = set (simulation_indices b) - fst ` set (truth b)
      \<and> set (extra_truth b) = fst ` set (truth b) - set (simulation_indices b)
      \<and> (is_full_match b \<longleftrightarrow> set (missing_for_simulations b) = {} \<and> set (extra_truth b) = {})
      \<and> truth_indices_loaded b = sorted_list_of_set (fst ` set (truth b))
      \<and> set (truth_indices_loaded b) \<subseteq> set (truth_indices_requested b))"

text \<open>A store that holds the truth files of the indices 5 and 6 and nothing else.\<close>

definition truth_store_env :: env where
  "truth_store_env =
     example_env\<lparr>download_fileobj := (\<lambda>b k.
        if k = ''acic22/truth/truth_0005.parquet'' \<or> k = ''acic22/truth/truth_0006.parquet''
        then Inr ''PAR1''
        else Inl (ClientError (Some ''404'')
          ''An error occurred (404) when calling the HeadObject operation: Not Found''))\<rparr>"

text \<open>
  The bundle \<^verbatim>\<open>truth_for_simulations\<close> builds from the bundle of \<^verbatim>\<open>load_truths\<close> and the list
  of warnings it ends with.
\<close>

definition matched_bundle :: "int list \<Rightarrow> int list \<Rightarrow> TruthBundle \<Rightarrow> string list \<Rightarrow> TruthBundle" where
  "matched_bundle sim_indices truth_requested loaded_bundle warnings_out =
     \<lparr> simulation_indices = sim_indices,
       truth_indices_requested = truth_requested,
       truth = truth loaded_bundle,
       missing_truth_files = missing_truth_files loaded_bundle,
       missing_for_simulations =
         sorted_list_of_set (set sim_indices - set (truth_indices_loaded loaded_bundle)),
       extra_truth =
         sorted_list_of_set (set (truth_indices_loaded loaded_bundle) - set sim_indices),
       warnings = warnings_out \<rparr>"

text \<open>A store that refuses every download with a code that is not a "not found" code.\<close>

definition denying_env :: "string \<Rightarrow> env" where
  "denying_env text =
     example_env\<lparr>download_fileobj := (\<lambda>b k. Inl (ClientError (Some ''AccessDenied'') text))\<rparr>"

text \<open>
  What \<^verbatim>\<open>_read_json_source\<close> reads when it does not answer from its cache: the local file when
  the path exists, else the object downloaded from the store and parsed.
\<close>

definition json_source :: "env \<Rightarrow> string \<Rightarrow> bool \<Rightarrow> json prog" where
  "json_source E source uc =
     (case local_json E source of
        Some r \<Rightarrow> lift r
      | None \<Rightarrow> seq (download_file E source uc) (\<lambda>raw. lift (json_loads E raw)))"

text \<open>
  A later state of the module: every cached object and every cached document is still
  there, and an established session is still the same bucket.
\<close>

definition extends :: "state \<Rightarrow> state \<Rightarrow> bool" where
  "extends s s' =
     ((\<forall>k v. CACHE s k = Some v \<longrightarrow> CACHE s' k = Some v)
      \<and> (\<forall>k v. META_CACHE s k = Some v \<longrightarrow> META_CACHE s' k = Some v)
      \<and> (S3 s \<noteq> None \<and> BUCKET s \<noteq> None \<longrightarrow> S3 s' \<noteq> None \<and> BUCKET s' = BUCKET s))"

text \<open>
  A program that only moves to later states, and that returns the same value again when it
  is run in any state later than the one it returned in.
\<close>

definition replayable :: "'a prog \<Rightarrow> bool" where
  "replayable m =
     ((\<forall>s r s1. m s = (r, s1) \<longrightarrow> extends s s1)
      \<and> (\<forall>s a s1 s2. m s = (Inr a, s1) \<and> extends s1 s2 \<longrightarrow> (\<exists>s3. m s2 = (Inr a, s3))))"

text \<open>
  A sample of size \<open>n\<close> drawn without replacement from a population that has each member
  once, as \<^verbatim>\<open>rng.choice(population, size=n, replace=False)\<close> draws it.
\<close>

definition drawn_without_replacement :: "int list \<Rightarrow> int list \<Rightarrow> nat \<Rightarrow> bool" where
  "drawn_without_replacement sampled population n =
     (length sampled = n \<and> distinct sampled \<and> set sampled \<subseteq> set population)"

text \<open>The scenario with a store that holds every object asked for.\<close>

definition sim_store_env :: env where
  "sim_store_env = scenario_env\<lparr>download_fileobj := (\<lambda>b k. Inr ''PAR1'')\<rparr>"
section \<open>Difficulty labels: what \<^verbatim>\<open>_difficulty_to_tiers\<close> accepts\<close>

lemma strip_valid_label: "l \<in> VALID_DIFFICULTIES \<Longrightarrow> strip l = l"
  by (auto simp: VALID_DIFFICULTIES_def strip_def strip_chars_def py_isspace_def)

text \<open>
  C7, as the claim states it: a label outside the enumeration raises \<^verbatim>\<open>ValueError\<close>.  This
  fails: the label \<^verbatim>\<open>" easy"\<close> (with a leading blank) is not one of the six labels, and the
  function strips it and answers with the tier set of \<^verbatim>\<open>"easy"\<close>.
\<close>

theorem difficulty_to_tiers_counterexample:
  "\<not> (\<forall>label. label \<notin> VALID_DIFFICULTIES
         \<longrightarrow> (\<exists>m. difficulty_to_tiers (Some label) = Inl (ValueError m)))"
proof
  assume a: "\<forall>label. label \<notin> VALID_DIFFICULTIES
               \<longrightarrow> (\<exists>m. difficulty_to_tiers (Some label) = Inl (ValueError m))"
  have "'' easy'' \<notin> VALID_DIFFICULTIES"
    by (simp add: VALID_DIFFICULTIES_def)
  with a obtain m where "difficulty_to_tiers (Some '' easy'') = Inl (ValueError m)"
    by blast
  moreover have "strip '' easy'' = ''easy''"
    by (simp add: strip_def strip_chars_def py_isspace_def)
  ultimately show False
    by (simp add: difficulty_to_tiers_def VALID_DIFFICULTIES_def)
qed

text \<open>
  C7, amended: the membership check is made on the label with its surrounding whitespace
  stripped.  A label whose stripped form is not one of the six raises \<^verbatim>\<open>ValueError\<close>; one
  whose stripped form is \<^verbatim>\<open>"all"\<close> (and the argument \<^verbatim>\<open>None\<close>) gives \<^verbatim>\<open>None\<close>; any other
  gives the singleton of its stripped form.  Each of the six labels is its own stripped
  form, so it resolves to itself alone, and two different labels give disjoint tier sets.
\<close>

theorem difficulty_to_tiers_strict:
  "difficulty_to_tiers None = Inr None
   \<and> (\<forall>l. strip l \<notin> VALID_DIFFICULTIES
          \<longrightarrow> (\<exists>m. difficulty_to_tiers (Some l) = Inl (ValueError m)))
   \<and> (\<forall>l. strip l = ''all'' \<longrightarrow> difficulty_to_tiers (Some l) = Inr None)
   \<and> (\<forall>l. strip l \<in> VALID_DIFFICULTIES \<and> strip l \<noteq> ''all''
          \<longrightarrow> difficulty_to_tiers (Some l) = Inr (Some {strip l}))
   \<and> (\<forall>l \<in> VALID_DIFFICULTIES. strip l = l)
   \<and> (\<forall>a b ta tb. a \<in> VALID_DIFFICULTIES \<and> b \<in> VALID_DIFFICULTIES \<and> a \<noteq> b
          \<and> difficulty_to_tiers (Some a) = Inr (Some ta)
          \<and> difficulty_to_tiers (Some b) = Inr (Some tb) \<longrightarrow> ta \<inter> tb = {})"
proof (intro conjI allI impI ballI)
  show "difficulty_to_tiers None = Inr None"
    by (simp add: difficulty_to_tiers_def)
next
  fix l assume "strip l \<notin> VALID_DIFFICULTIES"
  then show "\<exists>m. difficulty_to_tiers (Some l) = Inl (ValueError m)"
    by (simp add: difficulty_to_tiers_def)
next
  fix l assume "strip l = ''all''"
  then show "difficulty_to_tiers (Some l) = Inr None"
    by (simp add: difficulty_to_tiers_def VALID_DIFFICULTIES_def)
next
  fix l assume "strip l \<in> VALID_DIFFICULTIES \<and> strip l \<noteq> ''all''"
  then show "difficulty_to_tiers (Some l) = Inr (Some {strip l})"
    by (simp add: difficulty_to_tiers_def)
next
  fix l assume "l \<in> VALID_DIFFICULTIES"
  then show "strip l = l"
    by (rule strip_valid_label)
next
  fix a b ta tb
  assume "a \<in> VALID_DIFFICULTIES \<and> b \<in> VALID_DIFFICULTIES \<and> a \<noteq> b
          \<and> difficulty_to_tiers (Some a) = Inr (Some ta)
          \<and> difficulty_to_tiers (Some b) = Inr (Some tb)"
  then show "ta \<inter> tb = {}"
    by (auto simp: difficulty_to_tiers_def strip_valid_label Let_def split: if_splits)
qed

theorem difficulty_to_tiers_strict_witness:
  "(\<exists>m. difficulty_to_tiers (Some ''rather_easy'') = Inl (ValueError m))
   \<and> difficulty_to_tiers (Some '' all '') = Inr None
   \<and> difficulty_to_tiers (Some '' hard '') = Inr (Some {''hard''})
   \<and> difficulty_to_tiers (Some ''easy'') = Inr (Some {''easy''})
   \<and> difficulty_to_tiers (Some ''very_easy'') = Inr (Some {''very_easy''})
   \<and> {''easy''} \<inter> {''very_easy''} = ({} :: string set)
   \<and> difficulty_to_tiers (Some (''easy'' @ [CHR 0xA0])) = Inr (Some {''easy''})"
proof -
  have s1: "strip ''rather_easy'' = ''rather_easy''"
    and s2: "strip '' all '' = ''all''"
    and s3: "strip '' hard '' = ''hard''"
    and s4: "strip ''easy'' = ''easy''"
    and s5: "strip ''very_easy'' = ''very_easy''"
    and s6: "strip (''easy'' @ [CHR 0xA0]) = ''easy''"
    by (simp_all add: strip_def strip_chars_def py_isspace_def)
  note t = difficulty_to_tiers_strict
  note t2 = t [THEN conjunct2, THEN conjunct1, rule_format]
  note t3 = t [THEN conjunct2, THEN conjunct2, THEN conjunct1, rule_format]
  note t4 = t [THEN conjunct2, THEN conjunct2, THEN conjunct2, THEN conjunct1, rule_format]
  note t6 = t [THEN conjunct2, THEN conjunct2, THEN conjunct2, THEN conjunct2, THEN conjunct2,
               rule_format]
  have a: "\<exists>m. difficulty_to_tiers (Some ''rather_easy'') = Inl (ValueError m)"
    by (rule t2) (simp add: s1 VALID_DIFFICULTIES_def)
  have b: "difficulty_to_tiers (Some '' all '') = Inr None"
    by (rule t3) (rule s2)
  have c: "difficulty_to_tiers (Some '' hard '') = Inr (Some {''hard''})"
    using t4 [of "'' hard ''"] by (simp add: s3 VALID_DIFFICULTIES_def)
  have d: "difficulty_to_tiers (Some ''easy'') = Inr (Some {''easy''})"
    using t4 [of "''easy''"] by (simp add: s4 VALID_DIFFICULTIES_def)
  have e: "difficulty_to_tiers (Some ''very_easy'') = Inr (Some {''very_easy''})"
    using t4 [of "''very_easy''"] by (simp add: s5 VALID_DIFFICULTIES_def)
  have f: "{''easy''} \<inter> {''very_easy''} = ({} :: string set)"
    using t6 [of "''easy''" "''very_easy''" "{''easy''}" "{''very_easy''}"] d e
    by (simp add: VALID_DIFFICULTIES_def)
  have g: "difficulty_to_tiers (Some (''easy'' @ [CHR 0xA0])) = Inr (Some {''easy''})"
    using t4 [of "''easy'' @ [CHR 0xA0]"] s6 by (simp add: VALID_DIFFICULTIES_def)
  from a b c d e f g show ?thesis
    by (intro conjI)
qed

section \<open>The session and the write guard (\<^verbatim>\<open>backend.py\<close>)\<close>

lemmas prog_defs = seq_def ret_def throw_def lift_def send_def try_except_def the_bucket_def

lemma connect_s3_success:
  "connect_s3 E bn ek ro s0 = (Inr h, s) \<Longrightarrow>
   READ_ONLY s = ro \<and> S3 s \<noteq> None \<and> BUCKET s = Some bn"
  by (auto simp: connect_s3_def Let_def split: if_splits option.splits)

lemma connect_s3_read_only:
  "connect_s3 E bn ek ro s0 = (r, s) \<Longrightarrow> READ_ONLY s = ro"
  by (auto simp: connect_s3_def Let_def split: if_splits option.splits)

lemma connect_s3_writes:
  "connect_s3 E bn ek ro s0 = (r, s) \<Longrightarrow>
   filter is_write (remote_log s) = filter is_write (remote_log s0)"
  by (auto simp: connect_s3_def Let_def is_write_def split: if_splits option.splits)

lemma guard_blocks:
  assumes "READ_ONLY s"
  shows "\<exists>e s'. seq (ensure_connected E) (\<lambda>_. seq check_write_permission (\<lambda>_. m)) s = (Inl e, s')
           \<and> filter is_write (remote_log s') = filter is_write (remote_log s)"
proof (cases "S3 s = None \<or> BUCKET s = None")
  case False
  with assms show ?thesis
    by (auto simp: ensure_connected_def check_write_permission_def prog_defs)
next
  case True
  obtain r s1 where c: "connect_s3 E ''cidl-test'' ''primary'' True s = (r, s1)"
    by (cases "connect_s3 E ''cidl-test'' ''primary'' True s") auto
  from connect_s3_read_only [OF c] connect_s3_writes [OF c] True c show ?thesis
    by (cases r) (auto simp: ensure_connected_def check_write_permission_def prog_defs)
qed

lemma guard_blocks_log:
  assumes "READ_ONLY s"
  shows "filter is_write
           (remote_log (snd (seq (ensure_connected E) (\<lambda>_. seq check_write_permission (\<lambda>_. m)) s)))
         = filter is_write (remote_log s)"
proof -
  from guard_blocks [OF assms, of E m] obtain e s'
    where "seq (ensure_connected E) (\<lambda>_. seq check_write_permission (\<lambda>_. m)) s = (Inl e, s')"
      and "filter is_write (remote_log s') = filter is_write (remote_log s)"
    by blast
  then show ?thesis by simp
qed

lemma guard_raises:
  "S3 s \<noteq> None \<Longrightarrow> BUCKET s \<noteq> None \<Longrightarrow> READ_ONLY s \<Longrightarrow>
   seq (ensure_connected E) (\<lambda>_. seq check_write_permission (\<lambda>_. m)) s
     = (Inl (PermissionError (''Write operation blocked. Backend is in read-only mode. ''
          @ ''Call connect_s3(read_only=False) with valid credentials.'')), s)"
  by (auto simp: ensure_connected_def check_write_permission_def seq_def)

lemma guard_passes:
  "S3 s \<noteq> None \<Longrightarrow> BUCKET s \<noteq> None \<Longrightarrow> \<not> READ_ONLY s \<Longrightarrow>
   seq (ensure_connected E) (\<lambda>_. seq check_write_permission (\<lambda>_. m)) s = m s"
  by (auto simp: ensure_connected_def check_write_permission_def prog_defs)

lemma appendsD: "appends m \<Longrightarrow> m s = (r, s') \<Longrightarrow> prefix (remote_log s) (remote_log s')"
  by (auto simp: appends_def dest: spec [of _ s])

lemma appends_seq:
  assumes "appends m" and "\<And>a. appends (f a)"
  shows "appends (seq m f)"
  unfolding appends_def
proof
  fix s
  obtain r s1 where m: "m s = (r, s1)" by (cases "m s") auto
  note p1 = appendsD [OF assms(1) m]
  show "prefix (remote_log s) (remote_log (snd (seq m f s)))"
  proof (cases r)
    case (Inl e)
    with m p1 show ?thesis by (simp add: seq_def)
  next
    case (Inr a)
    obtain r2 s2 where f: "f a s1 = (r2, s2)" by (cases "f a s1") auto
    from appendsD [OF assms(2) f] p1 have "prefix (remote_log s) (remote_log s2)"
      by (rule prefix_order.order_trans [rotated])
    with m Inr f show ?thesis by (simp add: seq_def)
  qed
qed

lemma appends_try:
  assumes "appends m" and "\<And>e. appends (h e)"
  shows "appends (try_except m h)"
  unfolding appends_def
proof
  fix s
  obtain r s1 where m: "m s = (r, s1)" by (cases "m s") auto
  note p1 = appendsD [OF assms(1) m]
  show "prefix (remote_log s) (remote_log (snd (try_except m h s)))"
  proof (cases r)
    case (Inr a)
    with m p1 show ?thesis by (simp add: try_except_def)
  next
    case (Inl e)
    obtain r2 s2 where f: "h e s1 = (r2, s2)" by (cases "h e s1") auto
    from appendsD [OF assms(2) f] p1 have "prefix (remote_log s) (remote_log s2)"
      by (rule prefix_order.order_trans [rotated])
    with m Inl f p1 show ?thesis by (simp add: try_except_def)
  qed
qed

lemma appends_basic [simp]:
  "appends (ret a)" "appends (throw e)" "appends (lift r)" "appends (send op)" "appends the_bucket"
  by (auto simp: appends_def prog_defs split: option.splits)

lemma appends_delete_each: "appends (delete_each E b ks)"
  by (induction ks) (auto intro!: appends_seq)

lemma appends_connect: "appends (connect_s3 E bn ek ro)"
  by (auto simp: appends_def connect_s3_def Let_def split: option.splits)

lemma appends_ensure: "appends (ensure_connected E)"
  unfolding appends_def
proof
  fix s
  show "prefix (remote_log s) (remote_log (snd (ensure_connected E s)))"
  proof (cases "S3 s = None \<or> BUCKET s = None")
    case False
    then show ?thesis by (auto simp: ensure_connected_def)
  next
    case True
    have "appends (seq (connect_s3 E ''cidl-test'' ''primary'' True) (\<lambda>_. ret ()))"
      by (intro appends_seq appends_connect appends_basic)
    with True show ?thesis
      by (auto simp: appends_def ensure_connected_def)
  qed
qed

lemma appends_check: "appends check_write_permission"
  by (auto simp: appends_def check_write_permission_def)

lemma appends_upload_file: "appends (upload_file E f p)"
  unfolding upload_file_def Let_def
  by (intro appends_seq appends_try appends_ensure appends_check appends_basic)

lemma appends_upload_each: "appends (upload_each E p fs)"
  by (induction fs) (auto intro!: appends_seq appends_upload_file)

lemma after_send:
  assumes "\<And>b. appends (m b)" and "BUCKET s = Some b"
  shows "prefix (remote_log s @ [op b])
           (remote_log (snd (seq the_bucket (\<lambda>b. seq (send (op b)) (\<lambda>_. m b)) s)))"
  using assms(1) [of b, unfolded appends_def, rule_format,
                  of "s\<lparr>remote_log := remote_log s @ [op b]\<rparr>"] assms(2)
  by (simp add: seq_def send_def the_bucket_def)

lemma try_ret_log:
  "remote_log (snd (try_except m (\<lambda>e. ret (h e)) s)) = remote_log (snd (m s))"
  by (auto simp: try_except_def ret_def split: prod.splits sum.splits)

lemma delete_each_result:
  "fst (delete_each E b ks s) =
     (case List.map_filter (object_delete E b) ks of [] \<Rightarrow> Inr () | e # _ \<Rightarrow> Inl e)"
  by (induction ks arbitrary: s)
     (auto simp: prog_defs List.map_filter_simps split: option.splits list.splits)

text \<open>
  The write guard, on the value of the flag \<^verbatim>\<open>_READ_ONLY\<close>.
  \<^item> A session that \<^verbatim>\<open>connect_s3\<close> has established with \<open>read_only = ro\<close> has the flag
    \<^verbatim>\<open>_READ_ONLY = ro\<close> and both handles set.
  \<^item> With a session and the flag set, each of \<^verbatim>\<open>upload_file\<close>, \<^verbatim>\<open>upload_directory\<close>,
    \<^verbatim>\<open>delete_object\<close> and \<^verbatim>\<open>delete_prefix\<close> raises \<^verbatim>\<open>PermissionError\<close> and leaves the state as
    it was: nothing is sent to the store.
  \<^item> With the flag set (session or not), none of the four sends an upload or a deletion.
  \<^item> With a session and the flag not set the guard passes and the operation goes on to the
    store: \<^verbatim>\<open>upload_file\<close> sends the upload of \<^verbatim>\<open>prefix/name\<close> (when the local file can be read),
    \<^verbatim>\<open>delete_object\<close> sends the deletion, \<^verbatim>\<open>upload_directory\<close> and \<^verbatim>\<open>delete_prefix\<close> send the
    listing of the prefix first.
\<close>

lemma guard_on_flag:
  "(connect_s3 E bn ek ro s0 = (Inr h, s)
      \<longrightarrow> READ_ONLY s = ro \<and> S3 s \<noteq> None \<and> BUCKET s = Some bn)
   \<and> (S3 s \<noteq> None \<and> BUCKET s \<noteq> None \<and> READ_ONLY s \<longrightarrow>
        (\<exists>msg. upload_file E f p s = (Inl (PermissionError msg), s)
            \<and> upload_directory E d p w x s = (Inl (PermissionError msg), s)
            \<and> delete_object E k s = (Inl (PermissionError msg), s)
            \<and> delete_prefix E p s = (Inl (PermissionError msg), s)))
   \<and> (READ_ONLY s \<longrightarrow>
        (\<forall>s'. s' \<in> {snd (upload_file E f p s), snd (upload_directory E d p w x s),
                   snd (delete_object E k s), snd (delete_prefix E p s)}
           \<longrightarrow> filter is_write (remote_log s') = filter is_write (remote_log s)))
   \<and> (S3 s \<noteq> None \<and> BUCKET s = Some b \<and> \<not> READ_ONLY s \<longrightarrow>
        check_write_permission s = (Inr (), s)
        \<and> (\<forall>n. path_stat E f = Inr n \<longrightarrow>
              remote_log (snd (upload_file E f p s))
                = remote_log s @ [Put b (p @ ''/'' @ path_name f)])
        \<and> prefix (remote_log s @ [Listing b p])
             (remote_log (snd (upload_directory E d p w x s)))
        \<and> remote_log (snd (delete_object E k s)) = remote_log s @ [Delete b k]
        \<and> prefix (remote_log s @ [Listing b p]) (remote_log (snd (delete_prefix E p s))))"
proof -
  have A: "connect_s3 E bn ek ro s0 = (Inr h, s)
             \<longrightarrow> READ_ONLY s = ro \<and> S3 s \<noteq> None \<and> BUCKET s = Some bn"
    using connect_s3_success by blast
  have B: "S3 s \<noteq> None \<and> BUCKET s \<noteq> None \<and> READ_ONLY s \<longrightarrow>
        (\<exists>msg. upload_file E f p s = (Inl (PermissionError msg), s)
            \<and> upload_directory E d p w x s = (Inl (PermissionError msg), s)
            \<and> delete_object E k s = (Inl (PermissionError msg), s)
            \<and> delete_prefix E p s = (Inl (PermissionError msg), s))"
  proof
    assume "S3 s \<noteq> None \<and> BUCKET s \<noteq> None \<and> READ_ONLY s"
    then have g: "S3 s \<noteq> None" "BUCKET s \<noteq> None" "READ_ONLY s"
      by auto
    have "upload_file E f p s = (Inl (PermissionError (''Write operation blocked. Backend is in read-only mode. ''
          @ ''Call connect_s3(read_only=False) with valid credentials.'')), s)"
      unfolding upload_file_def by (rule guard_raises [OF g])
    moreover
    have "upload_directory E d p w x s = (Inl (PermissionError (''Write operation blocked. Backend is in read-only mode. ''
          @ ''Call connect_s3(read_only=False) with valid credentials.'')), s)"
      unfolding upload_directory_def by (rule guard_raises [OF g])
    moreover
    have "delete_object E k s = (Inl (PermissionError (''Write operation blocked. Backend is in read-only mode. ''
          @ ''Call connect_s3(read_only=False) with valid credentials.'')), s)"
      unfolding delete_object_def by (rule guard_raises [OF g])
    moreover
    have "delete_prefix E p s = (Inl (PermissionError (''Write operation blocked. Backend is in read-only mode. ''
          @ ''Call connect_s3(read_only=False) with valid credentials.'')), s)"
      unfolding delete_prefix_def by (rule guard_raises [OF g])
    ultimately
    show "\<exists>msg. upload_file E f p s = (Inl (PermissionError msg), s)
            \<and> upload_directory E d p w x s = (Inl (PermissionError msg), s)
            \<and> delete_object E k s = (Inl (PermissionError msg), s)
            \<and> delete_prefix E p s = (Inl (PermissionError msg), s)"
      by blast
  qed
  have C: "READ_ONLY s \<longrightarrow>
        (\<forall>s'. s' \<in> {snd (upload_file E f p s), snd (upload_directory E d p w x s),
                   snd (delete_object E k s), snd (delete_prefix E p s)}
           \<longrightarrow> filter is_write (remote_log s') = filter is_write (remote_log s))"
  proof
    assume ro: "READ_ONLY s"
    have "filter is_write (remote_log (snd (upload_file E f p s)))
            = filter is_write (remote_log s)"
      unfolding upload_file_def by (rule guard_blocks_log [OF ro])
    moreover
    have "filter is_write (remote_log (snd (upload_directory E d p w x s)))
            = filter is_write (remote_log s)"
      unfolding upload_directory_def by (rule guard_blocks_log [OF ro])
    moreover
    have "filter is_write (remote_log (snd (delete_object E k s)))
            = filter is_write (remote_log s)"
      unfolding delete_object_def by (rule guard_blocks_log [OF ro])
    moreover
    have "filter is_write (remote_log (snd (delete_prefix E p s)))
            = filter is_write (remote_log s)"
      unfolding delete_prefix_def by (rule guard_blocks_log [OF ro])
    ultimately
    show "\<forall>s'. s' \<in> {snd (upload_file E f p s), snd (upload_directory E d p w x s),
                     snd (delete_object E k s), snd (delete_prefix E p s)}
             \<longrightarrow> filter is_write (remote_log s') = filter is_write (remote_log s)"
      by auto
  qed
  have D: "S3 s \<noteq> None \<and> BUCKET s = Some b \<and> \<not> READ_ONLY s \<longrightarrow>
        check_write_permission s = (Inr (), s)
        \<and> (\<forall>n. path_stat E f = Inr n \<longrightarrow>
              remote_log (snd (upload_file E f p s))
                = remote_log s @ [Put b (p @ ''/'' @ path_name f)])
        \<and> prefix (remote_log s @ [Listing b p])
             (remote_log (snd (upload_directory E d p w x s)))
        \<and> remote_log (snd (delete_object E k s)) = remote_log s @ [Delete b k]
        \<and> prefix (remote_log s @ [Listing b p]) (remote_log (snd (delete_prefix E p s)))"
  proof (intro impI conjI allI)
    assume a: "S3 s \<noteq> None \<and> BUCKET s = Some b \<and> \<not> READ_ONLY s"
    then show "check_write_permission s = (Inr (), s)"
      by (simp add: check_write_permission_def)
  next
    fix n
    assume a: "S3 s \<noteq> None \<and> BUCKET s = Some b \<and> \<not> READ_ONLY s"
      and "path_stat E f = Inr n"
    then show "remote_log (snd (upload_file E f p s))
                   = remote_log s @ [Put b (p @ ''/'' @ path_name f)]"
      by (auto simp: upload_file_def ensure_connected_def check_write_permission_def prog_defs
            Let_def split: option.splits)
  next
    assume a: "S3 s \<noteq> None \<and> BUCKET s = Some b \<and> \<not> READ_ONLY s"
    then show "remote_log (snd (delete_object E k s)) = remote_log s @ [Delete b k]"
      by (auto simp: delete_object_def ensure_connected_def check_write_permission_def prog_defs
            split: option.splits)
  next
    assume a: "S3 s \<noteq> None \<and> BUCKET s = Some b \<and> \<not> READ_ONLY s"
    then have c: "S3 s \<noteq> None" "BUCKET s \<noteq> None" "\<not> READ_ONLY s" and b: "BUCKET s = Some b"
      by auto
    have "\<And>b. appends (seq (lift (objects_filter E b p)) (\<lambda>objects.
             if objects = [] then ret PyTrue
             else seq (delete_each E b objects) (\<lambda>_. ret PyTrue)))"
      by (intro appends_seq) (auto intro!: appends_seq appends_delete_each)
    from after_send [of _ s b "\<lambda>b. Listing b p", OF this b]
    show "prefix (remote_log s @ [Listing b p]) (remote_log (snd (delete_prefix E p s)))"
      unfolding delete_prefix_def guard_passes [OF c] try_ret_log .
  next
    assume a: "S3 s \<noteq> None \<and> BUCKET s = Some b \<and> \<not> READ_ONLY s"
    then have c: "S3 s \<noteq> None" "BUCKET s \<noteq> None" "\<not> READ_ONLY s" and b: "BUCKET s = Some b"
      by auto
    have "\<And>b. appends (seq (lift (objects_filter E b p)) (\<lambda>existing.
             if (case w of None \<Rightarrow> False | Some w \<Rightarrow> w \<le> 0) then
               throw (ValueError ''max_workers must be greater than 0'')
             else
               seq (upload_each E p
                      (filter (\<lambda>f. p @ ''/'' @ path_name f \<notin> set existing)
                         (sort (concat (map (path_glob E d)
                            (case x of None \<Rightarrow> [''*.parquet'', ''*.csv'', ''*.json'']
                             | Some x \<Rightarrow> x))))))
                 (\<lambda>results.
                    ret (map (\<lambda>(fname, result, s3_path). (fname, result))
                           (filter (\<lambda>(fname, result, s3_path). result \<noteq> PyTrue) results)))))"
      by (intro appends_seq) (auto intro!: appends_seq appends_upload_each)
    from after_send [of _ s b "\<lambda>b. Listing b p", OF this b]
    show "prefix (remote_log s @ [Listing b p])
            (remote_log (snd (upload_directory E d p w x s)))"
      unfolding upload_directory_def guard_passes [OF c] Let_def .
  qed
  show ?thesis
    by (intro conjI) (rule A, rule B, rule C, rule D)
qed

text \<open>
  A failed call of \<^verbatim>\<open>connect_s3\<close> keeps the session it found when it fails before the client
  is created (credentials, endpoint selector), and has assigned the flag all the same.
\<close>

lemma connect_s3_failed_keeps_session:
  assumes "falsy (UHH_S3_ACCESS E) \<or> falsy (UHH_S3_SECRET E) \<or> map_of ENDPOINTS ek = None"
  shows "\<exists>e. connect_s3 E bn ek ro s = (Inl e, s\<lparr>READ_ONLY := ro\<rparr>)"
  using assms by (auto simp: connect_s3_def Let_def)

text \<open>
  C9: a session established with \<^verbatim>\<open>read_only=True\<close> blocks \<^verbatim>\<open>delete_object\<close> and \<^verbatim>\<open>upload_file\<close>
  with \<^verbatim>\<open>PermissionError\<close>.  After a call \<^verbatim>\<open>connect_s3(endpoint_key="nowhere", read_only=False)\<close>,
  which raises \<^verbatim>\<open>ValueError\<close> and leaves the handles of that session in place, the flag is
  no longer set: on the same session \<^verbatim>\<open>delete_object\<close> sends the deletion and returns \<^verbatim>\<open>True\<close>,
  and \<^verbatim>\<open>upload_file\<close> sends the upload.
\<close>

theorem read_only_session_writes:
  "connect_s3 example_env ''cidl-test'' ''primary'' True initial_state
     = (Inr (''https://s3-uhh.lzs.uni-hamburg.de:443'', ''cidl-test'',
             ''https://s3-uhh.lzs.uni-hamburg.de:443''), connected_state True)
   \<and> fst (delete_object example_env ''acic22/simulations/sim_0001.parquet''
            (connected_state True))
       = Inl (PermissionError (''Write operation blocked. Backend is in read-only mode. ''
                @ ''Call connect_s3(read_only=False) with valid credentials.''))
   \<and> (\<exists>msg. connect_s3 example_env ''cidl-test'' ''nowhere'' False (connected_state True)
               = (Inl (ValueError msg), (connected_state True)\<lparr>READ_ONLY := False\<rparr>))
   \<and> S3 ((connected_state True)\<lparr>READ_ONLY := False\<rparr>) = S3 (connected_state True)
   \<and> BUCKET ((connected_state True)\<lparr>READ_ONLY := False\<rparr>) = BUCKET (connected_state True)
   \<and> delete_object example_env ''acic22/simulations/sim_0001.parquet''
         ((connected_state True)\<lparr>READ_ONLY := False\<rparr>)
       = (Inr PyTrue,
          (connected_state True)\<lparr>READ_ONLY := False,
             remote_log := [Probe ''cidl-test'',
               Delete ''cidl-test'' ''acic22/simulations/sim_0001.parquet'']\<rparr>)
   \<and> upload_file example_env [''data'', ''sim_0001.parquet''] ''acic22/simulations''
         ((connected_state True)\<lparr>READ_ONLY := False\<rparr>)
       = (Inr (''sim_0001.parquet'', PyTrue,
               Some ''s3://cidl-test/acic22/simulations/sim_0001.parquet''),
          (connected_state True)\<lparr>READ_ONLY := False,
             remote_log := [Probe ''cidl-test'',
               Put ''cidl-test'' ''acic22/simulations/sim_0001.parquet'']\<rparr>)"
  by (simp add: connect_s3_def delete_object_def upload_file_def ensure_connected_def
        check_write_permission_def example_env_def initial_state_def connected_state_def
        ENDPOINTS_def falsy_def path_name_def Let_def prog_defs)
text \<open>
  C10: with a session in write mode, \<^verbatim>\<open>delete_object\<close> and \<^verbatim>\<open>delete_prefix\<close> return, whatever
  exception (a subclass of \<^verbatim>\<open>Exception\<close>) the store raises for the listing or for a deletion:
  \<^verbatim>\<open>True\<close> when nothing fails, the exception caught when something does (for
  \<^verbatim>\<open>delete_prefix\<close>: the exception of the listing, else that of the first deletion that
  fails).  When the listing is empty \<^verbatim>\<open>delete_prefix\<close> returns \<^verbatim>\<open>True\<close> and sends no deletion.
\<close>

theorem delete_returns_outcome:
  assumes "S3 s \<noteq> None" and "BUCKET s = Some b" and "\<not> READ_ONLY s"
    and "\<forall>k e. object_delete E b k = Some e \<longrightarrow> is_Exception e"
    and "\<forall>e. objects_filter E b p = Inl e \<longrightarrow> is_Exception e"
  shows "fst (delete_object E key s) =
           Inr (case object_delete E b key of None \<Rightarrow> PyTrue | Some e \<Rightarrow> Caught e)
       \<and> fst (delete_prefix E p s) =
           Inr (case objects_filter E b p of
                  Inl e \<Rightarrow> Caught e
                | Inr ks \<Rightarrow> (case List.map_filter (object_delete E b) ks of
                              [] \<Rightarrow> PyTrue | e # _ \<Rightarrow> Caught e))
       \<and> (objects_filter E b p = Inr [] \<longrightarrow>
            delete_prefix E p s
              = (Inr PyTrue, s\<lparr>remote_log := remote_log s @ [Listing b p]\<rparr>))"
proof (intro conjI)
  show "fst (delete_object E key s) =
           Inr (case object_delete E b key of None \<Rightarrow> PyTrue | Some e \<Rightarrow> Caught e)"
    using assms
    by (auto simp: delete_object_def ensure_connected_def check_write_permission_def prog_defs
             split: option.splits)
next
  show "fst (delete_prefix E p s) =
           Inr (case objects_filter E b p of
                  Inl e \<Rightarrow> Caught e
                | Inr ks \<Rightarrow> (case List.map_filter (object_delete E b) ks of
                              [] \<Rightarrow> PyTrue | e # _ \<Rightarrow> Caught e))"
  proof (cases "objects_filter E b p")
    case (Inl e)
    with assms show ?thesis
      by (auto simp: delete_prefix_def ensure_connected_def check_write_permission_def prog_defs)
  next
    case (Inr ks)
    show ?thesis
    proof (cases "List.map_filter (object_delete E b) ks")
      case Nil
      with Inr assms
        delete_each_result [of E b ks "s\<lparr>remote_log := remote_log s @ [Listing b p]\<rparr>"]
      show ?thesis
        by (auto simp: delete_prefix_def ensure_connected_def check_write_permission_def
              prog_defs List.map_filter_simps split: prod.splits sum.splits)
    next
      case (Cons e es)
      then have "e \<in> set (List.map_filter (object_delete E b) ks)"
        by simp
      then obtain k where "object_delete E b k = Some e"
        by (auto simp: List.map_filter_def)
      with assms have "is_Exception e"
        by blast
      with Cons Inr assms
        delete_each_result [of E b ks "s\<lparr>remote_log := remote_log s @ [Listing b p]\<rparr>"]
      show ?thesis
        by (auto simp: delete_prefix_def ensure_connected_def check_write_permission_def
              prog_defs List.map_filter_simps split: prod.splits sum.splits)
    qed
  qed
next
  show "objects_filter E b p = Inr [] \<longrightarrow>
          delete_prefix E p s = (Inr PyTrue, s\<lparr>remote_log := remote_log s @ [Listing b p]\<rparr>)"
    using assms
    by (auto simp: delete_prefix_def ensure_connected_def check_write_permission_def prog_defs)
qed

text \<open>
  A store that holds two objects under \<^verbatim>\<open>acic22\<close> and fails to delete the second, and nothing
  under \<^verbatim>\<open>empty\<close>.
\<close>

theorem delete_returns_outcome_witness:
  "fst (delete_object
          (example_env\<lparr>object_delete := (\<lambda>b k. if k = ''acic22/b'' then
              Some (ClientError (Some ''InternalError'') ''We encountered an internal error'')
              else None),
            objects_filter := (\<lambda>b p. if p = ''acic22'' then Inr [''acic22/a'', ''acic22/b'']
              else Inr [])\<rparr>)
          ''acic22/a'' (connected_state False)) = Inr PyTrue
   \<and> fst (delete_object
          (example_env\<lparr>object_delete := (\<lambda>b k. if k = ''acic22/b'' then
              Some (ClientError (Some ''InternalError'') ''We encountered an internal error'')
              else None),
            objects_filter := (\<lambda>b p. if p = ''acic22'' then Inr [''acic22/a'', ''acic22/b'']
              else Inr [])\<rparr>)
          ''acic22/b'' (connected_state False))
        = Inr (Caught (ClientError (Some ''InternalError'') ''We encountered an internal error''))
   \<and> fst (delete_prefix
          (example_env\<lparr>object_delete := (\<lambda>b k. if k = ''acic22/b'' then
              Some (ClientError (Some ''InternalError'') ''We encountered an internal error'')
              else None),
            objects_filter := (\<lambda>b p. if p = ''acic22'' then Inr [''acic22/a'', ''acic22/b'']
              else Inr [])\<rparr>)
          ''acic22'' (connected_state False))
        = Inr (Caught (ClientError (Some ''InternalError'') ''We encountered an internal error''))
   \<and> delete_prefix
          (example_env\<lparr>object_delete := (\<lambda>b k. if k = ''acic22/b'' then
              Some (ClientError (Some ''InternalError'') ''We encountered an internal error'')
              else None),
            objects_filter := (\<lambda>b p. if p = ''acic22'' then Inr [''acic22/a'', ''acic22/b'']
              else Inr [])\<rparr>)
          ''empty'' (connected_state False)
        = (Inr PyTrue, (connected_state False)\<lparr>remote_log :=
             [Probe ''cidl-test'', Listing ''cidl-test'' ''empty'']\<rparr>)"
proof -
  define E where "E = example_env\<lparr>object_delete := (\<lambda>b k. if k = ''acic22/b'' then
              Some (ClientError (Some ''InternalError'') ''We encountered an internal error'')
              else None),
            objects_filter := (\<lambda>b p. if p = ''acic22'' then Inr [''acic22/a'', ''acic22/b'']
              else Inr [])\<rparr>"
  have od: "\<And>b k. object_delete E b k = (if k = ''acic22/b'' then
              Some (ClientError (Some ''InternalError'') ''We encountered an internal error'')
              else None)"
    and ofl: "\<And>b p. objects_filter E b p
              = (if p = ''acic22'' then Inr [''acic22/a'', ''acic22/b''] else Inr [])"
    by (simp_all add: E_def)
  have pre: "S3 (connected_state False) \<noteq> None"
    "BUCKET (connected_state False) = Some ''cidl-test''"
    "\<not> READ_ONLY (connected_state False)"
    by (simp_all add: connected_state_def initial_state_def)
  have h1: "\<forall>k e. object_delete E ''cidl-test'' k = Some e \<longrightarrow> is_Exception e"
    by (auto simp: od split: if_splits)
  have h2: "\<And>p. \<forall>e. objects_filter E ''cidl-test'' p = Inl e \<longrightarrow> is_Exception e"
    by (auto simp: ofl split: if_splits)
  have lg: "remote_log (connected_state False) = [Probe ''cidl-test'']"
    by (simp add: connected_state_def initial_state_def)
  from delete_returns_outcome [OF pre h1 h2, where p = "''acic22''" and key = "''acic22/a''"]
  have a: "fst (delete_object E ''acic22/a'' (connected_state False)) = Inr PyTrue"
    by (simp add: od)
  from delete_returns_outcome [OF pre h1 h2, where p = "''acic22''" and key = "''acic22/b''"]
  have b: "fst (delete_object E ''acic22/b'' (connected_state False))
        = Inr (Caught (ClientError (Some ''InternalError'') ''We encountered an internal error''))"
    and c: "fst (delete_prefix E ''acic22'' (connected_state False))
        = Inr (Caught (ClientError (Some ''InternalError'') ''We encountered an internal error''))"
    by (simp_all add: od ofl List.map_filter_simps)
  from delete_returns_outcome [OF pre h1 h2, where p = "''empty''" and key = "''acic22/a''"]
  have d: "delete_prefix E ''empty'' (connected_state False)
        = (Inr PyTrue, (connected_state False)\<lparr>remote_log :=
             [Probe ''cidl-test'', Listing ''cidl-test'' ''empty'']\<rparr>)"
    by (simp add: ofl lg)
  from a b c d show ?thesis
    unfolding E_def by (intro conjI)
qed

section \<open>Failures of \<^verbatim>\<open>connect_s3\<close>\<close>

text \<open>
  The causes decided before the probe: the credentials (a variable that is unset or empty
  is missing), then the endpoint selector.  With neither present, a client that can be
  created and a probe that succeeds, the call returns the session.
\<close>

lemma connect_s3_before_probe:
  "(falsy (UHH_S3_ACCESS E) \<and> falsy (UHH_S3_SECRET E) \<longrightarrow>
      fst (connect_s3 E bn ek ro s) = Inl (RuntimeError
        ''S3 connection failed: ACCESS_KEY and SECRET_KEY are missing in environment variables.''))
   \<and> (falsy (UHH_S3_ACCESS E) \<and> \<not> falsy (UHH_S3_SECRET E) \<longrightarrow>
      fst (connect_s3 E bn ek ro s) = Inl (RuntimeError
        ''S3 connection failed: ACCESS_KEY is missing in environment variables.''))
   \<and> (\<not> falsy (UHH_S3_ACCESS E) \<and> falsy (UHH_S3_SECRET E) \<longrightarrow>
      fst (connect_s3 E bn ek ro s) = Inl (RuntimeError
        ''S3 connection failed: SECRET_KEY is missing in environment variables.''))
   \<and> (\<not> falsy (UHH_S3_ACCESS E) \<and> \<not> falsy (UHH_S3_SECRET E)
        \<and> ek \<notin> {''primary'', ''site-1'', ''site-2'', ''site-3''} \<longrightarrow>
      (\<exists>m. fst (connect_s3 E bn ek ro s) = Inl (ValueError m)))
   \<and> (\<not> falsy (UHH_S3_ACCESS E) \<and> \<not> falsy (UHH_S3_SECRET E)
        \<and> ek \<in> {''primary'', ''site-1'', ''site-2'', ''site-3''} \<and> resource_create E = None
        \<and> bucket_load E bn = None \<longrightarrow>
      (\<exists>h. fst (connect_s3 E bn ek ro s) = Inr h))"
  by (auto simp: connect_s3_def Let_def ENDPOINTS_def)

text \<open>
  The probe: whatever exception \<^verbatim>\<open>_BUCKET.load()\<close> raises, client error of any code or not,
  \<^verbatim>\<open>connect_s3\<close> raises the \<^verbatim>\<open>AttributeError\<close> of the first \<^verbatim>\<open>except\<close> clause, with the handles
  of the session and the flag already assigned.
\<close>

lemma connect_s3_probe_raises:
  assumes "\<not> falsy (UHH_S3_ACCESS E)" and "\<not> falsy (UHH_S3_SECRET E)"
    and "map_of ENDPOINTS ek = Some url" and "resource_create E = None"
    and "bucket_load E bn = Some e"
  shows "connect_s3 E bn ek ro s
           = (Inl (AttributeError (''module '' @ [CHR 0x27] @ ''boto3.exceptions'' @ [CHR 0x27]
                     @ '' has no attribute '' @ [CHR 0x27] @ ''ClientError'' @ [CHR 0x27])),
              s\<lparr>READ_ONLY := ro, ACTIVE_ENDPOINT := Some url, S3 := Some url,
                BUCKET := Some bn, remote_log := remote_log s @ [Probe bn]\<rparr>)"
  using assms
  by (simp add: connect_s3_def Let_def probe_failure_def boto3_exceptions_ClientError_def)

text \<open>
  C4: with both credentials set and a valid endpoint selector, a probe that the store
  answers with the code \<^verbatim>\<open>InvalidAccessKeyId\<close>, with the code \<^verbatim>\<open>NoSuchBucket\<close>, or that fails
  without an answer of the store, makes \<^verbatim>\<open>connect_s3\<close> raise one and the same
  \<^verbatim>\<open>AttributeError\<close>; the causes are not told apart.  The bodies of the handlers hold the
  classification the call was written to give: for these three failures they would raise
  three different messages.
\<close>

theorem connect_s3_probe_unclassified:
  "fst (connect_s3
          (example_env\<lparr>bucket_load :=
             (\<lambda>b. Some (ClientError (Some ''InvalidAccessKeyId'') ''unknown key''))\<rparr>)
          ''cidl-test'' ''primary'' True initial_state)
     = Inl (AttributeError (''module '' @ [CHR 0x27] @ ''boto3.exceptions'' @ [CHR 0x27]
              @ '' has no attribute '' @ [CHR 0x27] @ ''ClientError'' @ [CHR 0x27]))
   \<and> fst (connect_s3
          (example_env\<lparr>bucket_load :=
             (\<lambda>b. Some (ClientError (Some ''NoSuchBucket'') ''no bucket''))\<rparr>)
          ''cidl-test'' ''primary'' True initial_state)
     = Inl (AttributeError (''module '' @ [CHR 0x27] @ ''boto3.exceptions'' @ [CHR 0x27]
              @ '' has no attribute '' @ [CHR 0x27] @ ''ClientError'' @ [CHR 0x27]))
   \<and> fst (connect_s3
          (example_env\<lparr>bucket_load :=
             (\<lambda>b. Some (OtherError ''EndpointConnectionError'' ''Could not connect''))\<rparr>)
          ''cidl-test'' ''primary'' True initial_state)
     = Inl (AttributeError (''module '' @ [CHR 0x27] @ ''boto3.exceptions'' @ [CHR 0x27]
              @ '' has no attribute '' @ [CHR 0x27] @ ''ClientError'' @ [CHR 0x27]))
   \<and> probe_handlers ''cidl-test'' (ClientError (Some ''InvalidAccessKeyId'') ''unknown key'')
     = RuntimeError ''S3 connection failed: Access Key is invalid.''
   \<and> probe_handlers ''cidl-test'' (ClientError (Some ''NoSuchBucket'') ''no bucket'')
     = RuntimeError (''S3 connection failed: Bucket '' @ [CHR 0x27] @ ''cidl-test'' @ [CHR 0x27]
         @ '' does not exist.'')
   \<and> probe_handlers ''cidl-test'' (OtherError ''EndpointConnectionError'' ''Could not connect'')
     = RuntimeError ''S3 connection failed: Unknown error (Could not connect)''"
  by (simp add: connect_s3_def Let_def probe_failure_def boto3_exceptions_ClientError_def
        example_env_def initial_state_def ENDPOINTS_def falsy_def)

section \<open>Downloads and the byte cache (\<^verbatim>\<open>cidl/loaders.py\<close>)\<close>

lemma connect_s3_frame:
  "connect_s3 E bn ek ro s = (r, s') \<Longrightarrow>
   CACHE s' = CACHE s \<and> META_CACHE s' = META_CACHE s \<and> emitted s' = emitted s
   \<and> entropy_used s' = entropy_used s \<and> stdin_used s' = stdin_used s
   \<and> filter (is_transfer key) (remote_log s') = filter (is_transfer key) (remote_log s)"
  by (auto simp: connect_s3_def Let_def is_transfer_def split: if_splits option.splits)

lemma ensure_connected_frame:
  assumes "ensure_connected E s = (r, s')"
  shows "CACHE s' = CACHE s \<and> META_CACHE s' = META_CACHE s \<and> emitted s' = emitted s
   \<and> entropy_used s' = entropy_used s \<and> stdin_used s' = stdin_used s
   \<and> filter (is_transfer key) (remote_log s') = filter (is_transfer key) (remote_log s)"
proof (cases "S3 s = None \<or> BUCKET s = None")
  case False
  with assms show ?thesis by (auto simp: ensure_connected_def)
next
  case True
  obtain r1 s1 where c: "connect_s3 E ''cidl-test'' ''primary'' True s = (r1, s1)"
    by (cases "connect_s3 E ''cidl-test'' ''primary'' True s") auto
  with True assms have "s' = s1"
    by (auto simp: ensure_connected_def seq_def ret_def split: sum.splits)
  with connect_s3_frame [OF c, of key] show ?thesis by simp
qed

lemma download_file_hit:
  "CACHE s key = Some data \<Longrightarrow> download_file E key True s = (Inr data, s)"
  by (simp add: download_file_def)

lemma download_file_miss:
  assumes "(if use_cache then CACHE s key else None) = None"
    and "download_file E key use_cache s = (Inr data, s1)"
  shows "\<exists>s0 b. ensure_connected E s = (Inr (), s0) \<and> BUCKET s0 = Some b
           \<and> download_fileobj E b key = Inr data
           \<and> s1 = (if use_cache
                   then s0\<lparr>remote_log := remote_log s0 @ [Get b key],
                           CACHE := (CACHE s0)(key \<mapsto> data)\<rparr>
                   else s0\<lparr>remote_log := remote_log s0 @ [Get b key]\<rparr>)"
proof -
  obtain r s0 where e: "ensure_connected E s = (r, s0)"
    by (cases "ensure_connected E s") auto
  with assms show ?thesis
    by (cases r; cases "BUCKET s0"; cases use_cache)
       (auto simp: download_file_def prog_defs split: sum.splits if_splits)
qed

text \<open>
  C8: when \<^verbatim>\<open>_download_file(key, use_cache=True)\<close> returns, a second call returns the same
  bytes and leaves the state as it is (it sends nothing to the store), whatever the store
  would answer by then: the bytes are in the cache under the key.  The first call sent at
  most one download of the key: none when the key was cached already (the state is
  unchanged), else exactly one, whose content it returns and stores.
\<close>

theorem fetch_bytes_twice:
  assumes "download_file E key True s = (Inr data, s1)"
  shows "download_file E' key True s1 = (Inr data, s1)
       \<and> CACHE s1 key = Some data
       \<and> length (filter (is_transfer key) (remote_log s1))
           \<le> Suc (length (filter (is_transfer key) (remote_log s)))
       \<and> (CACHE s key \<noteq> None \<longrightarrow> s1 = s)
       \<and> (CACHE s key = None \<longrightarrow>
            (\<exists>b. download_fileobj E b key = Inr data
               \<and> filter (is_transfer key) (remote_log s1)
                   = filter (is_transfer key) (remote_log s) @ [Get b key]))"
proof (cases "CACHE s key")
  case (Some cached)
  with assms have "s1 = s" "data = cached"
    by (simp_all add: download_file_def)
  with Some show ?thesis
    by (simp add: download_file_hit)
next
  case None
  then have "(if True then CACHE s key else None) = None" by simp
  from download_file_miss [OF this assms] obtain s0 b
    where e: "ensure_connected E s = (Inr (), s0)" and b: "BUCKET s0 = Some b"
      and d: "download_fileobj E b key = Inr data"
      and s1: "s1 = s0\<lparr>remote_log := remote_log s0 @ [Get b key],
                         CACHE := (CACHE s0)(key \<mapsto> data)\<rparr>"
    by auto
  from ensure_connected_frame [OF e, of key]
  have f: "filter (is_transfer key) (remote_log s0) = filter (is_transfer key) (remote_log s)"
    by simp
  have c: "CACHE s1 key = Some data"
    by (simp add: s1)
  from c have "download_file E' key True s1 = (Inr data, s1)"
    by (rule download_file_hit)
  with c None d f show ?thesis
    by (auto simp: s1 is_transfer_def)
qed

text \<open>
  A first call without a session, for an object the store holds; by the second call the
  store has lost it.
\<close>

theorem fetch_bytes_twice_witness:
  "download_file
     (example_env\<lparr>download_fileobj := (\<lambda>b k. Inr ''PAR1'')\<rparr>)
     ''acic22/simulations/sim_0001.parquet'' True initial_state
     = (Inr ''PAR1'',
        (connected_state True)\<lparr>remote_log := [Probe ''cidl-test'',
             Get ''cidl-test'' ''acic22/simulations/sim_0001.parquet''],
           CACHE := [''acic22/simulations/sim_0001.parquet'' \<mapsto> ''PAR1'']\<rparr>)
   \<and> download_file example_env ''acic22/simulations/sim_0001.parquet'' True
       ((connected_state True)\<lparr>remote_log := [Probe ''cidl-test'',
             Get ''cidl-test'' ''acic22/simulations/sim_0001.parquet''],
           CACHE := [''acic22/simulations/sim_0001.parquet'' \<mapsto> ''PAR1'']\<rparr>)
     = (Inr ''PAR1'',
        (connected_state True)\<lparr>remote_log := [Probe ''cidl-test'',
             Get ''cidl-test'' ''acic22/simulations/sim_0001.parquet''],
           CACHE := [''acic22/simulations/sim_0001.parquet'' \<mapsto> ''PAR1'']\<rparr>)"
proof -
  have first: "download_file
     (example_env\<lparr>download_fileobj := (\<lambda>b k. Inr ''PAR1'')\<rparr>)
     ''acic22/simulations/sim_0001.parquet'' True initial_state
     = (Inr ''PAR1'',
        (connected_state True)\<lparr>remote_log := [Probe ''cidl-test'',
             Get ''cidl-test'' ''acic22/simulations/sim_0001.parquet''],
           CACHE := [''acic22/simulations/sim_0001.parquet'' \<mapsto> ''PAR1'']\<rparr>)"
    by (simp add: download_file_def ensure_connected_def connect_s3_def example_env_def
          initial_state_def connected_state_def ENDPOINTS_def falsy_def Let_def prog_defs)
  from fetch_bytes_twice [OF first, of example_env, THEN conjunct1] first
  show ?thesis
    by (intro conjI)
qed

section \<open>Eligible indices (\<^verbatim>\<open>_indices_for_difficulty\<close>)\<close>

lemma index_records_distinct:
  "index_records k msg recs acc = Inr r \<Longrightarrow> distinct (map fst acc) \<Longrightarrow> distinct (map fst r)"
proof (induction recs arbitrary: acc)
  case Nil
  then show ?case by simp
next
  case (Cons rec recs)
  then show ?case
    by (auto split: sum.splits bool.splits simp: distinct_update)
qed

lemma contains_false_no_generator:
  "py_contains ''dgp'' rec = Inr False \<Longrightarrow> generator_id rec = None"
  by (cases rec) (auto simp: generator_id_def map_of_eq_None_iff [symmetric] split: option.splits)

lemma select_indices_eq:
  "select_indices items allowed = Inr xs \<Longrightarrow>
   xs = map fst (filter (\<lambda>(i, rec). \<exists>g. generator_id rec = Some g \<and> g \<in> allowed) items)"
proof (induction items arbitrary: xs)
  case Nil
  then show ?case by simp
next
  case (Cons item items)
  obtain idx rec where item: "item = (idx, rec)" by (cases item)
  show ?case
  proof (cases "py_contains ''dgp'' rec")
    case (Inl e)
    with Cons.prems item show ?thesis by simp
  next
    case (Inr present)
    show ?thesis
    proof (cases present)
      case False
      with Inr Cons item contains_false_no_generator [of rec] show ?thesis
        by simp
    next
      case True
      with Inr Cons.prems item obtain v g ys
        where v: "py_getitem rec ''dgp'' = Inr v" and g: "py_int v = Inr g"
          and ys: "select_indices items allowed = Inr ys"
          and xs: "xs = (if g \<in> allowed then idx # ys else ys)"
        by (auto split: sum.splits)
      from v g have "generator_id rec = Some g"
        by (simp add: generator_id_def)
      with Cons.IH [OF ys] xs item show ?thesis
        by simp
    qed
  qed
qed

lemma in_tiers_True: "in_tiers t tiers = Inr True \<longleftrightarrow> (\<exists>name. t = JStr name \<and> name \<in> tiers)"
  by (cases t) auto

lemma tier_hit:
  "py_get rec ''difficulty_tier'' JNull = Inr t \<Longrightarrow> in_tiers t tiers = Inr hit \<Longrightarrow>
   hit \<longleftrightarrow> (\<exists>name. difficulty_tier rec = Some name \<and> name \<in> tiers)"
  by (cases rec; cases t) (auto simp: difficulty_tier_def split: option.splits json.splits)

lemma allowed_dgps_eq:
  "allowed_dgps items tiers = Inr S \<Longrightarrow>
   S = {g. \<exists>rec name. (g, rec) \<in> set items \<and> difficulty_tier rec = Some name \<and> name \<in> tiers}"
proof (induction items arbitrary: S)
  case Nil
  then show ?case by simp
next
  case (Cons item items)
  obtain g rec where item: "item = (g, rec)" by (cases item)
  from Cons.prems item obtain t hit S'
    where t: "py_get rec ''difficulty_tier'' JNull = Inr t" and h: "in_tiers t tiers = Inr hit"
      and S': "allowed_dgps items tiers = Inr S'" and S: "S = (if hit then insert g S' else S')"
    by (auto split: sum.splits)
  from tier_hit [OF t h] Cons.IH [OF S'] S item show ?case
    by auto
qed

lemma select_set:
  assumes "distinct (map fst meta)" and "distinct (map fst dgp_info)"
    and "allowed_dgps dgp_info tiers = Inr S" and "select_indices meta S = Inr xs"
  shows "set xs = eligible meta dgp_info tiers" and "distinct xs"
proof -
  note xs = select_indices_eq [OF assms(4)]
  note S = allowed_dgps_eq [OF assms(3)]
  show "distinct xs"
    unfolding xs using assms(1) by (simp add: distinct_map_filter)
  show "set xs = eligible meta dgp_info tiers"
    unfolding xs eligible_def S using assms(1,2)
    by (auto simp: image_iff) (force+)
qed

lemma set_alist_update: "set (AList.update k v al) \<subseteq> insert (k, v) (set al)"
  by (induction al) auto

lemma index_records_dicts:
  "index_records k msg recs acc = Inr r \<Longrightarrow> (\<forall>(i, rec) \<in> set acc. \<exists>kvs. rec = JDict kvs)
   \<Longrightarrow> (\<forall>(i, rec) \<in> set r. \<exists>kvs. rec = JDict kvs)"
proof (induction recs arbitrary: acc)
  case Nil
  then show ?case by simp
next
  case (Cons rec recs)
  from Cons.prems(1) obtain v idx
    where v: "py_getitem rec k = Inr v" and i: "py_int v = Inr idx"
      and r: "index_records k msg recs (AList.update idx rec acc) = Inr r"
    by (auto split: sum.splits bool.splits)
  from v obtain kvs where "rec = JDict kvs"
    by (cases rec) auto
  moreover have "set (AList.update idx rec acc) \<subseteq> insert (idx, rec) (set acc)"
    by (rule set_alist_update)
  ultimately have "\<forall>(i, rec) \<in> set (AList.update idx rec acc). \<exists>kvs. rec = JDict kvs"
    using Cons.prems(2) by blast
  from Cons.IH [OF r this] show ?case .
qed

lemma select_indices_total:
  assumes "\<forall>(i, rec) \<in> set items. \<exists>kvs. rec = JDict kvs"
    and "\<forall>(i, rec) \<in> set items. \<forall>v. py_getitem rec ''dgp'' = Inr v \<longrightarrow> (\<exists>g. py_int v = Inr g)"
  shows "\<exists>xs. select_indices items allowed = Inr xs"
  using assms
proof (induction items)
  case Nil
  then show ?case by simp
next
  case (Cons item items)
  obtain idx rec where item: "item = (idx, rec)" by (cases item)
  from Cons.prems item obtain kvs where rec: "rec = JDict kvs" by auto
  from Cons obtain ys where ys: "select_indices items allowed = Inr ys" by auto
  show ?case
  proof (cases "map_of kvs ''dgp''")
    case None
    then have "''dgp'' \<notin> fst ` set kvs" by (simp add: map_of_eq_None_iff)
    with ys item rec show ?thesis by simp
  next
    case (Some v)
    then have "''dgp'' \<in> fst ` set kvs" by (metis map_of_eq_None_iff option.distinct(1))
    moreover from Some rec have "py_getitem rec ''dgp'' = Inr v" by simp
    with Cons.prems(2) item obtain g where "py_int v = Inr g" by auto
    ultimately show ?thesis using ys item rec Some by simp
  qed
qed

lemma allowed_dgps_total:
  assumes "\<forall>(g, rec) \<in> set items. \<exists>kvs. rec = JDict kvs"
    and "\<forall>(g, rec) \<in> set items. \<forall>v. py_getitem rec ''difficulty_tier'' = Inr v \<longrightarrow> hashable v"
  shows "\<exists>S. allowed_dgps items tiers = Inr S"
  using assms
proof (induction items)
  case Nil
  then show ?case by simp
next
  case (Cons item items)
  obtain g rec where item: "item = (g, rec)" by (cases item)
  from Cons.prems item obtain kvs where rec: "rec = JDict kvs" by auto
  from Cons obtain S where S: "allowed_dgps items tiers = Inr S" by auto
  have "\<exists>hit. in_tiers (case map_of kvs ''difficulty_tier'' of None \<Rightarrow> JNull | Some x \<Rightarrow> x) tiers = Inr hit"
  proof (cases "map_of kvs ''difficulty_tier''")
    case None
    then show ?thesis by auto
  next
    case (Some v)
    with rec have "py_getitem rec ''difficulty_tier'' = Inr v" by simp
    with Cons.prems(2) item have "hashable v" by auto
    with Some show ?thesis by (cases v) (auto simp: hashable_def)
  qed
  with S item rec show ?case by auto
qed

lemma scenario_easy:
  "fst (indices_for_difficulty scenario_env (Some ''easy'') ''metadata.json'' ''dgp_info.json'' True initial_state) = Inr [1]"
  by (simp add: indices_for_difficulty_def load_acic22_metadata_def load_dgp_info_def
        read_json_source_def scenario_env_def example_env_def initial_state_def prog_defs
        difficulty_to_tiers_def VALID_DIFFICULTIES_def strip_def strip_chars_def py_isspace_def)

lemma scenario_all:
  "fst (indices_for_difficulty scenario_env (Some ''all'') ''metadata.json'' ''dgp_info.json'' True initial_state) = Inr [1, 2]"
  by (simp add: indices_for_difficulty_def load_acic22_metadata_def load_dgp_info_def
        read_json_source_def scenario_env_def example_env_def initial_state_def prog_defs
        difficulty_to_tiers_def VALID_DIFFICULTIES_def strip_def strip_chars_def py_isspace_def)

lemma load_acic22_metadata_index:
  assumes "load_acic22_metadata E source use_cache s = (Inr meta, s1)"
  shows "distinct (map fst meta) \<and> (\<forall>(i, rec) \<in> set meta. \<exists>kvs. rec = JDict kvs)"
proof -
  from assms obtain recs
    where "index_records ''index''
             (''ACIC22 metadata record missing '' @ [CHR 0x27] @ ''index'' @ [CHR 0x27] @ ''.'')
             recs [] = Inr meta"
    by (auto simp: load_acic22_metadata_def prog_defs split: prod.splits sum.splits json.splits)
  from index_records_distinct [OF this] index_records_dicts [OF this] show ?thesis
    by simp
qed

lemma load_dgp_info_index:
  assumes "load_dgp_info E source use_cache s = (Inr dgp_info, s1)"
  shows "distinct (map fst dgp_info) \<and> (\<forall>(g, rec) \<in> set dgp_info. \<exists>kvs. rec = JDict kvs)"
proof -
  from assms obtain recs
    where "index_records ''dgp''
             (''DGP record missing '' @ [CHR 0x27] @ ''dgp'' @ [CHR 0x27] @ ''.'')
             recs [] = Inr dgp_info"
    by (auto simp: load_dgp_info_def prog_defs
             split: prod.splits sum.splits json.splits option.splits)
  from index_records_distinct [OF this] index_records_dicts [OF this] show ?thesis
    by simp
qed

text \<open>
  C6: let the two loaders return the indexed documents \<open>meta\<close> and \<open>dgp_info\<close>.
  \<^item> For a difficulty that resolves to \<^verbatim>\<open>None\<close> (\<^verbatim>\<open>"all"\<close>), \<^verbatim>\<open>_indices_for_difficulty\<close> returns
    the indices of \<open>meta\<close>, sorted ascending, each once.
  \<^item> For a difficulty that resolves to a tier set, whatever it returns is sorted ascending,
    has each index once, and holds exactly the indices whose generator-id has a record whose
    tier lies in the set; and it does return when every generator-id converts to an int and
    every tier can be hashed.
\<close>

theorem eligible_indices_join:
  assumes "load_acic22_metadata E ms uc s = (Inr meta, s1)"
    and "load_dgp_info E ds uc s1 = (Inr dgp_info, s2)"
  shows "(difficulty_to_tiers d = Inr None \<longrightarrow>
            (\<exists>xs. indices_for_difficulty E d ms ds uc s = (Inr xs, s2)
               \<and> sorted xs \<and> distinct xs \<and> set xs = fst ` set meta))
       \<and> (\<forall>ts. difficulty_to_tiers d = Inr (Some ts) \<longrightarrow>
            (\<forall>xs s'. indices_for_difficulty E d ms ds uc s = (Inr xs, s') \<longrightarrow>
               sorted xs \<and> distinct xs \<and> set xs = eligible meta dgp_info ts)
            \<and> (convertible meta dgp_info \<longrightarrow>
                 (\<exists>xs. indices_for_difficulty E d ms ds uc s = (Inr xs, s2))))"
proof -
  note mi = load_acic22_metadata_index [OF assms(1)]
  note gi = load_dgp_info_index [OF assms(2)]
  have A: "difficulty_to_tiers d = Inr None \<longrightarrow>
            (\<exists>xs. indices_for_difficulty E d ms ds uc s = (Inr xs, s2)
               \<and> sorted xs \<and> distinct xs \<and> set xs = fst ` set meta)"
    using assms mi by (auto simp: indices_for_difficulty_def prog_defs)
  have B: "\<forall>ts. difficulty_to_tiers d = Inr (Some ts) \<longrightarrow>
            (\<forall>xs s'. indices_for_difficulty E d ms ds uc s = (Inr xs, s') \<longrightarrow>
               sorted xs \<and> distinct xs \<and> set xs = eligible meta dgp_info ts)
            \<and> (convertible meta dgp_info \<longrightarrow>
                 (\<exists>xs. indices_for_difficulty E d ms ds uc s = (Inr xs, s2)))"
  proof (intro allI impI conjI)
    fix ts xs s'
    assume t: "difficulty_to_tiers d = Inr (Some ts)"
      and r: "indices_for_difficulty E d ms ds uc s = (Inr xs, s')"
    from r t assms obtain S ys
      where S: "allowed_dgps dgp_info ts = Inr S" and ys: "select_indices meta S = Inr ys"
        and xs: "xs = sort ys"
      by (auto simp: indices_for_difficulty_def prog_defs split: sum.splits)
    from select_set [OF _ _ S ys] mi gi
    have "set ys = eligible meta dgp_info ts" and "distinct ys"
      by auto
    then show "sorted xs" and "distinct xs" and "set xs = eligible meta dgp_info ts"
      by (simp_all add: xs)
  next
    fix ts
    assume t: "difficulty_to_tiers d = Inr (Some ts)" and c: "convertible meta dgp_info"
    from allowed_dgps_total [of dgp_info ts] gi c obtain S
      where S: "allowed_dgps dgp_info ts = Inr S"
      by (auto simp: convertible_def)
    from select_indices_total [of meta S] mi c obtain ys
      where ys: "select_indices meta S = Inr ys"
      by (auto simp: convertible_def)
    from t assms S ys show "\<exists>xs. indices_for_difficulty E d ms ds uc s = (Inr xs, s2)"
      by (simp add: indices_for_difficulty_def prog_defs)
  qed
  from A B show ?thesis
    by (rule conjI)
qed

text \<open>
  The scenario: index 1 of generator 10 (easy), index 2 of generator 20 (hard).  The
  difficulty \<^verbatim>\<open>"easy"\<close> gives \<^verbatim>\<open>[1]\<close>, which is the join, and \<^verbatim>\<open>"all"\<close> gives \<^verbatim>\<open>[1, 2]\<close>.
\<close>

theorem eligible_indices_join_witness:
  "fst (indices_for_difficulty scenario_env (Some ''easy'') ''metadata.json'' ''dgp_info.json''
          True initial_state) = Inr [1]
   \<and> fst (indices_for_difficulty scenario_env (Some ''all'') ''metadata.json'' ''dgp_info.json''
          True initial_state) = Inr [1, 2]
   \<and> eligible
        [(1, JDict [(''index'', JInt 1), (''filename'', JStr ''sim_0001.parquet''), (''dgp'', JInt 10)]),
         (2, JDict [(''index'', JInt 2), (''filename'', JStr ''sim_0002.parquet''), (''dgp'', JInt 20)])]
        [(10, JDict [(''dgp'', JInt 10), (''difficulty_tier'', JStr ''easy'')]),
         (20, JDict [(''dgp'', JInt 20), (''difficulty_tier'', JStr ''hard'')])]
        {''easy''} = {1}"
proof -
  define meta where "meta =
        [(1 :: int, JDict [(''index'', JInt 1), (''filename'', JStr ''sim_0001.parquet''), (''dgp'', JInt 10)]),
         (2, JDict [(''index'', JInt 2), (''filename'', JStr ''sim_0002.parquet''), (''dgp'', JInt 20)])]"
  define dgp_info where "dgp_info =
        [(10 :: int, JDict [(''dgp'', JInt 10), (''difficulty_tier'', JStr ''easy'')]),
         (20, JDict [(''dgp'', JInt 20), (''difficulty_tier'', JStr ''hard'')])]"
  define s1 where "s1 = initial_state\<lparr>META_CACHE := [''metadata.json'' \<mapsto> JList
        [JDict [(''index'', JInt 1), (''filename'', JStr ''sim_0001.parquet''), (''dgp'', JInt 10)],
         JDict [(''index'', JInt 2), (''filename'', JStr ''sim_0002.parquet''), (''dgp'', JInt 20)]]]\<rparr>"
  have m: "load_acic22_metadata scenario_env ''metadata.json'' True initial_state
             = (Inr meta, s1)"
    by (simp add: load_acic22_metadata_def read_json_source_def scenario_env_def example_env_def
          initial_state_def prog_defs meta_def s1_def)
  obtain s2 where g: "load_dgp_info scenario_env ''dgp_info.json'' True s1 = (Inr dgp_info, s2)"
    by (simp add: load_dgp_info_def read_json_source_def scenario_env_def example_env_def
          initial_state_def prog_defs dgp_info_def s1_def)
  have te: "difficulty_to_tiers (Some ''easy'') = Inr (Some {''easy''})"
    and ta: "difficulty_to_tiers (Some ''all'') = Inr None"
    by (simp_all add: difficulty_to_tiers_def VALID_DIFFICULTIES_def strip_def strip_chars_def
          py_isspace_def)
  obtain s' where e: "indices_for_difficulty scenario_env (Some ''easy'') ''metadata.json''
                        ''dgp_info.json'' True initial_state = (Inr [1], s')"
    using scenario_easy
    by (cases "indices_for_difficulty scenario_env (Some ''easy'') ''metadata.json''
                 ''dgp_info.json'' True initial_state") auto
  note j = eligible_indices_join [OF m g]
  from j [of "Some ''easy''", THEN conjunct2, rule_format, OF te, THEN conjunct1, rule_format, OF e]
  have "set [1] = eligible meta dgp_info {''easy''}"
    by simp
  then have el: "eligible meta dgp_info {''easy''} = {1}"
    by simp
  from j [of "Some ''all''", THEN conjunct1, rule_format, OF ta] scenario_all
  have al: "fst (indices_for_difficulty scenario_env (Some ''all'') ''metadata.json''
                   ''dgp_info.json'' True initial_state) = Inr [1, 2]"
    by simp
  from scenario_easy al el show ?thesis
    unfolding meta_def dgp_info_def by (intro conjI)
qed

section \<open>Loading truth files (\<^verbatim>\<open>truth_matcher.py\<close>)\<close>

lemma load_truths_loop_Cons:
  "load_truths_loop E pre uc om (idx # rest) (t, mf, w) s =
     (case load_file E (truth_key idx pre) uc s of
        (Inr fr, s') \<Rightarrow> load_truths_loop E pre uc om rest (AList.update idx fr t, mf, w) s'
      | (Inl e, s') \<Rightarrow>
          if treated_as_missing e then
            seq (handle_missing_file idx (truth_key idx pre) om w)
              (\<lambda>w'. load_truths_loop E pre uc om rest (t, mf @ [idx], w')) s'
          else (Inl e, s'))"
proof -
  obtain r s' where l: "load_file E (truth_key idx pre) uc s = (r, s')"
    by (cases "load_file E (truth_key idx pre) uc s") auto
  show ?thesis
  proof (cases r)
    case (Inr fr)
    with l show ?thesis by simp
  next
    case (Inl e)
    with l show ?thesis
      by (cases e) (simp_all add: treated_as_missing_def)
  qed
qed

declare load_truths_loop.simps(2) [simp del]

lemma handle_missing_file_cases:
  "handle_missing_file idx key om w s = (Inr w', s') \<Longrightarrow>
   (om = ''ignore'' \<and> w' = w \<and> s' = s)
   \<or> (om = ''warn'' \<and> (\<exists>msg. w' = w @ [msg] \<and> s' = s\<lparr>emitted := emitted s @ [msg]\<rparr>))"
  by (auto simp: handle_missing_file_def VALID_ON_MISSING_def prog_defs warn_def Let_def
           split: if_splits)

lemma load_truths_loop_keys:
  "load_truths_loop E pre uc om idxs (t, mf, w) s = (Inr (t', mf', w'), s') \<Longrightarrow>
   fst ` set t' \<subseteq> fst ` set t \<union> set idxs
   \<and> (distinct (map fst t) \<longrightarrow> distinct (map fst t'))"
proof (induction idxs arbitrary: t mf w s)
  case Nil
  then show ?case by (simp add: ret_def)
next
  case (Cons idx rest)
  obtain r s1 where l: "load_file E (truth_key idx pre) uc s = (r, s1)"
    by (cases "load_file E (truth_key idx pre) uc s") auto
  show ?case
  proof (cases r)
    case (Inr fr)
    with Cons.prems l
    have "load_truths_loop E pre uc om rest (AList.update idx fr t, mf, w) s1 = (Inr (t', mf', w'), s')"
      by (simp add: load_truths_loop_Cons)
    from Cons.IH [OF this] show ?thesis
      by (auto simp: dom_update distinct_update)
  next
    case (Inl e)
    with Cons.prems l obtain w1 s2
      where "load_truths_loop E pre uc om rest (t, mf @ [idx], w1) s2 = (Inr (t', mf', w'), s')"
      by (auto simp: load_truths_loop_Cons seq_def split: if_splits prod.splits sum.splits)
    from Cons.IH [OF this] show ?thesis
      by auto
  qed
qed

lemma convert_indices_ints: "convert_indices (map JInt xs) = Inr (set xs)"
  by (induction xs) auto

lemma normalize_ints:
  "normalize_indices (PySequence (map JInt xs)) = Inr (sorted_list_of_set (set xs))"
  by (simp add: normalize_indices_def convert_indices_ints)

lemma normalize_indices_sorted:
  "normalize_indices a = Inr xs \<Longrightarrow> sorted xs \<and> distinct xs"
  by (auto simp: normalize_indices_def split: index_arg.splits sum.splits)

lemma load_truths_bundle:
  assumes "load_truths E indices pre uc om s = (Inr b, s')"
  shows "\<exists>idxs. normalize_indices indices = Inr idxs
           \<and> simulation_indices b = idxs \<and> truth_indices_requested b = idxs
           \<and> fst ` set (truth b) \<subseteq> set idxs \<and> distinct (map fst (truth b))
           \<and> missing_for_simulations b = sorted_list_of_set (set idxs - fst ` set (truth b))
           \<and> extra_truth b = []"
proof -
  from assms obtain idxs t mf w s1
    where n: "normalize_indices indices = Inr idxs"
      and l: "load_truths_loop E pre uc om idxs ([], [], []) s = (Inr (t, mf, w), s1)"
      and b: "b = \<lparr> simulation_indices = idxs, truth_indices_requested = idxs, truth = t,
                    missing_truth_files = sort mf,
                    missing_for_simulations = sorted_list_of_set (set idxs - set (sort (map fst t))),
                    extra_truth = [], warnings = w \<rparr>"
    by (cases indices)
       (auto simp: load_truths_def prog_defs Let_def split: sum.splits prod.splits)
  from load_truths_loop_keys [OF l] have "fst ` set t \<subseteq> set idxs" "distinct (map fst t)"
    by simp_all
  with n b show ?thesis
    by simp
qed

text \<open>
  C1: every bundle that \<^verbatim>\<open>load_truths\<close> or \<^verbatim>\<open>truth_for_simulations\<close> returns satisfies the
  invariants: \<open>missing_for_simulations\<close> holds the simulation indices without a loaded
  truth, \<open>extra_truth\<close> the loaded indices that are no simulation index, \<open>is_full_match\<close> is
  true exactly when both are empty, and the sorted keys of \<open>truth\<close> are among the requested
  indices.
\<close>

theorem truth_bundle_invariants:
  "(load_truths E indices pre uc om s = (Inr b, s') \<longrightarrow> bundle_invariant b)
   \<and> (truth_for_simulations E sims ti pre uc om omm prompt s = (Inr b, s') \<longrightarrow> bundle_invariant b)"
proof (intro conjI impI)
  assume "load_truths E indices pre uc om s = (Inr b, s')"
  from load_truths_bundle [OF this] show "bundle_invariant b"
    by (auto simp: bundle_invariant_def is_full_match_def truth_indices_loaded_def
          sorted_list_of_set_sort_remdups distinct_remdups_id simp flip: set_map)
next
  assume a: "truth_for_simulations E sims ti pre uc om omm prompt s = (Inr b, s')"
  then obtain keys where sims: "sims = Simulations keys"
    by (cases sims) (auto simp: truth_for_simulations_def throw_def)
  from a sims obtain sim_indices truth_requested lb s1 w
    where lt: "load_truths E (PySequence (map JInt truth_requested)) pre uc om s = (Inr lb, s1)"
      and b: "b = \<lparr> simulation_indices = sim_indices, truth_indices_requested = truth_requested,
                    truth = truth lb, missing_truth_files = missing_truth_files lb,
                    missing_for_simulations
                      = sorted_list_of_set (set sim_indices - set (truth_indices_loaded lb)),
                    extra_truth
                      = sorted_list_of_set (set (truth_indices_loaded lb) - set sim_indices),
                    warnings = w \<rparr>"
    by (auto simp: truth_for_simulations_def prog_defs Let_def split: sum.splits prod.splits)
  from load_truths_bundle [OF lt]
  have "fst ` set (truth lb) \<subseteq> set truth_requested" "distinct (map fst (truth lb))"
    by (auto simp: normalize_ints)
  with b show "bundle_invariant b"
    by (auto simp: bundle_invariant_def is_full_match_def truth_indices_loaded_def
          sorted_list_of_set_sort_remdups distinct_remdups_id simp flip: set_map)
qed

text \<open>
  The scenario of the specification: simulations keyed 5, 6 and 7, a store that holds the
  truth of 5 and 6, automatic matching; and an indices-only call.
\<close>

lemma truth_scenario_bundle:
  "fst (truth_for_simulations truth_store_env (Simulations [JInt 7, JInt 5, JInt 6]) None
          DEFAULT_TRUTH_PREFIX True ''warn'' ''warn'' False initial_state)
   = Inr \<lparr> simulation_indices = [5, 6, 7], truth_indices_requested = [5, 6, 7],
           truth = [(5, Frame [] []), (6, Frame [] [])],
           missing_truth_files = [7], missing_for_simulations = [7], extra_truth = [],
           warnings = [''Truth file not found for index 7 (key='' @ [CHR 0x27]
              @ ''acic22/truth/truth_0007.parquet'' @ [CHR 0x27] @ '').''] \<rparr>"
  by code_simp

lemma truth_scenario_indices_only:
  "fst (load_truths truth_store_env (PySequence [JStr ''9'', JInt 5]) DEFAULT_TRUTH_PREFIX True
          ''ignore'' initial_state)
   = Inr \<lparr> simulation_indices = [5, 9], truth_indices_requested = [5, 9],
           truth = [(5, Frame [] [])],
           missing_truth_files = [9], missing_for_simulations = [9], extra_truth = [],
           warnings = [] \<rparr>"
  by code_simp

theorem truth_bundle_invariants_witness:
  "fst (truth_for_simulations truth_store_env (Simulations [JInt 7, JInt 5, JInt 6]) None
          DEFAULT_TRUTH_PREFIX True ''warn'' ''warn'' False initial_state)
   = Inr \<lparr> simulation_indices = [5, 6, 7], truth_indices_requested = [5, 6, 7],
           truth = [(5, Frame [] []), (6, Frame [] [])],
           missing_truth_files = [7], missing_for_simulations = [7], extra_truth = [],
           warnings = [''Truth file not found for index 7 (key='' @ [CHR 0x27]
              @ ''acic22/truth/truth_0007.parquet'' @ [CHR 0x27] @ '').''] \<rparr>
   \<and> bundle_invariant
        \<lparr> simulation_indices = [5, 6, 7], truth_indices_requested = [5, 6, 7],
          truth = [(5, Frame [] []), (6, Frame [] [])],
          missing_truth_files = [7], missing_for_simulations = [7], extra_truth = [],
          warnings = [''Truth file not found for index 7 (key='' @ [CHR 0x27]
             @ ''acic22/truth/truth_0007.parquet'' @ [CHR 0x27] @ '').''] \<rparr>
   \<and> bundle_invariant
        \<lparr> simulation_indices = [5, 9], truth_indices_requested = [5, 9],
          truth = [(5, Frame [] [])],
          missing_truth_files = [9], missing_for_simulations = [9], extra_truth = [],
          warnings = [] \<rparr>"
proof -
  obtain s1 where a: "truth_for_simulations truth_store_env (Simulations [JInt 7, JInt 5, JInt 6])
          None DEFAULT_TRUTH_PREFIX True ''warn'' ''warn'' False initial_state
      = (Inr \<lparr> simulation_indices = [5, 6, 7], truth_indices_requested = [5, 6, 7],
           truth = [(5, Frame [] []), (6, Frame [] [])],
           missing_truth_files = [7], missing_for_simulations = [7], extra_truth = [],
           warnings = [''Truth file not found for index 7 (key='' @ [CHR 0x27]
              @ ''acic22/truth/truth_0007.parquet'' @ [CHR 0x27] @ '').''] \<rparr>, s1)"
    using truth_scenario_bundle
    by (cases "truth_for_simulations truth_store_env (Simulations [JInt 7, JInt 5, JInt 6])
          None DEFAULT_TRUTH_PREFIX True ''warn'' ''warn'' False initial_state") auto
  obtain s2 where b: "load_truths truth_store_env (PySequence [JStr ''9'', JInt 5])
          DEFAULT_TRUTH_PREFIX True ''ignore'' initial_state
      = (Inr \<lparr> simulation_indices = [5, 9], truth_indices_requested = [5, 9],
           truth = [(5, Frame [] [])],
           missing_truth_files = [9], missing_for_simulations = [9], extra_truth = [],
           warnings = [] \<rparr>, s2)"
    using truth_scenario_indices_only
    by (cases "load_truths truth_store_env (PySequence [JStr ''9'', JInt 5])
          DEFAULT_TRUTH_PREFIX True ''ignore'' initial_state") auto
  from truth_bundle_invariants [THEN conjunct2, rule_format, OF a]
    truth_bundle_invariants [THEN conjunct1, rule_format, OF b] truth_scenario_bundle
  show ?thesis
    by (intro conjI)
qed

lemma handle_missing_file_error:
  "\<exists>msg. handle_missing_file idx key ''error'' w s = (Inl (FileNotFoundError msg), s)"
  by (simp add: handle_missing_file_def VALID_ON_MISSING_def throw_def Let_def)

lemma handle_missing_file_ignore:
  "handle_missing_file idx key ''ignore'' w s = (Inr w, s)"
  by (simp add: handle_missing_file_def VALID_ON_MISSING_def ret_def)

lemma handle_missing_file_warn:
  "\<exists>msg. handle_missing_file idx key ''warn'' w s = (Inr (w @ [msg]), s\<lparr>emitted := emitted s @ [msg]\<rparr>)"
  by (simp add: handle_missing_file_def VALID_ON_MISSING_def prog_defs warn_def Let_def)

text \<open>
  C2, as the claim states it: only a client error whose code says "not found" is treated as
  a missing file, and a client error with any other code propagates.  This fails: a client
  error with the code \<^verbatim>\<open>AccessDenied\<close> whose text contains \<^verbatim>\<open>Not Found\<close> is treated as a missing
  file, and with \<^verbatim>\<open>on_missing="ignore"\<close> \<^verbatim>\<open>load_truths\<close> returns a bundle that lists the index as
  missing.
\<close>

theorem not_found_by_code_counterexample:
  "\<not> (\<forall>E idx pre uc om s code text s1.
        load_file E (truth_key idx pre) uc s = (Inl (ClientError (Some code) text), s1)
        \<and> strip code \<notin> {''404'', ''NoSuchKey'', ''NotFound''}
        \<longrightarrow> fst (load_truths E (PyIntScalar idx) pre uc om s) = Inl (ClientError (Some code) text))"
proof
  assume a: "\<forall>E idx pre uc om s code text s1.
        load_file E (truth_key idx pre) uc s = (Inl (ClientError (Some code) text), s1)
        \<and> strip code \<notin> {''404'', ''NoSuchKey'', ''NotFound''}
        \<longrightarrow> fst (load_truths E (PyIntScalar idx) pre uc om s) = Inl (ClientError (Some code) text)"
  have l: "fst (load_file (denying_env ''Bucket Not Found'') (truth_key 5 DEFAULT_TRUTH_PREFIX)
                  True initial_state)
             = Inl (ClientError (Some ''AccessDenied'') ''Bucket Not Found'')"
    by code_simp
  then obtain s1 where "load_file (denying_env ''Bucket Not Found'')
        (truth_key 5 DEFAULT_TRUTH_PREFIX) True initial_state
      = (Inl (ClientError (Some ''AccessDenied'') ''Bucket Not Found''), s1)"
    by (cases "load_file (denying_env ''Bucket Not Found'') (truth_key 5 DEFAULT_TRUTH_PREFIX)
                 True initial_state") auto
  moreover have "strip ''AccessDenied'' \<notin> {''404'', ''NoSuchKey'', ''NotFound''}"
    by code_simp
  ultimately
  have "fst (load_truths (denying_env ''Bucket Not Found'') (PyIntScalar 5) DEFAULT_TRUTH_PREFIX
               True ''ignore'' initial_state)
          = Inl (ClientError (Some ''AccessDenied'') ''Bucket Not Found'')"
    using a by blast
  moreover
  have "fst (load_truths (denying_env ''Bucket Not Found'') (PyIntScalar 5) DEFAULT_TRUTH_PREFIX
               True ''ignore'' initial_state)
          = Inr \<lparr> simulation_indices = [5], truth_indices_requested = [5], truth = [],
                  missing_truth_files = [5], missing_for_simulations = [5], extra_truth = [],
                  warnings = [] \<rparr>"
    by code_simp
  ultimately show False
    by simp
qed

text \<open>
  C2, amended.  When \<^verbatim>\<open>load_file\<close> raises for a requested index, the exception is treated as
  a missing truth file exactly when it is a client error whose stripped code is \<^verbatim>\<open>404\<close>,
  \<^verbatim>\<open>NoSuchKey\<close> or \<^verbatim>\<open>NotFound\<close> or whose text contains \<^verbatim>\<open>Not Found\<close>, or a
  \<^verbatim>\<open>FileNotFoundError\<close>.  Then the index is recorded as a missing file and the policy
  applies: \<^verbatim>\<open>error\<close> raises \<^verbatim>\<open>FileNotFoundError\<close> at once (no further index is loaded),
  \<^verbatim>\<open>ignore\<close> goes on to the next index with no warning, \<^verbatim>\<open>warn\<close> goes on with one warning more,
  recorded and emitted.  Any other exception leaves \<^verbatim>\<open>load_truths\<close> as it is, whatever the
  policy.
\<close>

theorem missing_file_policy:
  assumes "load_file E (truth_key idx pre) uc s = (Inl e, s1)"
  shows "(treated_as_missing e \<longleftrightarrow>
            (\<exists>code text. e = ClientError code text
               \<and> (strip (case code of None \<Rightarrow> [] | Some c \<Rightarrow> c) \<in> {''404'', ''NoSuchKey'', ''NotFound''}
                  \<or> sublist ''Not Found'' text))
            \<or> (\<exists>m. e = FileNotFoundError m))
       \<and> (\<not> treated_as_missing e \<longrightarrow>
            load_truths_loop E pre uc om (idx # rest) (t, mf, w) s = (Inl e, s1))
       \<and> (treated_as_missing e \<and> om = ''error'' \<longrightarrow>
            (\<exists>msg. load_truths_loop E pre uc om (idx # rest) (t, mf, w) s
                      = (Inl (FileNotFoundError msg), s1)))
       \<and> (treated_as_missing e \<and> om = ''ignore'' \<longrightarrow>
            load_truths_loop E pre uc om (idx # rest) (t, mf, w) s
              = load_truths_loop E pre uc om rest (t, mf @ [idx], w) s1)
       \<and> (treated_as_missing e \<and> om = ''warn'' \<longrightarrow>
            (\<exists>msg. load_truths_loop E pre uc om (idx # rest) (t, mf, w) s
                      = load_truths_loop E pre uc om rest (t, mf @ [idx], w @ [msg])
                          (s1\<lparr>emitted := emitted s1 @ [msg]\<rparr>)))"
proof -
  have A: "treated_as_missing e \<longleftrightarrow>
            (\<exists>code text. e = ClientError code text
               \<and> (strip (case code of None \<Rightarrow> [] | Some c \<Rightarrow> c) \<in> {''404'', ''NoSuchKey'', ''NotFound''}
                  \<or> sublist ''Not Found'' text))
            \<or> (\<exists>m. e = FileNotFoundError m)"
    by (cases e) (simp_all add: treated_as_missing_def is_missing_s3_object_error_def)
  have B: "\<not> treated_as_missing e \<longrightarrow>
            load_truths_loop E pre uc om (idx # rest) (t, mf, w) s = (Inl e, s1)"
    using assms by (simp add: load_truths_loop_Cons)
  have C: "treated_as_missing e \<and> om = ''error'' \<longrightarrow>
            (\<exists>msg. load_truths_loop E pre uc om (idx # rest) (t, mf, w) s
                      = (Inl (FileNotFoundError msg), s1))"
    using assms handle_missing_file_error [of idx "truth_key idx pre" w s1]
    by (auto simp: load_truths_loop_Cons seq_def)
  have D: "treated_as_missing e \<and> om = ''ignore'' \<longrightarrow>
            load_truths_loop E pre uc om (idx # rest) (t, mf, w) s
              = load_truths_loop E pre uc om rest (t, mf @ [idx], w) s1"
    using assms by (simp add: load_truths_loop_Cons seq_def handle_missing_file_ignore)
  have F: "treated_as_missing e \<and> om = ''warn'' \<longrightarrow>
            (\<exists>msg. load_truths_loop E pre uc om (idx # rest) (t, mf, w) s
                      = load_truths_loop E pre uc om rest (t, mf @ [idx], w @ [msg])
                          (s1\<lparr>emitted := emitted s1 @ [msg]\<rparr>))"
    using assms handle_missing_file_warn [of idx "truth_key idx pre" w s1]
    by (auto simp: load_truths_loop_Cons seq_def)
  show ?thesis
    by (intro conjI) (rule A, rule B, rule C, rule D, rule F)
qed

theorem missing_file_policy_witness:
  "(\<exists>msg. fst (load_truths_loop truth_store_env DEFAULT_TRUTH_PREFIX True ''error'' [7]
                 ([], [], []) initial_state) = Inl (FileNotFoundError msg))
   \<and> fst (load_truths_loop truth_store_env DEFAULT_TRUTH_PREFIX True ''ignore'' [7]
            ([], [], []) initial_state) = Inr ([], [7], [])
   \<and> (\<exists>msg. fst (load_truths_loop truth_store_env DEFAULT_TRUTH_PREFIX True ''warn'' [7]
                 ([], [], []) initial_state) = Inr ([], [7], [msg]))
   \<and> fst (load_truths_loop (denying_env ''Access Denied'') DEFAULT_TRUTH_PREFIX True ''warn'' [7]
            ([], [], []) initial_state)
        = Inl (ClientError (Some ''AccessDenied'') ''Access Denied'')
   \<and> fst (load_truths_loop
            (example_env\<lparr>download_fileobj :=
              (\<lambda>b k. Inl (ClientError (Some ([CHR 0xA0] @ ''404'')) ''gone''))\<rparr>)
            DEFAULT_TRUTH_PREFIX True ''ignore'' [7] ([], [], []) initial_state)
        = Inr ([], [7], [])"
proof -
  have "fst (load_file truth_store_env (truth_key 7 DEFAULT_TRUTH_PREFIX) True initial_state)
          = Inl (ClientError (Some ''404'')
              ''An error occurred (404) when calling the HeadObject operation: Not Found'')"
    by code_simp
  then obtain s1 where l: "load_file truth_store_env (truth_key 7 DEFAULT_TRUTH_PREFIX) True
        initial_state
      = (Inl (ClientError (Some ''404'')
              ''An error occurred (404) when calling the HeadObject operation: Not Found''), s1)"
    by (cases "load_file truth_store_env (truth_key 7 DEFAULT_TRUTH_PREFIX) True initial_state")
       auto
  have m: "treated_as_missing (ClientError (Some ''404'')
              ''An error occurred (404) when calling the HeadObject operation: Not Found'')"
    by code_simp
  note p = missing_file_policy [OF l, where rest = "[]" and t = "[]" and mf = "[]" and w = "[]"]
  from p [where om = "''error''", THEN conjunct2, THEN conjunct2, THEN conjunct1] m
  have a: "\<exists>msg. fst (load_truths_loop truth_store_env DEFAULT_TRUTH_PREFIX True ''error'' [7]
                 ([], [], []) initial_state) = Inl (FileNotFoundError msg)"
    by auto
  from p [where om = "''ignore''", THEN conjunct2, THEN conjunct2, THEN conjunct2, THEN conjunct1] m
  have b: "fst (load_truths_loop truth_store_env DEFAULT_TRUTH_PREFIX True ''ignore'' [7]
            ([], [], []) initial_state) = Inr ([], [7], [])"
    by (simp add: ret_def)
  from p [where om = "''warn''", THEN conjunct2, THEN conjunct2, THEN conjunct2, THEN conjunct2] m
  have c: "\<exists>msg. fst (load_truths_loop truth_store_env DEFAULT_TRUTH_PREFIX True ''warn'' [7]
                 ([], [], []) initial_state) = Inr ([], [7], [msg])"
    by (auto simp: ret_def)
  have "fst (load_file (denying_env ''Access Denied'') (truth_key 7 DEFAULT_TRUTH_PREFIX) True
               initial_state)
          = Inl (ClientError (Some ''AccessDenied'') ''Access Denied'')"
    by code_simp
  then obtain s2 where l2: "load_file (denying_env ''Access Denied'')
        (truth_key 7 DEFAULT_TRUTH_PREFIX) True initial_state
      = (Inl (ClientError (Some ''AccessDenied'') ''Access Denied''), s2)"
    by (cases "load_file (denying_env ''Access Denied'') (truth_key 7 DEFAULT_TRUTH_PREFIX) True
                 initial_state") auto
  have n: "\<not> treated_as_missing (ClientError (Some ''AccessDenied'') ''Access Denied'')"
    by code_simp
  from missing_file_policy [OF l2, where rest = "[]" and t = "[]" and mf = "[]" and w = "[]"
      and om = "''warn''", THEN conjunct2, THEN conjunct1] n
  have d: "fst (load_truths_loop (denying_env ''Access Denied'') DEFAULT_TRUTH_PREFIX True ''warn''
            [7] ([], [], []) initial_state)
        = Inl (ClientError (Some ''AccessDenied'') ''Access Denied'')"
    by simp
  have "fst (load_file
            (example_env\<lparr>download_fileobj :=
              (\<lambda>b k. Inl (ClientError (Some ([CHR 0xA0] @ ''404'')) ''gone''))\<rparr>)
            (truth_key 7 DEFAULT_TRUTH_PREFIX) True initial_state)
          = Inl (ClientError (Some ([CHR 0xA0] @ ''404'')) ''gone'')"
    by code_simp
  then obtain s3 where l3: "load_file
            (example_env\<lparr>download_fileobj :=
              (\<lambda>b k. Inl (ClientError (Some ([CHR 0xA0] @ ''404'')) ''gone''))\<rparr>)
            (truth_key 7 DEFAULT_TRUTH_PREFIX) True initial_state
      = (Inl (ClientError (Some ([CHR 0xA0] @ ''404'')) ''gone''), s3)"
    by (cases "load_file
            (example_env\<lparr>download_fileobj :=
              (\<lambda>b k. Inl (ClientError (Some ([CHR 0xA0] @ ''404'')) ''gone''))\<rparr>)
            (truth_key 7 DEFAULT_TRUTH_PREFIX) True initial_state") auto
  have k: "treated_as_missing (ClientError (Some ([CHR 0xA0] @ ''404'')) ''gone'')"
    by code_simp
  from missing_file_policy [OF l3, where rest = "[]" and t = "[]" and mf = "[]" and w = "[]"
      and om = "''ignore''", THEN conjunct2, THEN conjunct2, THEN conjunct2, THEN conjunct1] k
  have e: "fst (load_truths_loop
            (example_env\<lparr>download_fileobj :=
              (\<lambda>b k. Inl (ClientError (Some ([CHR 0xA0] @ ''404'')) ''gone''))\<rparr>)
            DEFAULT_TRUTH_PREFIX True ''ignore'' [7] ([], [], []) initial_state)
        = Inr ([], [7], [])"
    by (simp add: ret_def)
  from a b c d e show ?thesis
    by (intro conjI)
qed

section \<open>The mismatch policy of \<^verbatim>\<open>truth_for_simulations\<close>\<close>

lemma sublist_join: "x \<in> set xs \<Longrightarrow> sublist x (join sep xs)"
proof (induction sep xs rule: join.induct)
  case (1 sep)
  then show ?case by simp
next
  case (2 sep y)
  then show ?case by simp
next
  case (3 sep y z zs)
  show ?case
  proof (cases "x = y")
    case True
    then show ?thesis by simp
  next
    case False
    with 3 have "sublist x (join sep (z # zs))" by simp
    moreover have "sublist (join sep (z # zs)) ((y @ sep) @ join sep (z # zs))"
      by (rule sublist_append_leftI)
    ultimately have "sublist x ((y @ sep) @ join sep (z # zs))"
      by (rule sublist_order.order_trans)
    then show ?thesis by simp
  qed
qed

lemma sublist_suffix_part: "sublist x (p @ x)"
  by (rule sublist_append_leftI)

lemma mismatch_message_lists:
  "sublist (str_int_list sim_indices)
     (format_mismatch_message sim_indices truth_loaded missing_for_sims extra missing_files)
   \<and> sublist (str_int_list truth_loaded)
     (format_mismatch_message sim_indices truth_loaded missing_for_sims extra missing_files)"
proof -
  let ?m = "format_mismatch_message sim_indices truth_loaded missing_for_sims extra missing_files"
  have a: "sublist (''- Simulation indices: '' @ str_int_list sim_indices) ?m"
    unfolding format_mismatch_message_def by (rule sublist_join) simp
  have b: "sublist (''- Truth indices loaded: '' @ str_int_list truth_loaded) ?m"
    unfolding format_mismatch_message_def by (rule sublist_join) simp
  have "sublist (str_int_list sim_indices) (''- Simulation indices: '' @ str_int_list sim_indices)"
    by (rule sublist_append_leftI)
  from sublist_order.order_trans [OF this a]
  have c: "sublist (str_int_list sim_indices) ?m" .
  have "sublist (str_int_list truth_loaded) (''- Truth indices loaded: '' @ str_int_list truth_loaded)"
    by (rule sublist_append_leftI)
  from sublist_order.order_trans [OF this b]
  have d: "sublist (str_int_list truth_loaded) ?m" .
  from c d show ?thesis by (rule conjI)
qed

lemma mismatch_iff:
  "(sorted_list_of_set (set xs - set ys) \<noteq> [] \<or> sorted_list_of_set (set ys - set xs) \<noteq> [])
   \<longleftrightarrow> set ys \<noteq> set xs"
  by (auto simp: sorted_list_of_set_eq_Nil_iff)

lemma truth_for_simulations_unfold:
  assumes "normalize_indices (PyIterable keys) = Inr sim_indices"
    and "(case ti of None \<Rightarrow> Inr sim_indices | Some a \<Rightarrow> normalize_indices a) = Inr truth_requested"
    and "load_truths E (PySequence (map JInt truth_requested)) pre uc om s = (Inr lb, s1)"
  shows "truth_for_simulations E (Simulations keys) ti pre uc om omm prompt s =
     seq (if ti \<noteq> None \<and> set (truth_indices_loaded lb) \<noteq> set sim_indices then
            handle_mismatch E
              (format_mismatch_message sim_indices (truth_indices_loaded lb)
                 (sorted_list_of_set (set sim_indices - set (truth_indices_loaded lb)))
                 (sorted_list_of_set (set (truth_indices_loaded lb) - set sim_indices))
                 (missing_truth_files lb))
              omm prompt (warnings lb)
          else ret (warnings lb))
       (\<lambda>w. ret (matched_bundle sim_indices truth_requested lb w)) s1"
  using assms
  by (simp add: truth_for_simulations_def seq_def lift_def Let_def mismatch_iff
        matched_bundle_def)

lemma handle_mismatch_ignore: "handle_mismatch E msg ''ignore'' prompt w s = (Inr w, s)"
  by (simp add: handle_mismatch_def VALID_ON_MISMATCH_def ret_def)

lemma handle_mismatch_error: "handle_mismatch E msg ''error'' prompt w s = (Inl (ValueError msg), s)"
  by (simp add: handle_mismatch_def VALID_ON_MISMATCH_def throw_def)

lemma handle_mismatch_warn:
  "prefix (emitted s @ [msg]) (emitted (snd (handle_mismatch E msg ''warn'' prompt w s)))
   \<and> (\<forall>w' s'. handle_mismatch E msg ''warn'' prompt w s = (Inr w', s') \<longrightarrow>
         (\<exists>extra. w' = w @ msg # extra))
   \<and> (\<not> prompt \<longrightarrow> handle_mismatch E msg ''warn'' prompt w s
         = (Inr (w @ [msg]), s\<lparr>emitted := emitted s @ [msg]\<rparr>))"
  by (auto simp: handle_mismatch_def VALID_ON_MISMATCH_def prog_defs warn_def input_line_def
           split: option.splits)

text \<open>
  C3: let the simulation keys normalize to \<open>sim_indices\<close>, the requested truth indices be
  \<open>truth_requested\<close> (the simulation indices when \<^verbatim>\<open>truth_indices\<close> is left out), and
  \<^verbatim>\<open>load_truths\<close> return the bundle \<open>lb\<close>.
  \<^item> Without \<^verbatim>\<open>truth_indices\<close> the requested indices are the simulation indices and the call
    returns the bundle with the warnings of \<open>lb\<close>, whatever \<^verbatim>\<open>on_mismatch\<close> is and whether or
    not the loaded indices match: no policy is applied.
  \<^item> When the loaded indices are the simulation indices, the same.
  \<^item> With \<^verbatim>\<open>truth_indices\<close> given and the loaded indices different from the simulation
    indices: \<^verbatim>\<open>ignore\<close> returns the bundle with the warnings of \<open>lb\<close>; \<^verbatim>\<open>error\<close> raises
    \<^verbatim>\<open>ValueError\<close> with a message that prints both index lists, and returns no bundle; \<^verbatim>\<open>warn\<close>
    emits such a message and records it: it is the next warning emitted, every bundle
    returned has it after the warnings of \<open>lb\<close>, and without a prompt the call returns the
    bundle with exactly this one warning more.
\<close>

theorem mismatch_policy:
  assumes "normalize_indices (PyIterable keys) = Inr sim_indices"
    and "(case ti of None \<Rightarrow> Inr sim_indices | Some a \<Rightarrow> normalize_indices a) = Inr truth_requested"
    and "load_truths E (PySequence (map JInt truth_requested)) pre uc om s = (Inr lb, s1)"
  shows "(ti = None \<longrightarrow>
            truth_requested = sim_indices
            \<and> truth_for_simulations E (Simulations keys) ti pre uc om omm prompt s
                = (Inr (matched_bundle sim_indices truth_requested lb (warnings lb)), s1))
       \<and> (set (truth_indices_loaded lb) = set sim_indices \<longrightarrow>
            truth_for_simulations E (Simulations keys) ti pre uc om omm prompt s
              = (Inr (matched_bundle sim_indices truth_requested lb (warnings lb)), s1))
       \<and> (ti \<noteq> None \<and> set (truth_indices_loaded lb) \<noteq> set sim_indices \<longrightarrow>
            (omm = ''ignore'' \<longrightarrow>
               truth_for_simulations E (Simulations keys) ti pre uc om omm prompt s
                 = (Inr (matched_bundle sim_indices truth_requested lb (warnings lb)), s1))
            \<and> (omm = ''error'' \<longrightarrow>
                 (\<exists>msg. truth_for_simulations E (Simulations keys) ti pre uc om omm prompt s
                           = (Inl (ValueError msg), s1)
                    \<and> sublist (str_int_list sim_indices) msg
                    \<and> sublist (str_int_list (truth_indices_loaded lb)) msg))
            \<and> (omm = ''warn'' \<longrightarrow>
                 (\<exists>msg. sublist (str_int_list sim_indices) msg
                    \<and> sublist (str_int_list (truth_indices_loaded lb)) msg
                    \<and> prefix (emitted s1 @ [msg])
                         (emitted (snd (truth_for_simulations E (Simulations keys) ti pre uc om
                            omm prompt s)))
                    \<and> (\<forall>b s'. truth_for_simulations E (Simulations keys) ti pre uc om omm prompt s
                                 = (Inr b, s') \<longrightarrow>
                          (\<exists>extra. b = matched_bundle sim_indices truth_requested lb
                                         (warnings lb @ msg # extra)))
                    \<and> (\<not> prompt \<longrightarrow>
                          truth_for_simulations E (Simulations keys) ti pre uc om omm prompt s
                            = (Inr (matched_bundle sim_indices truth_requested lb
                                      (warnings lb @ [msg])),
                               s1\<lparr>emitted := emitted s1 @ [msg]\<rparr>)))))"
proof -
  note u = truth_for_simulations_unfold [OF assms]
  let ?msg = "format_mismatch_message sim_indices (truth_indices_loaded lb)
                 (sorted_list_of_set (set sim_indices - set (truth_indices_loaded lb)))
                 (sorted_list_of_set (set (truth_indices_loaded lb) - set sim_indices))
                 (missing_truth_files lb)"
  note ml = mismatch_message_lists [of sim_indices "truth_indices_loaded lb"
      "sorted_list_of_set (set sim_indices - set (truth_indices_loaded lb))"
      "sorted_list_of_set (set (truth_indices_loaded lb) - set sim_indices)"
      "missing_truth_files lb"]
  have A: "ti = None \<longrightarrow>
            truth_requested = sim_indices
            \<and> truth_for_simulations E (Simulations keys) ti pre uc om omm prompt s
                = (Inr (matched_bundle sim_indices truth_requested lb (warnings lb)), s1)"
  proof (intro impI conjI)
    assume "ti = None"
    with assms(2) show "truth_requested = sim_indices"
      by simp
  next
    assume "ti = None"
    with u show "truth_for_simulations E (Simulations keys) ti pre uc om omm prompt s
                = (Inr (matched_bundle sim_indices truth_requested lb (warnings lb)), s1)"
      by (simp add: seq_def ret_def)
  qed
  have B: "set (truth_indices_loaded lb) = set sim_indices \<longrightarrow>
            truth_for_simulations E (Simulations keys) ti pre uc om omm prompt s
              = (Inr (matched_bundle sim_indices truth_requested lb (warnings lb)), s1)"
    by (simp add: u seq_def ret_def)
  have C: "ti \<noteq> None \<and> set (truth_indices_loaded lb) \<noteq> set sim_indices \<longrightarrow>
            (omm = ''ignore'' \<longrightarrow>
               truth_for_simulations E (Simulations keys) ti pre uc om omm prompt s
                 = (Inr (matched_bundle sim_indices truth_requested lb (warnings lb)), s1))
            \<and> (omm = ''error'' \<longrightarrow>
                 (\<exists>msg. truth_for_simulations E (Simulations keys) ti pre uc om omm prompt s
                           = (Inl (ValueError msg), s1)
                    \<and> sublist (str_int_list sim_indices) msg
                    \<and> sublist (str_int_list (truth_indices_loaded lb)) msg))
            \<and> (omm = ''warn'' \<longrightarrow>
                 (\<exists>msg. sublist (str_int_list sim_indices) msg
                    \<and> sublist (str_int_list (truth_indices_loaded lb)) msg
                    \<and> prefix (emitted s1 @ [msg])
                         (emitted (snd (truth_for_simulations E (Simulations keys) ti pre uc om
                            omm prompt s)))
                    \<and> (\<forall>b s'. truth_for_simulations E (Simulations keys) ti pre uc om omm prompt s
                                 = (Inr b, s') \<longrightarrow>
                          (\<exists>extra. b = matched_bundle sim_indices truth_requested lb
                                         (warnings lb @ msg # extra)))
                    \<and> (\<not> prompt \<longrightarrow>
                          truth_for_simulations E (Simulations keys) ti pre uc om omm prompt s
                            = (Inr (matched_bundle sim_indices truth_requested lb
                                      (warnings lb @ [msg])),
                               s1\<lparr>emitted := emitted s1 @ [msg]\<rparr>))))"
  proof (intro impI conjI)
    assume "ti \<noteq> None \<and> set (truth_indices_loaded lb) \<noteq> set sim_indices" and "omm = ''ignore''"
    then show "truth_for_simulations E (Simulations keys) ti pre uc om omm prompt s
                 = (Inr (matched_bundle sim_indices truth_requested lb (warnings lb)), s1)"
      by (simp add: u seq_def ret_def handle_mismatch_ignore)
  next
    assume "ti \<noteq> None \<and> set (truth_indices_loaded lb) \<noteq> set sim_indices" and "omm = ''error''"
    then have "truth_for_simulations E (Simulations keys) ti pre uc om omm prompt s
                 = (Inl (ValueError ?msg), s1)"
      by (simp add: u seq_def handle_mismatch_error)
    with ml show "\<exists>msg. truth_for_simulations E (Simulations keys) ti pre uc om omm prompt s
                           = (Inl (ValueError msg), s1)
                    \<and> sublist (str_int_list sim_indices) msg
                    \<and> sublist (str_int_list (truth_indices_loaded lb)) msg"
      by blast
  next
    assume c: "ti \<noteq> None \<and> set (truth_indices_loaded lb) \<noteq> set sim_indices" and "omm = ''warn''"
    then have t: "truth_for_simulations E (Simulations keys) ti pre uc om omm prompt s
                 = seq (handle_mismatch E ?msg ''warn'' prompt (warnings lb))
                     (\<lambda>w. ret (matched_bundle sim_indices truth_requested lb w)) s1"
      by (simp add: u)
    note hw = handle_mismatch_warn [of s1 ?msg E prompt "warnings lb"]
    obtain r s2 where h: "handle_mismatch E ?msg ''warn'' prompt (warnings lb) s1 = (r, s2)"
      by (cases "handle_mismatch E ?msg ''warn'' prompt (warnings lb) s1") auto
    have p1: "prefix (emitted s1 @ [?msg])
                (emitted (snd (truth_for_simulations E (Simulations keys) ti pre uc om omm prompt s)))"
      using hw h by (cases r) (simp_all add: t seq_def ret_def)
    have p2: "\<forall>b s'. truth_for_simulations E (Simulations keys) ti pre uc om omm prompt s
                        = (Inr b, s') \<longrightarrow>
                 (\<exists>extra. b = matched_bundle sim_indices truth_requested lb
                                (warnings lb @ ?msg # extra))"
      using hw h by (cases r) (auto simp: t seq_def ret_def)
    have p3: "\<not> prompt \<longrightarrow>
                truth_for_simulations E (Simulations keys) ti pre uc om omm prompt s
                  = (Inr (matched_bundle sim_indices truth_requested lb (warnings lb @ [?msg])),
                     s1\<lparr>emitted := emitted s1 @ [?msg]\<rparr>)"
    proof
      assume "\<not> prompt"
      with hw have "handle_mismatch E ?msg ''warn'' prompt (warnings lb) s1
                      = (Inr (warnings lb @ [?msg]), s1\<lparr>emitted := emitted s1 @ [?msg]\<rparr>)"
        by blast
      then show "truth_for_simulations E (Simulations keys) ti pre uc om omm prompt s
                  = (Inr (matched_bundle sim_indices truth_requested lb (warnings lb @ [?msg])),
                     s1\<lparr>emitted := emitted s1 @ [?msg]\<rparr>)"
        unfolding t by (simp add: seq_def ret_def)
    qed
    from ml p1 p2 p3
    show "\<exists>msg. sublist (str_int_list sim_indices) msg
                    \<and> sublist (str_int_list (truth_indices_loaded lb)) msg
                    \<and> prefix (emitted s1 @ [msg])
                         (emitted (snd (truth_for_simulations E (Simulations keys) ti pre uc om
                            omm prompt s)))
                    \<and> (\<forall>b s'. truth_for_simulations E (Simulations keys) ti pre uc om omm prompt s
                                 = (Inr b, s') \<longrightarrow>
                          (\<exists>extra. b = matched_bundle sim_indices truth_requested lb
                                         (warnings lb @ msg # extra)))
                    \<and> (\<not> prompt \<longrightarrow>
                          truth_for_simulations E (Simulations keys) ti pre uc om omm prompt s
                            = (Inr (matched_bundle sim_indices truth_requested lb
                                      (warnings lb @ [msg])),
                               s1\<lparr>emitted := emitted s1 @ [msg]\<rparr>))"
      by blast
  qed
  show ?thesis
    by (intro conjI) (rule A, rule B, rule C)
qed

text \<open>
  The scenario of the specification with a store that holds the truth files 5 and 6:
  explicit truth indices 5, 6, 9 against simulations 5, 6, 7.
\<close>

theorem mismatch_policy_witness:
  "(\<exists>msg. fst (truth_for_simulations truth_store_env (Simulations [JInt 5, JInt 6, JInt 7])
                (Some (PySequence [JInt 5, JInt 6, JInt 9])) DEFAULT_TRUTH_PREFIX True ''ignore''
                ''error'' False initial_state) = Inl (ValueError msg)
       \<and> sublist ''[5, 6, 7]'' msg \<and> sublist ''[5, 6]'' msg)
   \<and> (\<exists>b. fst (truth_for_simulations truth_store_env (Simulations [JInt 5, JInt 6, JInt 7])
                (Some (PySequence [JInt 5, JInt 6, JInt 9])) DEFAULT_TRUTH_PREFIX True ''ignore''
                ''ignore'' False initial_state) = Inr b
       \<and> warnings b = [])
   \<and> (\<exists>b msg. fst (truth_for_simulations truth_store_env (Simulations [JInt 5, JInt 6, JInt 7])
                (Some (PySequence [JInt 5, JInt 6, JInt 9])) DEFAULT_TRUTH_PREFIX True ''ignore''
                ''warn'' False initial_state) = Inr b
       \<and> warnings b = [msg] \<and> sublist ''[5, 6, 7]'' msg \<and> sublist ''[5, 6]'' msg)
   \<and> (\<exists>b. fst (truth_for_simulations truth_store_env (Simulations [JInt 5, JInt 6, JInt 7])
                None DEFAULT_TRUTH_PREFIX True ''ignore'' ''error'' False initial_state) = Inr b
       \<and> warnings b = [] \<and> truth_indices_requested b = [5, 6, 7])
   \<and> (\<exists>b. fst (truth_for_simulations truth_store_env (Simulations [JInt 5, JInt 6])
                (Some (PySequence [JInt 6, JInt 5])) DEFAULT_TRUTH_PREFIX True ''ignore''
                ''error'' False initial_state) = Inr b
       \<and> warnings b = [])"
proof -
  define lb where "lb = \<lparr> simulation_indices = [5, 6, 9], truth_indices_requested = [5, 6, 9],
      truth = [(5, Frame [] []), (6, Frame [] [])], missing_truth_files = [9],
      missing_for_simulations = [9], extra_truth = [], warnings = [] \<rparr>"
  have n: "normalize_indices (PyIterable [JInt 5, JInt 6, JInt 7]) = Inr [5, 6, 7]"
    by code_simp
  have r: "(case Some (PySequence [JInt 5, JInt 6, JInt 9]) of
              None \<Rightarrow> Inr [5, 6, 7] | Some a \<Rightarrow> normalize_indices a) = Inr [5, 6, 9]"
    by code_simp
  have "fst (load_truths truth_store_env (PySequence (map JInt [5, 6, 9])) DEFAULT_TRUTH_PREFIX
               True ''ignore'' initial_state) = Inr lb"
    unfolding lb_def by code_simp
  then obtain s1 where l: "load_truths truth_store_env (PySequence (map JInt [5, 6, 9]))
        DEFAULT_TRUTH_PREFIX True ''ignore'' initial_state = (Inr lb, s1)"
    by (cases "load_truths truth_store_env (PySequence (map JInt [5, 6, 9])) DEFAULT_TRUTH_PREFIX
                 True ''ignore'' initial_state") auto
  have ld: "truth_indices_loaded lb = [5, 6]" and w: "warnings lb = []"
    by (simp_all add: lb_def truth_indices_loaded_def)
  have st: "str_int_list [5, 6, 7] = ''[5, 6, 7]''" "str_int_list [5, 6] = ''[5, 6]''"
    by code_simp+
  have "7 \<notin> set (truth_indices_loaded lb)"
    by (simp add: ld)
  then have "set (truth_indices_loaded lb) \<noteq> set [5, 6, 7]"
    by auto
  then have ne: "Some (PySequence [JInt 5, JInt 6, JInt 9]) \<noteq> None
            \<and> set (truth_indices_loaded lb) \<noteq> set [5, 6, 7]"
    by simp
  note p = mismatch_policy [OF n r l, THEN conjunct2, THEN conjunct2, rule_format, OF ne]
  from p [where omm = "''error''" and prompt = False, THEN conjunct2, THEN conjunct1]
  have a: "\<exists>msg. fst (truth_for_simulations truth_store_env (Simulations [JInt 5, JInt 6, JInt 7])
                (Some (PySequence [JInt 5, JInt 6, JInt 9])) DEFAULT_TRUTH_PREFIX True ''ignore''
                ''error'' False initial_state) = Inl (ValueError msg)
       \<and> sublist ''[5, 6, 7]'' msg \<and> sublist ''[5, 6]'' msg"
    by (auto simp: st ld)
  from p [where omm = "''ignore''" and prompt = False, THEN conjunct1]
  have b: "\<exists>b. fst (truth_for_simulations truth_store_env (Simulations [JInt 5, JInt 6, JInt 7])
                (Some (PySequence [JInt 5, JInt 6, JInt 9])) DEFAULT_TRUTH_PREFIX True ''ignore''
                ''ignore'' False initial_state) = Inr b
       \<and> warnings b = []"
    by (simp add: matched_bundle_def w)
  from p [where omm = "''warn''" and prompt = False, THEN conjunct2, THEN conjunct2]
  have c: "\<exists>b msg. fst (truth_for_simulations truth_store_env (Simulations [JInt 5, JInt 6, JInt 7])
                (Some (PySequence [JInt 5, JInt 6, JInt 9])) DEFAULT_TRUTH_PREFIX True ''ignore''
                ''warn'' False initial_state) = Inr b
       \<and> warnings b = [msg] \<and> sublist ''[5, 6, 7]'' msg \<and> sublist ''[5, 6]'' msg"
    by (auto simp: matched_bundle_def w st ld)
  define lb2 where "lb2 = \<lparr> simulation_indices = [5, 6, 7], truth_indices_requested = [5, 6, 7],
      truth = [(5, Frame [] []), (6, Frame [] [])], missing_truth_files = [7],
      missing_for_simulations = [7], extra_truth = [], warnings = [] \<rparr>"
  have r2: "(case None of None \<Rightarrow> Inr [5, 6, 7] | Some a \<Rightarrow> normalize_indices a) = Inr [5, 6, 7]"
    by simp
  have "fst (load_truths truth_store_env (PySequence (map JInt [5, 6, 7])) DEFAULT_TRUTH_PREFIX
               True ''ignore'' initial_state) = Inr lb2"
    unfolding lb2_def by code_simp
  then obtain s2 where l2: "load_truths truth_store_env (PySequence (map JInt [5, 6, 7]))
        DEFAULT_TRUTH_PREFIX True ''ignore'' initial_state = (Inr lb2, s2)"
    by (cases "load_truths truth_store_env (PySequence (map JInt [5, 6, 7])) DEFAULT_TRUTH_PREFIX
                 True ''ignore'' initial_state") auto
  from mismatch_policy [OF n r2 l2, where omm = "''error''" and prompt = False, THEN conjunct1]
  have d: "\<exists>b. fst (truth_for_simulations truth_store_env (Simulations [JInt 5, JInt 6, JInt 7])
                None DEFAULT_TRUTH_PREFIX True ''ignore'' ''error'' False initial_state) = Inr b
       \<and> warnings b = [] \<and> truth_indices_requested b = [5, 6, 7]"
    by (simp add: matched_bundle_def lb2_def)
  define lb3 where "lb3 = \<lparr> simulation_indices = [5, 6], truth_indices_requested = [5, 6],
      truth = [(5, Frame [] []), (6, Frame [] [])], missing_truth_files = [],
      missing_for_simulations = [], extra_truth = [], warnings = [] \<rparr>"
  have n3: "normalize_indices (PyIterable [JInt 5, JInt 6]) = Inr [5, 6]"
    by code_simp
  have r3: "(case Some (PySequence [JInt 6, JInt 5]) of
              None \<Rightarrow> Inr [5, 6] | Some a \<Rightarrow> normalize_indices a) = Inr [5, 6]"
    by code_simp
  have "fst (load_truths truth_store_env (PySequence (map JInt [5, 6])) DEFAULT_TRUTH_PREFIX
               True ''ignore'' initial_state) = Inr lb3"
    unfolding lb3_def by code_simp
  then obtain s3 where l3: "load_truths truth_store_env (PySequence (map JInt [5, 6]))
        DEFAULT_TRUTH_PREFIX True ''ignore'' initial_state = (Inr lb3, s3)"
    by (cases "load_truths truth_store_env (PySequence (map JInt [5, 6])) DEFAULT_TRUTH_PREFIX
                 True ''ignore'' initial_state") auto
  have eq3: "set (truth_indices_loaded lb3) = set [5, 6]"
    by (simp add: lb3_def truth_indices_loaded_def)
  from mismatch_policy [OF n3 r3 l3, where omm = "''error''" and prompt = False,
      THEN conjunct2, THEN conjunct1, rule_format, OF eq3]
  have e: "\<exists>b. fst (truth_for_simulations truth_store_env (Simulations [JInt 5, JInt 6])
                (Some (PySequence [JInt 6, JInt 5])) DEFAULT_TRUTH_PREFIX True ''ignore''
                ''error'' False initial_state) = Inr b
       \<and> warnings b = []"
    by (simp add: matched_bundle_def lb3_def)
  from a b c d e show ?thesis
    by (intro conjI)
qed


lemma extends_refl: "extends s s"
  by (simp add: extends_def)

lemma extends_trans: "extends s1 s2 \<Longrightarrow> extends s2 s3 \<Longrightarrow> extends s1 s3"
  by (auto simp: extends_def)

lemma replayable_mono: "replayable m \<Longrightarrow> m s = (r, s1) \<Longrightarrow> extends s s1"
  by (auto simp: replayable_def)

lemma replayable_again:
  "replayable m \<Longrightarrow> m s = (Inr a, s1) \<Longrightarrow> extends s1 s2 \<Longrightarrow> \<exists>s3. m s2 = (Inr a, s3)"
  unfolding replayable_def by blast

lemma replayableI:
  assumes "\<And>s r s1. m s = (r, s1) \<Longrightarrow> extends s s1"
    and "\<And>s a s1 s2. m s = (Inr a, s1) \<Longrightarrow> extends s1 s2 \<Longrightarrow> \<exists>s3. m s2 = (Inr a, s3)"
  shows "replayable m"
  unfolding replayable_def using assms by blast

lemma replayable_seq:
  assumes m: "replayable m" and f: "\<And>a. replayable (f a)"
  shows "replayable (seq m f)"
proof (rule replayableI)
  fix s r s1
  assume a: "seq m f s = (r, s1)"
  obtain x sm where ms: "m s = (x, sm)" by (cases "m s") auto
  note e1 = replayable_mono [OF m ms]
  show "extends s s1"
  proof (cases x)
    case (Inl e)
    with a ms e1 show ?thesis by (simp add: seq_def)
  next
    case (Inr v)
    with a ms have "f v sm = (r, s1)" by (simp add: seq_def)
    from replayable_mono [OF f this] e1 show ?thesis by (rule extends_trans [rotated])
  qed
next
  fix s b s1 s2
  assume a: "seq m f s = (Inr b, s1)" and e: "extends s1 s2"
  obtain x sm where ms: "m s = (x, sm)" by (cases "m s") auto
  with a obtain v where x: "x = Inr v" and fv: "f v sm = (Inr b, s1)"
    by (cases x) (auto simp: seq_def)
  from replayable_mono [OF f fv] e have "extends sm s2" by (rule extends_trans)
  from replayable_again [OF m ms [unfolded x] this] obtain t where t: "m s2 = (Inr v, t)" ..
  from replayable_mono [OF m t] e have "extends s1 t" by (rule extends_trans [rotated])
  from replayable_again [OF f fv this] obtain s3 where "f v t = (Inr b, s3)" ..
  with t have "seq m f s2 = (Inr b, s3)" by (simp add: seq_def)
  then show "\<exists>s3. seq m f s2 = (Inr b, s3)" ..
qed

lemma replayable_basic [simp]:
  "replayable (ret a)" "replayable (throw e)" "replayable (lift r)" "replayable (send op)"
  by (auto simp: replayable_def extends_def prog_defs)

lemma connect_s3_connects:
  "connect_s3 E bn ek ro s = (Inr h, s1) \<Longrightarrow> S3 s1 \<noteq> None \<and> BUCKET s1 = Some bn"
  by (auto simp: connect_s3_def Let_def split: if_splits option.splits)

lemma ensure_connected_result:
  assumes "ensure_connected E s = (Inr u, s1)"
  shows "S3 s1 \<noteq> None \<and> BUCKET s1 \<noteq> None
         \<and> (S3 s \<noteq> None \<and> BUCKET s \<noteq> None \<longrightarrow> s1 = s)"
proof (cases "S3 s = None \<or> BUCKET s = None")
  case False
  with assms show ?thesis by (auto simp: ensure_connected_def)
next
  case True
  with assms obtain h where "connect_s3 E ''cidl-test'' ''primary'' True s = (Inr h, s1)"
    by (auto simp: ensure_connected_def seq_def ret_def split: prod.splits sum.splits)
  from connect_s3_connects [OF this] True show ?thesis by auto
qed

lemma replayable_ensure_connected: "replayable (ensure_connected E)"
proof (rule replayableI)
  fix s r s1
  assume a: "ensure_connected E s = (r, s1)"
  from ensure_connected_frame [OF a] have "CACHE s1 = CACHE s" "META_CACHE s1 = META_CACHE s"
    by auto
  moreover have "S3 s \<noteq> None \<and> BUCKET s \<noteq> None \<longrightarrow> s1 = s"
    using a by (auto simp: ensure_connected_def)
  ultimately show "extends s s1"
    by (auto simp: extends_def)
next
  fix s a s1 s2
  assume a: "ensure_connected E s = (Inr a, s1)" and e: "extends s1 s2"
  from ensure_connected_result [OF a] e have "S3 s2 \<noteq> None" "BUCKET s2 \<noteq> None"
    by (auto simp: extends_def)
  then show "\<exists>s3. ensure_connected E s2 = (Inr a, s3)"
    by (auto simp: ensure_connected_def)
qed

lemma replayable_download_file: "replayable (download_file E key uc)"
proof (rule replayableI)
  fix s r s1
  assume a: "download_file E key uc s = (r, s1)"
  show "extends s s1"
  proof (cases "if uc then CACHE s key else None")
    case (Some v)
    with a show ?thesis by (simp add: download_file_def extends_refl)
  next
    case None
    obtain x s0 where e: "ensure_connected E s = (x, s0)"
      by (cases "ensure_connected E s") auto
    note m = replayable_mono [OF replayable_ensure_connected e]
    from ensure_connected_frame [OF e] have c: "CACHE s0 = CACHE s" by auto
    from a None e have "extends s0 s1"
      by (cases x; cases "BUCKET s0"; cases uc)
         (auto simp: download_file_def prog_defs extends_def c
               split: sum.splits option.splits if_splits)
    with m show ?thesis by (rule extends_trans)
  qed
next
  fix s a s1 s2
  assume a: "download_file E key uc s = (Inr a, s1)" and e: "extends s1 s2"
  show "\<exists>s3. download_file E key uc s2 = (Inr a, s3)"
  proof (cases "if uc then CACHE s key else None")
    case (Some v)
    with a have "s1 = s" "a = v" "uc" "CACHE s key = Some v"
      by (auto simp: download_file_def split: if_splits)
    with e have "CACHE s2 key = Some v" by (auto simp: extends_def)
    with \<open>uc\<close> \<open>a = v\<close> show ?thesis by (simp add: download_file_def)
  next
    case None
    from download_file_miss [OF None a] obtain s0 b
      where ec: "ensure_connected E s = (Inr (), s0)" and b: "BUCKET s0 = Some b"
        and d: "download_fileobj E b key = Inr a"
        and s1: "s1 = (if uc then s0\<lparr>remote_log := remote_log s0 @ [Get b key],
                                  CACHE := (CACHE s0)(key \<mapsto> a)\<rparr>
                       else s0\<lparr>remote_log := remote_log s0 @ [Get b key]\<rparr>)"
      by blast
    show ?thesis
    proof (cases uc)
      case True
      with s1 e have "CACHE s2 key = Some a" by (auto simp: extends_def)
      with True show ?thesis by (simp add: download_file_def)
    next
      case False
      from ensure_connected_result [OF ec] b s1 False
      have "S3 s1 \<noteq> None" "BUCKET s1 = Some b" by auto
      with e have "S3 s2 \<noteq> None" "BUCKET s2 = Some b" by (auto simp: extends_def)
      with False d show ?thesis
        by (auto simp: download_file_def ensure_connected_def prog_defs)
    qed
  qed
qed


lemma download_file_meta:
  assumes "download_file E key uc s = (r, s1)"
  shows "META_CACHE s1 = META_CACHE s"
proof (cases "if uc then CACHE s key else None")
  case (Some v)
  with assms show ?thesis by (simp add: download_file_def)
next
  case None
  obtain x s0 where e: "ensure_connected E s = (x, s0)"
    by (cases "ensure_connected E s") auto
  from ensure_connected_frame [OF e] have c: "META_CACHE s0 = META_CACHE s" by auto
  from assms None e have "META_CACHE s1 = META_CACHE s0"
    by (cases x; cases "BUCKET s0"; cases uc)
       (auto simp: download_file_def prog_defs split: sum.splits option.splits if_splits)
  with c show ?thesis by simp
qed

lemma replayable_json_source: "replayable (json_source E source uc)"
  unfolding json_source_def
  by (cases "local_json E source")
     (simp_all add: replayable_seq replayable_download_file)

lemma json_source_meta:
  assumes "json_source E source uc s = (r, s1)"
  shows "META_CACHE s1 = META_CACHE s"
proof (cases "local_json E source")
  case (Some x)
  with assms show ?thesis by (auto simp: json_source_def prog_defs split: sum.splits)
next
  case None
  obtain x s0 where d: "download_file E source uc s = (x, s0)"
    by (cases "download_file E source uc s") auto
  from assms None d have "s1 = s0"
    by (cases x) (auto simp: json_source_def prog_defs split: sum.splits)
  with download_file_meta [OF d] show ?thesis by simp
qed

lemma read_json_source_unfold:
  "read_json_source E source uc s =
     (case (if uc then META_CACHE s source else None) of
        Some cached \<Rightarrow> (Inr cached, s)
      | None \<Rightarrow>
          (case json_source E source uc s of
             (Inl e, s') \<Rightarrow> (Inl e, s')
           | (Inr obj, s') \<Rightarrow>
               (Inr obj, if uc then s'\<lparr>META_CACHE := (META_CACHE s')(source \<mapsto> obj)\<rparr> else s')))"
  by (auto simp: read_json_source_def json_source_def seq_def
           split: option.splits prod.splits sum.splits)

lemma replayable_read_json_source: "replayable (read_json_source E source uc)"
proof (rule replayableI)
  fix s r s1
  assume a: "read_json_source E source uc s = (r, s1)"
  show "extends s s1"
  proof (cases "if uc then META_CACHE s source else None")
    case (Some v)
    with a show ?thesis by (simp add: read_json_source_unfold extends_refl)
  next
    case None
    obtain x s0 where j: "json_source E source uc s = (x, s0)"
      by (cases "json_source E source uc s") auto
    note m = replayable_mono [OF replayable_json_source j]
    note f = json_source_meta [OF j]
    from a None j f have "extends s0 s1"
      by (cases x; cases uc) (auto simp: read_json_source_unfold extends_def)
    with m show ?thesis by (rule extends_trans)
  qed
next
  fix s a s1 s2
  assume a: "read_json_source E source uc s = (Inr a, s1)" and e: "extends s1 s2"
  show "\<exists>s3. read_json_source E source uc s2 = (Inr a, s3)"
  proof (cases "if uc then META_CACHE s source else None")
    case (Some v)
    with a have "s1 = s" "a = v" "uc" "META_CACHE s source = Some v"
      by (auto simp: read_json_source_unfold split: if_splits)
    with e have "META_CACHE s2 source = Some v" by (auto simp: extends_def)
    with \<open>uc\<close> \<open>a = v\<close> show ?thesis by (simp add: read_json_source_unfold)
  next
    case None
    obtain x s0 where j: "json_source E source uc s = (x, s0)"
      by (cases "json_source E source uc s") auto
    with a None have x: "x = Inr a"
      and s1: "s1 = (if uc then s0\<lparr>META_CACHE := (META_CACHE s0)(source \<mapsto> a)\<rparr> else s0)"
      by (cases x; auto simp: read_json_source_unfold)+
    show ?thesis
    proof (cases uc)
      case True
      with s1 e have "META_CACHE s2 source = Some a" by (auto simp: extends_def)
      with True show ?thesis by (simp add: read_json_source_unfold)
    next
      case False
      with s1 e have "extends s0 s2" by simp
      from replayable_again [OF replayable_json_source j [unfolded x] this]
      obtain s3 where "json_source E source uc s2 = (Inr a, s3)" ..
      with False show ?thesis by (simp add: read_json_source_unfold)
    qed
  qed
qed

lemma replayable_load_acic22_metadata: "replayable (load_acic22_metadata E source uc)"
  unfolding load_acic22_metadata_def
  by (rule replayable_seq [OF replayable_read_json_source]) (simp split: json.splits)

lemma replayable_load_dgp_info: "replayable (load_dgp_info E source uc)"
  unfolding load_dgp_info_def
  by (rule replayable_seq [OF replayable_read_json_source])
     (simp split: json.splits option.splits)

lemma replayable_indices_for_difficulty:
  "replayable (indices_for_difficulty E difficulty ms ds uc)"
  unfolding indices_for_difficulty_def
  by (intro replayable_seq replayable_load_acic22_metadata replayable_load_dgp_info
        replayable_basic)
     (simp split: option.splits add: replayable_seq)

lemma replayable_load_each: "replayable (load_each E meta pre uc idxs out)"
  by (induction idxs arbitrary: out)
     (simp_all add: replayable_seq replayable_download_file)

lemma replayable_load_simulations: "replayable (load_simulations E idxs pre uc ms)"
  unfolding load_simulations_def
  by (intro replayable_seq replayable_ensure_connected replayable_load_acic22_metadata
        replayable_load_each)

lemma replayable_default_rng: "replayable (default_rng E (Some sd))"
  by (auto simp: replayable_def default_rng_def extends_def)

lemma replayable_sample_indices:
  "replayable (sample_indices E n difficulty (Some sd) uc ms ds)"
  unfolding sample_indices_def
  by (cases n)
     (simp_all add: replayable_seq replayable_indices_for_difficulty replayable_default_rng)

lemma replayable_load_random_simulations:
  "replayable (load_random_simulations E n difficulty pre (Some sd) uc ms ds)"
  unfolding load_random_simulations_def
  by (intro replayable_seq replayable_sample_indices replayable_load_simulations)


lemma load_each_keys:
  "load_each E meta pre uc idxs out s = (Inr r, s1) \<Longrightarrow>
   distinct (map fst out) \<Longrightarrow> sorted (map fst out @ idxs) \<Longrightarrow>
   distinct (map fst r) \<and> sorted (map fst r) \<and> set (map fst r) = set (map fst out) \<union> set idxs"
proof (induction idxs arbitrary: out s)
  case Nil
  then show ?case by (simp add: ret_def)
next
  case (Cons idx rest)
  from Cons.prems(1) obtain fr s0
    where step: "load_each E meta pre uc rest (AList.update idx fr out) s0 = (Inr r, s1)"
    by (auto simp: seq_def lift_def split: sum.splits prod.splits)
  have d: "distinct (map fst (AList.update idx fr out))"
    using Cons.prems(2) by (rule distinct_update)
  have k: "map fst (AList.update idx fr out)
             = (if idx \<in> set (map fst out) then map fst out else map fst out @ [idx])"
    by (rule update_keys)
  have st: "sorted (map fst (AList.update idx fr out) @ rest)"
    using Cons.prems(3) by (auto simp: k sorted_append)
  from Cons.IH [OF step d st] show ?case
    by (auto simp: k)
qed

lemma load_simulations_keys:
  assumes "load_simulations E idxs pre uc ms s = (Inr sims, s1)" and "sorted idxs"
  shows "map fst sims = sorted_list_of_set (set idxs)"
proof -
  from assms(1) obtain meta s0 where "load_each E meta pre uc idxs [] s0 = (Inr sims, s1)"
    by (auto simp: load_simulations_def seq_def split: sum.splits prod.splits)
  from load_each_keys [OF this] assms(2)
  have "distinct (map fst sims)" "sorted (map fst sims)" "set (map fst sims) = set idxs"
    by auto
  then show ?thesis
    by (metis sorted_list_of_set.idem_if_sorted_distinct)
qed

lemma indices_for_difficulty_sorted:
  assumes "indices_for_difficulty E d ms ds uc s = (Inr xs, s1)"
  shows "sorted xs \<and> distinct xs"
proof -
  from assms obtain meta s0 dgp_info s0' tiers
    where m: "load_acic22_metadata E ms uc s = (Inr meta, s0)"
      and g: "load_dgp_info E ds uc s0 = (Inr dgp_info, s0')"
      and t: "difficulty_to_tiers d = Inr tiers"
    by (auto simp: indices_for_difficulty_def prog_defs split: sum.splits prod.splits)
  note mi = load_acic22_metadata_index [OF m]
  note gi = load_dgp_info_index [OF g]
  show ?thesis
  proof (cases tiers)
    case None
    with assms m g t mi show ?thesis
      by (auto simp: indices_for_difficulty_def prog_defs)
  next
    case (Some ts)
    with assms m g t obtain S ys
      where S: "allowed_dgps dgp_info ts = Inr S" and ys: "select_indices meta S = Inr ys"
        and xs: "xs = sort ys"
      by (auto simp: indices_for_difficulty_def prog_defs split: sum.splits)
    from select_set(2) [OF _ _ S ys] mi gi have "distinct ys" by auto
    then show ?thesis by (simp add: xs)
  qed
qed

lemma sample_indices_invalid:
  "n = NotAnInt \<or> (\<exists>k. n = IntArg k \<and> k \<le> 0) \<Longrightarrow>
   sample_indices E n d seed uc ms ds s = (Inl (ValueError ''n must be a positive integer.''), s)"
  by (auto simp: sample_indices_def throw_def)

lemma sample_indices_too_many:
  assumes "indices_for_difficulty E d ms ds uc s = (Inr pool, s1)"
    and "int (length pool) < k"
  shows "\<exists>msg s'. sample_indices E (IntArg k) d seed uc ms ds s = (Inl (ValueError msg), s')"
  using assms by (auto simp: sample_indices_def throw_def seq_def)

lemma sample_indices_result:
  assumes "sample_indices E n d seed uc ms ds s = (Inr idxs, s1)"
  shows "\<exists>k pool s0 sd smp.
           n = IntArg k \<and> 0 < k \<and> k \<le> int (length pool)
           \<and> indices_for_difficulty E d ms ds uc s = (Inr pool, s0)
           \<and> default_rng E seed s0 = (Inr sd, s1)
           \<and> rng_choice E sd pool (nat k) = Inr smp
           \<and> idxs = sort smp"
proof (cases n)
  case NotAnInt
  with assms show ?thesis by (simp add: sample_indices_def throw_def)
next
  case (IntArg k)
  with assms have k: "0 < k"
    by (cases "k \<le> 0") (simp_all add: sample_indices_def throw_def)
  obtain x s0 where i: "indices_for_difficulty E d ms ds uc s = (x, s0)"
    by (cases "indices_for_difficulty E d ms ds uc s") auto
  with assms IntArg k obtain pool where x: "x = Inr pool"
    by (cases x) (auto simp: sample_indices_def seq_def)
  with assms IntArg k i have le: "k \<le> int (length pool)"
    by (cases "k \<le> int (length pool)") (auto simp: sample_indices_def seq_def throw_def)
  obtain y s0' where r: "default_rng E seed s0 = (y, s0')"
    by (cases "default_rng E seed s0") auto
  then obtain sd where y: "y = Inr sd"
    by (cases seed) (auto simp: default_rng_def)
  from assms IntArg k i x le r y obtain smp
    where "rng_choice E sd pool (nat k) = Inr smp" "idxs = sort smp" "s1 = s0'"
    by (cases "rng_choice E sd pool (nat k)")
       (auto simp: sample_indices_def seq_def lift_def ret_def)
  with IntArg k le i x r y show ?thesis by auto
qed


lemma load_random_simulations_result:
  assumes "load_random_simulations E n d pre seed uc ms ds s = (Inr sims, s1)"
  shows "\<exists>k pool s0 sd s0' smp.
              n = IntArg k \<and> 0 < k \<and> k \<le> int (length pool)
              \<and> indices_for_difficulty E d ms ds uc s = (Inr pool, s0)
              \<and> sorted pool \<and> distinct pool
              \<and> default_rng E seed s0 = (Inr sd, s0')
              \<and> rng_choice E sd pool (nat k) = Inr smp
              \<and> load_simulations E (sort smp) pre uc ms s0' = (Inr sims, s1)
              \<and> map fst sims = sorted_list_of_set (set smp)
              \<and> (drawn_without_replacement smp pool (nat k) \<longrightarrow>
                   map fst sims = sort smp \<and> length sims = nat k
                   \<and> fst ` set sims \<subseteq> set pool)"
proof -
  from assms obtain idxs s0'
    where si: "sample_indices E n d seed uc ms ds s = (Inr idxs, s0')"
      and ls: "load_simulations E idxs pre uc ms s0' = (Inr sims, s1)"
    by (auto simp: load_random_simulations_def seq_def split: sum.splits prod.splits)
  from sample_indices_result [OF si] obtain k pool s0 sd smp
    where n: "n = IntArg k" "0 < k" "k \<le> int (length pool)"
      and i: "indices_for_difficulty E d ms ds uc s = (Inr pool, s0)"
      and r: "default_rng E seed s0 = (Inr sd, s0')"
      and c: "rng_choice E sd pool (nat k) = Inr smp"
      and idxs: "idxs = sort smp"
    by blast
  note p = indices_for_difficulty_sorted [OF i]
  from load_simulations_keys [OF ls] idxs
  have keys: "map fst sims = sorted_list_of_set (set smp)"
    by simp
  have w: "map fst sims = sort smp \<and> length sims = nat k \<and> fst ` set sims \<subseteq> set pool"
    if dr: "drawn_without_replacement smp pool (nat k)"
  proof -
    from dr have l: "length smp = nat k" and ds: "distinct smp" and sub: "set smp \<subseteq> set pool"
      by (simp_all add: drawn_without_replacement_def)
    from ds have e: "map fst sims = sort smp"
      by (simp add: keys sorted_list_of_set_sort_remdups distinct_remdups_id)
    from arg_cong [OF e, of length] l have "length sims = nat k"
      by simp
    moreover from arg_cong [OF e, of set] sub have "fst ` set sims \<subseteq> set pool"
      by simp
    ultimately show ?thesis
      using e by simp
  qed
  from n i p r c ls [unfolded idxs] keys w show ?thesis
    by blast
qed

text \<open>
  C5: \<^verbatim>\<open>load_random_simulations(n, difficulty, prefix, seed, ...)\<close>.
  \<^item> When \<open>n\<close> is no \<^verbatim>\<open>int\<close>, or an \<^verbatim>\<open>int\<close> that is not positive, the call raises
    \<^verbatim>\<open>ValueError("n must be a positive integer.")\<close> and leaves the state as it is.
  \<^item> When the eligible indices of the difficulty are found and \<open>n\<close> is larger than their
    number, the call raises a \<^verbatim>\<open>ValueError\<close>.
  \<^item> When the call returns, \<open>n\<close> is a positive \<^verbatim>\<open>int\<close> not above the number of eligible indices
    \<open>pool\<close> (sorted, each once); the generator was made from the seed; the sample \<open>smp\<close> is what
    \<^verbatim>\<open>choice\<close> drew from \<open>pool\<close> at size \<open>n\<close>; the simulations were loaded by \<^verbatim>\<open>load_simulations\<close>
    on the sample sorted ascending; and the keys of the result, in the order of the dict, are
    the sampled indices ascending, each once.  If the sample is a draw without replacement
    (\<open>n\<close> distinct members of \<open>pool\<close>), the result has exactly \<open>n\<close> entries, all eligible.
  \<^item> With a seed given, a call that selected indices selects the same indices when it is
    made again in any later state (one whose caches hold at least the same entries and
    whose session is the same), and a call that returned returns the same dict again.
\<close>

theorem load_random_draws:
  "(n = NotAnInt \<or> (\<exists>k. n = IntArg k \<and> k \<le> 0) \<longrightarrow>
      load_random_simulations E n d pre seed uc ms ds s
        = (Inl (ValueError ''n must be a positive integer.''), s))
   \<and> (\<forall>k pool s0. n = IntArg k
          \<and> indices_for_difficulty E d ms ds uc s = (Inr pool, s0)
          \<and> int (length pool) < k \<longrightarrow>
        (\<exists>msg s'. load_random_simulations E n d pre seed uc ms ds s
                    = (Inl (ValueError msg), s')))
   \<and> (\<forall>sims s1. load_random_simulations E n d pre seed uc ms ds s = (Inr sims, s1) \<longrightarrow>
        (\<exists>k pool s0 sd s0' smp.
              n = IntArg k \<and> 0 < k \<and> k \<le> int (length pool)
              \<and> indices_for_difficulty E d ms ds uc s = (Inr pool, s0)
              \<and> sorted pool \<and> distinct pool
              \<and> default_rng E seed s0 = (Inr sd, s0')
              \<and> rng_choice E sd pool (nat k) = Inr smp
              \<and> load_simulations E (sort smp) pre uc ms s0' = (Inr sims, s1)
              \<and> map fst sims = sorted_list_of_set (set smp)
              \<and> (drawn_without_replacement smp pool (nat k) \<longrightarrow>
                   map fst sims = sort smp \<and> length sims = nat k
                   \<and> fst ` set sims \<subseteq> set pool)))
   \<and> (\<forall>sd idxs s1 s2. seed = Some sd
          \<and> sample_indices E n d seed uc ms ds s = (Inr idxs, s1) \<and> extends s1 s2 \<longrightarrow>
        (\<exists>s3. sample_indices E n d seed uc ms ds s2 = (Inr idxs, s3)))
   \<and> (\<forall>sd sims s1 s2. seed = Some sd
          \<and> load_random_simulations E n d pre seed uc ms ds s = (Inr sims, s1)
          \<and> extends s1 s2 \<longrightarrow>
        (\<exists>s3. load_random_simulations E n d pre seed uc ms ds s2 = (Inr sims, s3)))"
proof -
  have A: "n = NotAnInt \<or> (\<exists>k. n = IntArg k \<and> k \<le> 0) \<longrightarrow>
      load_random_simulations E n d pre seed uc ms ds s
        = (Inl (ValueError ''n must be a positive integer.''), s)"
  proof
    assume "n = NotAnInt \<or> (\<exists>k. n = IntArg k \<and> k \<le> 0)"
    from sample_indices_invalid [OF this]
    show "load_random_simulations E n d pre seed uc ms ds s
            = (Inl (ValueError ''n must be a positive integer.''), s)"
      by (simp add: load_random_simulations_def seq_def)
  qed
  have B: "\<forall>k pool s0. n = IntArg k
          \<and> indices_for_difficulty E d ms ds uc s = (Inr pool, s0)
          \<and> int (length pool) < k \<longrightarrow>
        (\<exists>msg s'. load_random_simulations E n d pre seed uc ms ds s
                    = (Inl (ValueError msg), s'))"
  proof (intro allI impI)
    fix k pool s0
    assume a: "n = IntArg k \<and> indices_for_difficulty E d ms ds uc s = (Inr pool, s0)
                 \<and> int (length pool) < k"
    then have "\<exists>msg s'. sample_indices E (IntArg k) d seed uc ms ds s
                 = (Inl (ValueError msg), s')"
      by (intro sample_indices_too_many) auto
    with a show "\<exists>msg s'. load_random_simulations E n d pre seed uc ms ds s
                    = (Inl (ValueError msg), s')"
      by (auto simp: load_random_simulations_def seq_def)
  qed
  have C: "\<forall>sims s1. load_random_simulations E n d pre seed uc ms ds s = (Inr sims, s1) \<longrightarrow>
        (\<exists>k pool s0 sd s0' smp.
              n = IntArg k \<and> 0 < k \<and> k \<le> int (length pool)
              \<and> indices_for_difficulty E d ms ds uc s = (Inr pool, s0)
              \<and> sorted pool \<and> distinct pool
              \<and> default_rng E seed s0 = (Inr sd, s0')
              \<and> rng_choice E sd pool (nat k) = Inr smp
              \<and> load_simulations E (sort smp) pre uc ms s0' = (Inr sims, s1)
              \<and> map fst sims = sorted_list_of_set (set smp)
              \<and> (drawn_without_replacement smp pool (nat k) \<longrightarrow>
                   map fst sims = sort smp \<and> length sims = nat k
                   \<and> fst ` set sims \<subseteq> set pool))"
    by (intro allI impI) (rule load_random_simulations_result)
  have D: "\<forall>sd idxs s1 s2. seed = Some sd
          \<and> sample_indices E n d seed uc ms ds s = (Inr idxs, s1) \<and> extends s1 s2 \<longrightarrow>
        (\<exists>s3. sample_indices E n d seed uc ms ds s2 = (Inr idxs, s3))"
    using replayable_again [OF replayable_sample_indices] by blast
  have F: "\<forall>sd sims s1 s2. seed = Some sd
          \<and> load_random_simulations E n d pre seed uc ms ds s = (Inr sims, s1)
          \<and> extends s1 s2 \<longrightarrow>
        (\<exists>s3. load_random_simulations E n d pre seed uc ms ds s2 = (Inr sims, s3))"
    using replayable_again [OF replayable_load_random_simulations] by blast
  show ?thesis
    by (intro conjI) (rule A, rule B, rule C, rule D, rule F)
qed


text \<open>
  The scenario with a store that holds every simulation file: both indices are eligible
  for \<^verbatim>\<open>"all"\<close>; \<open>n = 2\<close> with seed 42 loads the indices 1 and 2 in this order, and so does
  the same call made again; \<open>n = 0\<close> and \<open>n = 3\<close> raise \<^verbatim>\<open>ValueError\<close>.
\<close>

theorem load_random_draws_witness:
  "fst (load_random_simulations sim_store_env (IntArg 2) (Some ''all'')
          ''acic22/simulations'' (Some 42) True ''metadata.json'' ''dgp_info.json''
          initial_state) = Inr [(1, Frame [] []), (2, Frame [] [])]
   \<and> fst (load_random_simulations sim_store_env (IntArg 2) (Some ''all'')
          ''acic22/simulations'' (Some 42) True ''metadata.json'' ''dgp_info.json''
          (snd (load_random_simulations sim_store_env (IntArg 2) (Some ''all'')
          ''acic22/simulations'' (Some 42) True ''metadata.json'' ''dgp_info.json''
          initial_state))) = Inr [(1, Frame [] []), (2, Frame [] [])]
   \<and> load_random_simulations sim_store_env (IntArg 0) (Some ''all'')
          ''acic22/simulations'' (Some 42) True ''metadata.json'' ''dgp_info.json''
          initial_state = (Inl (ValueError ''n must be a positive integer.''), initial_state)
   \<and> (\<exists>msg. fst (load_random_simulations sim_store_env (IntArg 3) (Some ''all'')
          ''acic22/simulations'' (Some 42) True ''metadata.json'' ''dgp_info.json''
          initial_state) = Inl (ValueError msg))"
proof -
  let ?sims = "[(1 :: int, Frame [] []), (2, Frame [] [])]"
  have first: "fst (load_random_simulations sim_store_env (IntArg 2) (Some ''all'')
          ''acic22/simulations'' (Some 42) True ''metadata.json'' ''dgp_info.json''
          initial_state) = Inr ?sims"
    by code_simp
  then obtain s1 where r: "load_random_simulations sim_store_env (IntArg 2) (Some ''all'')
          ''acic22/simulations'' (Some 42) True ''metadata.json'' ''dgp_info.json''
          initial_state = (Inr ?sims, s1)"
    by (cases "load_random_simulations sim_store_env (IntArg 2) (Some ''all'')
          ''acic22/simulations'' (Some 42) True ''metadata.json'' ''dgp_info.json''
          initial_state") auto
  note t = load_random_draws [of _ sim_store_env "Some ''all''" "''acic22/simulations''" "Some 42"
             True "''metadata.json''" "''dgp_info.json''" initial_state]
  from t [of "IntArg 2", THEN conjunct2, THEN conjunct2, THEN conjunct2, THEN conjunct2,
          rule_format, of 42 ?sims s1 s1] r extends_refl [of s1]
  obtain s3 where "load_random_simulations sim_store_env (IntArg 2) (Some ''all'')
          ''acic22/simulations'' (Some 42) True ''metadata.json'' ''dgp_info.json''
          s1 = (Inr ?sims, s3)"
    by blast
  with r have second: "fst (load_random_simulations sim_store_env (IntArg 2) (Some ''all'')
          ''acic22/simulations'' (Some 42) True ''metadata.json'' ''dgp_info.json''
          (snd (load_random_simulations sim_store_env (IntArg 2) (Some ''all'')
          ''acic22/simulations'' (Some 42) True ''metadata.json'' ''dgp_info.json''
          initial_state))) = Inr ?sims"
    by simp
  from t [of "IntArg 0", THEN conjunct1]
  have third: "load_random_simulations sim_store_env (IntArg 0) (Some ''all'')
          ''acic22/simulations'' (Some 42) True ''metadata.json'' ''dgp_info.json''
          initial_state = (Inl (ValueError ''n must be a positive integer.''), initial_state)"
    by simp
  have "fst (indices_for_difficulty sim_store_env (Some ''all'') ''metadata.json''
          ''dgp_info.json'' True initial_state) = Inr [1, 2]"
    by code_simp
  then obtain s0 where "indices_for_difficulty sim_store_env (Some ''all'') ''metadata.json''
          ''dgp_info.json'' True initial_state = (Inr [1, 2], s0)"
    by (cases "indices_for_difficulty sim_store_env (Some ''all'') ''metadata.json''
          ''dgp_info.json'' True initial_state") auto
  with t [of "IntArg 3", THEN conjunct2, THEN conjunct1, rule_format, of 3 "[1, 2]" s0]
  obtain msg s' where "load_random_simulations sim_store_env (IntArg 3) (Some ''all'')
          ''acic22/simulations'' (Some 42) True ''metadata.json'' ''dgp_info.json''
          initial_state = (Inl (ValueError msg), s')"
    by auto
  then have fourth: "\<exists>msg. fst (load_random_simulations sim_store_env (IntArg 3) (Some ''all'')
          ''acic22/simulations'' (Some 42) True ''metadata.json'' ''dgp_info.json''
          initial_state) = Inl (ValueError msg)"
    by simp
  from first second third fourth show ?thesis
    by (intro conjI)
qed

end
